theory Spec2Isabelle
  imports Main "HOL-Library.Log_Nat" "HOL-Library.AList"
begin

chapter \<open>The upload benchmark and its reporter\<close>

text \<open>
  A shallow embedding of the benchmark script (sizeToBytes, getKey, the storage calls,
  measure, measureMultipartUploadCases, run) and of the table and chart data computed by
  chart.ts. JavaScript numbers are IEEE doubles; they are modelled by the rationals they
  denote together with NaN and the two infinities, and every arithmetic result is rounded
  to the nearest double. The two zeros are one value: nothing in the script tells them apart.
  Strings are lists of 8-bit characters; the script only builds ASCII strings.
\<close>

section \<open>JavaScript numbers\<close>

datatype number = NaN | PInf | NInf | Fin rat

text \<open>\<open>ilog2 a\<close> is the exponent of the binade of a positive rational: the largest \<open>e\<close>
  with \<open>2 powi e \<le> a\<close>.\<close>

definition ilog2 :: "rat \<Rightarrow> int" where
  "ilog2 a = (if 1 \<le> a then bitlen \<lfloor>a\<rfloor> - 1 else - bitlen (\<lceil>1 / a\<rceil> - 1))"

definition round_even :: "rat \<Rightarrow> int" where
  "round_even x =
     (let f = \<lfloor>x\<rfloor>; d = x - of_int f
      in if d < 1 / 2 then f else if 1 / 2 < d then f + 1 else if even f then f else f + 1)"

text \<open>Round to nearest, ties to even, with 53 significant bits, subnormals below
  \<open>2 powi (- 1022)\<close> and overflow to infinity from \<open>2 ^ 1024\<close>.\<close>

definition round_double :: "rat \<Rightarrow> number" where
  "round_double r =
     (if r = 0 then Fin 0
      else let a = \<bar>r\<bar>;
               ex = max (ilog2 a - 52) (- 1074);
               v = of_int (round_even (a / 2 powi ex)) * 2 powi ex
           in if 2 ^ 1024 \<le> v then (if 0 < r then PInf else NInf)
              else Fin (if 0 < r then v else - v))"

fun js_mul :: "number \<Rightarrow> number \<Rightarrow> number" where
  "js_mul NaN _ = NaN"
| "js_mul _ NaN = NaN"
| "js_mul (Fin a) (Fin b) = round_double (a * b)"
| "js_mul (Fin a) PInf = (if a = 0 then NaN else if 0 < a then PInf else NInf)"
| "js_mul (Fin a) NInf = (if a = 0 then NaN else if 0 < a then NInf else PInf)"
| "js_mul PInf (Fin b) = (if b = 0 then NaN else if 0 < b then PInf else NInf)"
| "js_mul NInf (Fin b) = (if b = 0 then NaN else if 0 < b then NInf else PInf)"
| "js_mul PInf PInf = PInf"
| "js_mul PInf NInf = NInf"
| "js_mul NInf PInf = NInf"
| "js_mul NInf NInf = PInf"

fun js_sub :: "number \<Rightarrow> number \<Rightarrow> number" where
  "js_sub NaN _ = NaN"
| "js_sub _ NaN = NaN"
| "js_sub (Fin a) (Fin b) = round_double (a - b)"
| "js_sub (Fin a) PInf = NInf"
| "js_sub (Fin a) NInf = PInf"
| "js_sub PInf PInf = NaN"
| "js_sub PInf _ = PInf"
| "js_sub NInf NInf = NaN"
| "js_sub NInf _ = NInf"

text \<open>The remainder operator \<open>%\<close>: the result has the sign of the dividend and is exact.\<close>

fun js_rem :: "number \<Rightarrow> number \<Rightarrow> number" where
  "js_rem (Fin a) (Fin b) =
     (if b = 0 then NaN
      else let q = a / b; t = (if 0 \<le> q then \<lfloor>q\<rfloor> else \<lceil>q\<rceil>) in Fin (a - b * of_int t))"
| "js_rem (Fin a) PInf = Fin a"
| "js_rem (Fin a) NInf = Fin a"
| "js_rem _ _ = NaN"

fun js_lt :: "number \<Rightarrow> number \<Rightarrow> bool" where
  "js_lt NaN _ = False"
| "js_lt _ NaN = False"
| "js_lt (Fin a) (Fin b) = (a < b)"
| "js_lt _ NInf = False"
| "js_lt NInf _ = True"
| "js_lt PInf _ = False"
| "js_lt _ PInf = True"

definition js_gt :: "number \<Rightarrow> number \<Rightarrow> bool" where
  "js_gt a b = js_lt b a"

definition js_ge :: "number \<Rightarrow> number \<Rightarrow> bool" where
  "js_ge a b \<longleftrightarrow> a \<noteq> NaN \<and> b \<noteq> NaN \<and> \<not> js_lt a b"

section \<open>Strings and parseFloat\<close>

definition endsWith :: "string \<Rightarrow> string \<Rightarrow> bool" where
  "endsWith s suf \<longleftrightarrow> length suf \<le> length s \<and> drop (length s - length suf) s = suf"

definition startsWith :: "string \<Rightarrow> string \<Rightarrow> bool" where
  "startsWith s pre \<longleftrightarrow> take (length pre) s = pre"

definition is_ws :: "char \<Rightarrow> bool" where
  "is_ws c \<longleftrightarrow> of_char c \<in> {9, 10, 11, 12, 13, 32, 160 :: nat}"

definition is_digit :: "char \<Rightarrow> bool" where
  "is_digit c \<longleftrightarrow> c \<in> set ''0123456789''"

definition digit_val :: "char \<Rightarrow> nat" where
  "digit_val c = of_char c - 48"

definition digits_val :: "string \<Rightarrow> nat" where
  "digits_val ds = foldl (\<lambda>a c. 10 * a + digit_val c) 0 ds"

definition parse_exponent :: "string \<Rightarrow> int" where
  "parse_exponent s =
     (case s of
        [] \<Rightarrow> 0
      | c # t \<Rightarrow>
          if c = CHR ''e'' \<or> c = CHR ''E'' then
            (let neg = (case t of [] \<Rightarrow> False | d # _ \<Rightarrow> d = CHR ''-'');
                 u = (case t of [] \<Rightarrow> []
                      | d # t' \<Rightarrow> if d = CHR ''-'' \<or> d = CHR ''+'' then t' else t);
                 ds = takeWhile is_digit u
             in if ds = [] then 0
                else if neg then - int (digits_val ds) else int (digits_val ds))
          else 0)"

definition sign_neg :: "string \<Rightarrow> bool" where
  "sign_neg s = (case s of [] \<Rightarrow> False | c # _ \<Rightarrow> c = CHR ''-'')"

definition skip_sign :: "string \<Rightarrow> string" where
  "skip_sign s =
     (case s of [] \<Rightarrow> [] | c # t \<Rightarrow> if c = CHR ''-'' \<or> c = CHR ''+'' then t else s)"

definition frac_digits :: "string \<Rightarrow> string" where
  "frac_digits r =
     (case r of [] \<Rightarrow> [] | c # t \<Rightarrow> if c = CHR ''.'' then takeWhile is_digit t else [])"

definition after_frac :: "string \<Rightarrow> string" where
  "after_frac r =
     (case r of [] \<Rightarrow> [] | c # t \<Rightarrow> if c = CHR ''.'' then dropWhile is_digit t else r)"

text \<open>The longest prefix that is an unsigned decimal literal (digits, an optional fraction,
  an optional exponent), as the rational it denotes; \<open>None\<close> when there is no digit.\<close>

definition unsigned_decimal :: "string \<Rightarrow> rat option" where
  "unsigned_decimal s =
     (let ip = takeWhile is_digit s;
          r1 = dropWhile is_digit s;
          fp = frac_digits r1;
          r2 = after_frac r1
      in if ip = [] \<and> fp = [] then None
         else Some (of_nat (digits_val (ip @ fp)) / 10 ^ length fp * 10 powi parse_exponent r2))"

text \<open>The built-in \<open>parseFloat\<close>: leading white space is skipped, then the longest prefix
  that is a signed decimal literal or \<open>Infinity\<close> is read and the rest of the string is
  ignored; with no such prefix the result is NaN.\<close>

definition parseFloat :: "string \<Rightarrow> number" where
  "parseFloat s =
     (let s1 = dropWhile is_ws s;
          neg = sign_neg s1;
          s2 = skip_sign s1
      in if take 8 s2 = ''Infinity'' then (if neg then NInf else PInf)
         else case unsigned_decimal s2 of
                None \<Rightarrow> NaN
              | Some v \<Rightarrow> round_double (if neg then - v else v))"

text \<open>A number in a template literal. Only natural numbers are formatted by the script
  (the two components of \<open>process.hrtime()\<close>), in decimal with no padding.\<close>

fun show_nat :: "nat \<Rightarrow> string" where
  "show_nat n =
     (if n < 10 then [''0123456789'' ! n]
      else show_nat (n div 10) @ [''0123456789'' ! (n mod 10)])"

declare show_nat.simps [simp del]

section \<open>Errors, the environment and the state\<close>

text \<open>A thrown value: \<open>Error\<close> is \<open>new Error(message)\<close> of the script itself, the others are
  thrown by built-ins; a failure of the storage back end or of the network is whatever
  error the environment answers with.\<close>

datatype error = Error string | RangeError string | TypeError string

definition bindE :: "error + 'a \<Rightarrow> ('a \<Rightarrow> error + 'b) \<Rightarrow> error + 'b" where
  "bindE m f = (case m of Inl e \<Rightarrow> Inl e | Inr x \<Rightarrow> f x)"

text \<open>A computation that may also run forever is an \<open>option\<close> of such a result: \<open>None\<close> is
  a run that never returns.\<close>

definition bindP :: "(error + 'a) option \<Rightarrow> ('a \<Rightarrow> (error + 'b) option) \<Rightarrow> (error + 'b) option" where
  "bindP m f = (case m of None \<Rightarrow> None | Some (Inl e) \<Rightarrow> Some (Inl e) | Some (Inr x) \<Rightarrow> f x)"

datatype command =
    CreateBucketCommand string
  | CreateMultipartUploadCommand string string
  | PutObjectCommand string string
  | UploadPartCommand string string string nat
  | CompleteMultipartUploadCommand string string string "(string \<times> nat) list"
  | ListObjectsV2Command string nat
  | DeleteObjectsCommand string "string option list"
  | DeleteBucketCommand string

text \<open>Every interaction with the outside world is recorded in order. A buffer is
  represented by its length: \<open>Buffer.allocUnsafe\<close> leaves the contents unspecified.\<close>

datatype event =
    DateNow
  | HrTime
  | Send command
  | GetSignedUrl command
  | KyPut string nat
  | WriteFile string "(string \<times> int list) list"

text \<open>The environment answers the \<open>i\<close>-th interaction of a run; the script is deterministic,
  so an answer indexed by its position covers every behaviour of the outside world.\<close>

record env =
  Bucket :: string
  kMaxLength :: nat
  date_now :: "nat \<Rightarrow> int"
  hrtime :: "nat \<Rightarrow> nat \<times> nat"
  send_reply :: "nat \<Rightarrow> error option"
  create_multipart_reply :: "nat \<Rightarrow> error + (string option \<times> string option)"
  list_reply :: "nat \<Rightarrow> error + string option list option"
  sign_reply :: "nat \<Rightarrow> error + string"
  put_reply :: "nat \<Rightarrow> error + string option"
  write_reply :: "nat \<Rightarrow> error option"
  stdout_isTTY :: bool

text \<open>The mutable state of the process: the interactions so far and the \<open>measures\<close> object,
  an association list in insertion order.\<close>

record state =
  trace :: "event list"
  measures_tbl :: "(string \<times> int list) list"

definition emit :: "event \<Rightarrow> state \<Rightarrow> state" where
  "emit ev st = st\<lparr>trace := trace st @ [ev]\<rparr>"

definition now :: "env \<Rightarrow> state \<Rightarrow> int \<times> state" where
  "now e st = (date_now e (length (trace st)), emit DateNow st)"

definition hr :: "env \<Rightarrow> state \<Rightarrow> (nat \<times> nat) \<times> state" where
  "hr e st = (hrtime e (length (trace st)), emit HrTime st)"

definition send :: "env \<Rightarrow> command \<Rightarrow> state \<Rightarrow> error + state" where
  "send e cmd st =
     (case send_reply e (length (trace st)) of
        Some err \<Rightarrow> Inl err
      | None \<Rightarrow> Inr (emit (Send cmd) st))"

definition getSignedUrl :: "env \<Rightarrow> command \<Rightarrow> state \<Rightarrow> error + string \<times> state" where
  "getSignedUrl e cmd st =
     (case sign_reply e (length (trace st)) of
        Inl err \<Rightarrow> Inl err
      | Inr url \<Rightarrow> Inr (url, emit (GetSignedUrl cmd) st))"

definition ky_put :: "env \<Rightarrow> string \<Rightarrow> nat \<Rightarrow> state \<Rightarrow> error + string option \<times> state" where
  "ky_put e url body st =
     (case put_reply e (length (trace st)) of
        Inl err \<Rightarrow> Inl err
      | Inr etag \<Rightarrow> Inr (etag, emit (KyPut url body) st))"

definition push_measure :: "string \<Rightarrow> int \<Rightarrow> state \<Rightarrow> error + state" where
  "push_measure name v st =
     (case map_of (measures_tbl st) name of
        None \<Rightarrow> Inl (TypeError ''Cannot read properties of undefined'')
      | Some xs \<Rightarrow> Inr (st\<lparr>measures_tbl := AList.update name (xs @ [v]) (measures_tbl st)\<rparr>))"

section \<open>The benchmark script\<close>

definition getFileOfSize :: "env \<Rightarrow> number \<Rightarrow> error + nat" where
  "getFileOfSize e sizeBytes =
     (case sizeBytes of
        Fin r \<Rightarrow>
          if 0 \<le> r \<and> r \<le> of_nat (kMaxLength e) then Inr (nat \<lfloor>r\<rfloor>)
          else Inl (RangeError ''The value of size is out of range'')
      | _ \<Rightarrow> Inl (RangeError ''The value of size is out of range''))"

definition key_of :: "string \<Rightarrow> nat \<times> nat \<Rightarrow> nat \<times> nat \<Rightarrow> string" where
  "key_of base h1 h2 = base @ ''/'' @ show_nat (fst h1) @ show_nat (snd h2)"

definition getKey :: "env \<Rightarrow> string \<Rightarrow> state \<Rightarrow> string \<times> state" where
  "getKey e base st =
     (let (h1, st1) = hr e st; (h2, st2) = hr e st1 in (key_of base h1 h2, st2))"

definition getTraditionalPresignedUrl :: "env \<Rightarrow> string \<Rightarrow> state \<Rightarrow> error + string \<times> state" where
  "getTraditionalPresignedUrl e prefix st =
     (let (key, st1) = getKey e prefix st
      in getSignedUrl e (PutObjectCommand (Bucket e) key) st1)"

definition initiateMultipart ::
  "env \<Rightarrow> string \<Rightarrow> state \<Rightarrow> error + (string option \<times> string option) \<times> state" where
  "initiateMultipart e prefix st =
     (let (key, st1) = getKey e prefix st
      in case create_multipart_reply e (length (trace st1)) of
           Inl err \<Rightarrow> Inl err
         | Inr out \<Rightarrow> Inr (out, emit (Send (CreateMultipartUploadCommand (Bucket e) key)) st1))"

definition getMultipartPresignedUrl ::
  "env \<Rightarrow> string \<Rightarrow> string \<Rightarrow> nat \<Rightarrow> state \<Rightarrow> error + string \<times> state" where
  "getMultipartPresignedUrl e Key UploadId PartNumber st =
     getSignedUrl e (UploadPartCommand (Bucket e) Key UploadId PartNumber) st"

definition completeMultipart :: "env \<Rightarrow> string \<Rightarrow> string \<Rightarrow> string list \<Rightarrow> state \<Rightarrow> error + state" where
  "completeMultipart e UploadId Key eTags st =
     send e (CompleteMultipartUploadCommand (Bucket e) Key UploadId
               (map (\<lambda>(index, ETag). (ETag, index + 1)) (enumerate 0 eTags))) st"

definition traditionalUpload :: "env \<Rightarrow> string \<Rightarrow> nat \<Rightarrow> state \<Rightarrow> error + state" where
  "traditionalUpload e prefix file st =
     bindE (getTraditionalPresignedUrl e prefix st) (\<lambda>(url, st1).
     bindE (ky_put e url file st1) (\<lambda>(_, st2). Inr st2))"

definition multipartUpload ::
  "env \<Rightarrow> string \<Rightarrow> string \<Rightarrow> nat \<Rightarrow> nat \<Rightarrow> state \<Rightarrow> error + string \<times> state" where
  "multipartUpload e UploadId Key partNumber file st =
     bindE (getMultipartPresignedUrl e Key UploadId partNumber st) (\<lambda>(url, st1).
     bindE (ky_put e url file st1) (\<lambda>(etag, st2).
       Inr (case etag of None \<Rightarrow> '''' | Some t \<Rightarrow> t, st2)))"

definition sizeToBytes :: "string \<Rightarrow> error + number" where
  "sizeToBytes sz =
     (if endsWith sz ''k'' then Inr (js_mul (parseFloat sz) (Fin 1024))
      else if endsWith sz ''m'' then
        Inr (js_mul (js_mul (parseFloat sz) (Fin 1024)) (Fin 1024))
      else if endsWith sz ''g'' then
        Inr (js_mul (js_mul (js_mul (parseFloat sz) (Fin 1024)) (Fin 1024)) (Fin 1024))
      else Inl (Error (''Invalid size '' @ sz)))"

text \<open>The listing of \<open>cleanup\<close>: the keys of \<open>Contents\<close>, or no object when the reply
  has no \<open>Contents\<close>.\<close>

definition listObjects :: "env \<Rightarrow> state \<Rightarrow> error + string option list \<times> state" where
  "listObjects e st =
     (case list_reply e (length (trace st)) of
        Inl err \<Rightarrow> Inl err
      | Inr contents \<Rightarrow>
          Inr (case contents of None \<Rightarrow> [] | Some objs \<Rightarrow> objs,
               emit (Send (ListObjectsV2Command (Bucket e) 2147483647)) st))"

partial_function (option) cleanup_loop ::
  "env \<Rightarrow> string option list \<Rightarrow> state \<Rightarrow> (error + state) option" where
  "cleanup_loop e Objects st =
     (if Objects \<noteq> [] then
        (case send e (DeleteObjectsCommand (Bucket e) Objects) st of
           Inl err \<Rightarrow> Some (Inl err)
         | Inr st1 \<Rightarrow>
             (case listObjects e st1 of
                Inl err \<Rightarrow> Some (Inl err)
              | Inr (Objects', st2) \<Rightarrow> cleanup_loop e Objects' st2))
      else Some (Inr st))"

definition cleanup :: "env \<Rightarrow> state \<Rightarrow> (error + state) option" where
  "cleanup e st =
     (case listObjects e st of
        Inl err \<Rightarrow> Some (Inl err)
      | Inr (Objects, st1) \<Rightarrow> cleanup_loop e Objects st1)"

text \<open>The object handed to \<open>measure\<close>: with a \<open>setup\<close> whose result is passed to every
  call of \<open>fn\<close>, or \<open>fn\<close> alone.\<close>

datatype 'r bench =
    WithSetup "state \<Rightarrow> (error + 'r \<times> state) option" "'r \<Rightarrow> state \<Rightarrow> (error + state) option"
  | FnOnly "state \<Rightarrow> (error + state) option"

text \<open>\<open>process.stdout.clearLine(0)\<close>, lines 189 and 196. The method exists only when the
  standard output is a terminal; otherwise the call throws. What is printed is not
  modelled.\<close>

definition clearLine :: "env \<Rightarrow> state \<Rightarrow> error + state" where
  "clearLine e st =
     (if stdout_isTTY e then Inr st
      else Inl (TypeError ''process.stdout.clearLine is not a function''))"

text \<open>One turn of the sampling loop of \<open>measure\<close>, lines 180 to 193: the action runs
  between two readings of the clock, their difference is appended to the entry of
  \<open>name\<close>, and the line of progress is cleared and written again. \<open>iter\<close> is \<open>run.fn\<close>,
  already applied to the result of the setup when there is one.\<close>

definition sample_once ::
  "env \<Rightarrow> string \<Rightarrow> (state \<Rightarrow> (error + state) option) \<Rightarrow> state \<Rightarrow> (error + state) option" where
  "sample_once e name iter st =
     (let (start, st1) = now e st
      in bindP (iter st1) (\<lambda>st2.
           let (end, st3) = now e st2
           in bindP (Some (push_measure name (end - start) st3)) (\<lambda>st4.
                Some (clearLine e st4))))"

text \<open>The guard of the loop, line 179. The clock is read only once three samples are
  in: the disjunction short-circuits.\<close>

definition loop_guard :: "env \<Rightarrow> int list \<Rightarrow> int \<Rightarrow> int \<Rightarrow> state \<Rightarrow> bool \<times> state" where
  "loop_guard e samples maxTimeMs overallStart st =
     (if length samples < 3 then (True, st)
      else (let (t, st') = now e st in (t - overallStart < maxTimeMs, st')))"

partial_function (option) measure_loop ::
  "env \<Rightarrow> string \<Rightarrow> (state \<Rightarrow> (error + state) option) \<Rightarrow> int \<Rightarrow> int \<Rightarrow> state \<Rightarrow>
   (error + state) option" where
  "measure_loop e name iter maxTimeMs overallStart st =
     (case map_of (measures_tbl st) name of
        None \<Rightarrow> Some (Inl (TypeError ''Cannot read properties of undefined''))
      | Some samples \<Rightarrow>
          (let (again, st1) = loop_guard e samples maxTimeMs overallStart st
           in if again then
                (case sample_once e name iter st1 of
                   None \<Rightarrow> None
                 | Some (Inl err) \<Rightarrow> Some (Inl err)
                 | Some (Inr st2) \<Rightarrow> measure_loop e name iter maxTimeMs overallStart st2)
              else Some (Inr st1)))"

text \<open>Lines 168 to 194 of \<open>measure\<close>: the entry is created when absent, the start of
  the scenario is read, the setup runs once, then the loop.\<close>

definition measure_sampling ::
  "env \<Rightarrow> string \<Rightarrow> 'r bench \<Rightarrow> int \<Rightarrow> state \<Rightarrow> (error + state) option" where
  "measure_sampling e name run maxTimeMs st =
     (let st0 = (case map_of (measures_tbl st) name of
                   None \<Rightarrow> st\<lparr>measures_tbl := AList.update name [] (measures_tbl st)\<rparr>
                 | Some _ \<Rightarrow> st);
          (overallStart, st1) = now e st0
      in case run of
           WithSetup setup fn \<Rightarrow>
             bindP (setup st1) (\<lambda>(res, st2).
               measure_loop e name (fn res) maxTimeMs overallStart st2)
         | FnOnly fn \<Rightarrow> measure_loop e name fn maxTimeMs overallStart st1)"

text \<open>Lines 196 to 205: the line of progress is cleared, the objects of the bucket are
  deleted and the whole \<open>measures\<close> object is written to results.json.\<close>

definition measure_flush :: "env \<Rightarrow> state \<Rightarrow> (error + state) option" where
  "measure_flush e st =
     bindP (Some (clearLine e st)) (\<lambda>st0.
       bindP (cleanup e st0) (\<lambda>st1.
         case write_reply e (length (trace st1)) of
           Some err \<Rightarrow> Some (Inl err)
         | None \<Rightarrow> Some (Inr (emit (WriteFile ''results.json'' (measures_tbl st1)) st1))))"

definition measure_scenario ::
  "env \<Rightarrow> string \<Rightarrow> 'r bench \<Rightarrow> int \<Rightarrow> state \<Rightarrow> (error + state) option" where
  "measure_scenario e name run maxTimeMs st =
     bindP (measure_sampling e name run maxTimeMs st) (measure_flush e)"

fun measureTraditionalUploadCases :: "env \<Rightarrow> string list \<Rightarrow> state \<Rightarrow> (error + state) option" where
  "measureTraditionalUploadCases e [] st = Some (Inr st)"
| "measureTraditionalUploadCases e (sz # sizes) st =
     bindP (measure_scenario e (''traditional-upload-'' @ sz)
              (WithSetup
                 (\<lambda>s. Some (bindE (sizeToBytes sz) (\<lambda>n.
                         bindE (getFileOfSize e n) (\<lambda>file. Inr (file, s)))))
                 (\<lambda>file s. Some (traditionalUpload e (''traditional-upload-'' @ sz) file s)))
              2000 st)
       (measureTraditionalUploadCases e sizes)"

text \<open>The template literals of a multipart scenario: the names of its three entries
  of \<open>measures\<close> and the prefix of its object keys.\<close>

definition total_name :: "string \<Rightarrow> string \<Rightarrow> string" where
  "total_name sz chunk = ''upload-multipart-total-'' @ sz @ ''-'' @ chunk"

definition upload_name :: "string \<Rightarrow> string \<Rightarrow> string" where
  "upload_name sz chunk = ''upload-multipart-upload-'' @ sz @ ''-'' @ chunk"

definition complete_name :: "string \<Rightarrow> string \<Rightarrow> string" where
  "complete_name sz chunk = ''upload-multipart-complete-'' @ sz @ ''-'' @ chunk"

definition multipart_prefix :: "string \<Rightarrow> string \<Rightarrow> string" where
  "multipart_prefix sz chunk = ''multipart-upload-'' @ sz @ ''-'' @ chunk"

record fixture =
  chunkData :: nat
  lastChunkData :: nat
  uploadMeasure :: string
  completeMeasure :: string

definition multipart_setup :: "env \<Rightarrow> string \<Rightarrow> string \<Rightarrow> state \<Rightarrow> error + fixture \<times> state" where
  "multipart_setup e sz chunk st =
     bindE (sizeToBytes chunk) (\<lambda>c1.
     bindE (getFileOfSize e c1) (\<lambda>cd.
     bindE (sizeToBytes sz) (\<lambda>s1.
     bindE (sizeToBytes chunk) (\<lambda>c2.
     bindE (getFileOfSize e (js_rem s1 c2)) (\<lambda>lcd.
       let um = upload_name sz chunk;
           cm = complete_name sz chunk
       in Inr (\<lparr>chunkData = cd, lastChunkData = lcd, uploadMeasure = um, completeMeasure = cm\<rparr>,
               st\<lparr>measures_tbl := AList.update cm [] (AList.update um [] (measures_tbl st))\<rparr>))))))"

text \<open>The loop at lines 260 to 267: one chunk-sized part per turn while more than a
  chunk remains.\<close>

partial_function (option) upload_chunks ::
  "env \<Rightarrow> string \<Rightarrow> string \<Rightarrow> string \<Rightarrow> nat \<Rightarrow> number \<Rightarrow> number \<Rightarrow> nat \<Rightarrow> string list \<Rightarrow> state \<Rightarrow>
   (error + (number \<times> nat \<times> string list) \<times> state) option" where
  "upload_chunks e chunk UploadId Key cd chunkSize remainingBytes partNumber eTags st =
     (if js_gt remainingBytes chunkSize then
        (case multipartUpload e UploadId Key partNumber cd st of
           Inl err \<Rightarrow> Some (Inl err)
         | Inr (tag, st1) \<Rightarrow>
             (case sizeToBytes chunk of
                Inl err \<Rightarrow> Some (Inl err)
              | Inr c \<Rightarrow>
                  upload_chunks e chunk UploadId Key cd chunkSize
                    (js_sub remainingBytes c) (partNumber + 1) (eTags @ [tag]) st1))
      else Some (Inr ((remainingBytes, partNumber, eTags), st)))"

text \<open>Lines 256 to 281: the part uploads, timed into the upload bucket, then the
  finalize call, timed into the complete bucket.\<close>

definition multipart_parts ::
  "env \<Rightarrow> string \<Rightarrow> fixture \<Rightarrow> number \<Rightarrow> number \<Rightarrow> string \<Rightarrow> string \<Rightarrow> state \<Rightarrow>
   (error + state) option" where
  "multipart_parts e chunk fx remainingBytes chunkSize UploadId Key st =
     (let (start, st1) = now e st
      in bindP (upload_chunks e chunk UploadId Key (chunkData fx) chunkSize
                  remainingBytes 1 [] st1) (\<lambda>((remaining, partNumber, eTags), st2).
         bindP (if js_gt remaining (Fin 0) then
                  Some (bindE (multipartUpload e UploadId Key partNumber (lastChunkData fx) st2)
                          (\<lambda>(tag, st3). Inr (eTags @ [tag], st3)))
                else Some (Inr (eTags, st2))) (\<lambda>(eTags', st3).
           let (end, st4) = now e st3
           in Some (bindE (push_measure (uploadMeasure fx) (end - start) st4) (\<lambda>st5.
                let (start', st6) = now e st5
                in bindE (completeMultipart e UploadId Key eTags' st6) (\<lambda>st7.
                     let (end', st8) = now e st7
                     in push_measure (completeMeasure fx) (end' - start') st8))))))"

text \<open>The \<open>fn\<close> of a multipart scenario, lines 239 to 282. \<open>!UploadId || !Key\<close> holds for
  an absent field and for an empty string.\<close>

definition multipart_fn ::
  "env \<Rightarrow> string \<Rightarrow> string \<Rightarrow> fixture \<Rightarrow> state \<Rightarrow> (error + state) option" where
  "multipart_fn e sz chunk fx st =
     bindP (Some (sizeToBytes sz)) (\<lambda>remainingBytes.
     bindP (Some (sizeToBytes chunk)) (\<lambda>chunkSize.
     bindP (Some (initiateMultipart e (multipart_prefix sz chunk) st))
       (\<lambda>((UploadId, Key), st1).
          case (UploadId, Key) of
            (Some u, Some k) \<Rightarrow>
              if u = [] \<or> k = [] then Some (Inl (Error ''UploadId or Key is undefined''))
              else multipart_parts e chunk fx remainingBytes chunkSize u k st1
          | _ \<Rightarrow> Some (Inl (Error ''UploadId or Key is undefined'')))))"

definition multipart_budget :: "string \<Rightarrow> error + int" where
  "multipart_budget sz =
     bindE (sizeToBytes sz) (\<lambda>a.
     bindE (sizeToBytes ''1g'') (\<lambda>b. Inr (if js_ge a b then 10000 else 2000)))"

definition measure_multipart :: "env \<Rightarrow> string \<Rightarrow> string \<Rightarrow> state \<Rightarrow> (error + state) option" where
  "measure_multipart e sz chunk st =
     bindP (Some (multipart_budget sz)) (\<lambda>maxTimeMs.
       measure_scenario e (total_name sz chunk)
         (WithSetup (\<lambda>s. Some (multipart_setup e sz chunk s)) (multipart_fn e sz chunk))
         maxTimeMs st)"

fun measure_chunks :: "env \<Rightarrow> string \<Rightarrow> string list \<Rightarrow> state \<Rightarrow> (error + state) option" where
  "measure_chunks e sz [] st = Some (Inr st)"
| "measure_chunks e sz (chunk # chunks) st =
     bindP (measure_multipart e sz chunk st) (measure_chunks e sz chunks)"

fun measureMultipartUploadCases ::
  "env \<Rightarrow> string list \<Rightarrow> string list \<Rightarrow> state \<Rightarrow> (error + state) option" where
  "measureMultipartUploadCases e [] chunks st = Some (Inr st)"
| "measureMultipartUploadCases e (sz # sizes) chunks st =
     bindP (measure_chunks e sz chunks st) (measureMultipartUploadCases e sizes chunks)"

text \<open>The setup of the scenario get-multipart-presigned-url-only, lines 308 to 316.\<close>

definition presign_setup :: "env \<Rightarrow> state \<Rightarrow> error + (string \<times> string) \<times> state" where
  "presign_setup e st =
     bindE (initiateMultipart e ''multipart-presigned-url-only'' st) (\<lambda>((UploadId, Key), st1).
       case (Key, UploadId) of
         (Some k, Some u) \<Rightarrow>
           if k = [] \<or> u = [] then Inl (Error ''Key or UploadId is undefined'')
           else Inr ((k, u), st1)
       | _ \<Rightarrow> Inl (Error ''Key or UploadId is undefined''))"

definition drop_result :: "error + 'a \<times> state \<Rightarrow> (error + state) option" where
  "drop_result r = Some (bindE r (\<lambda>(_, s). Inr s))"

text \<open>The actions of the three scenarios that \<open>run\<close> measures first.\<close>

definition presigned_url_only :: "env \<Rightarrow> state \<Rightarrow> (error + state) option" where
  "presigned_url_only e s =
     drop_result (getTraditionalPresignedUrl e ''traditional-presigned-url-only'' s)"

definition initiate_only :: "env \<Rightarrow> state \<Rightarrow> (error + state) option" where
  "initiate_only e s = drop_result (initiateMultipart e ''initiate-multipart-only'' s)"

definition part_presign :: "env \<Rightarrow> string \<times> string \<Rightarrow> state \<Rightarrow> (error + state) option" where
  "part_presign e r s =
     (case r of (Key, UploadId) \<Rightarrow> drop_result (getMultipartPresignedUrl e Key UploadId 1 s))"

definition run :: "env \<Rightarrow> state \<Rightarrow> (error + state) option" where
  "run e st =
     bindP (Some (send e (CreateBucketCommand (Bucket e)) st)) (\<lambda>st1.
     bindP (measure_scenario e ''get-traditional-presigned-url''
              (FnOnly (presigned_url_only e) :: unit bench) 1000 st1) (\<lambda>st2.
     bindP (measure_scenario e ''initiate-multipart-only''
              (FnOnly (initiate_only e) :: unit bench) 1000 st2) (\<lambda>st3.
     bindP (measure_scenario e ''get-multipart-presigned-url-only''
              (WithSetup (\<lambda>s. Some (presign_setup e s)) (part_presign e)) 1000 st3) (\<lambda>st4.
     bindP (measureTraditionalUploadCases e
              [''512k'', ''5m'', ''10m'', ''25m'', ''50m'', ''100m'', ''1g'', ''1.5g''] st4) (\<lambda>st5.
     bindP (measureMultipartUploadCases e
              [''512k'', ''5m'', ''10m'', ''25m'', ''50m'', ''100m'']
              [''5m'', ''25m'', ''50m'', ''100m''] st5) (\<lambda>st6.
     bindP (measureMultipartUploadCases e
              [''1g'', ''2g'', ''5g'']
              [''5m'', ''25m'', ''50m'', ''100m'', ''200m'', ''500m''] st6) (\<lambda>st7.
     bindP (cleanup e st7) (\<lambda>st8.
       Some (send e (DeleteBucketCommand (Bucket e)) st8)))))))))"

section \<open>The reporter\<close>

text \<open>The values that the reporter hands to a chart or formats into a cell.\<close>

datatype jsval = Undefined | Null | Num number

text \<open>An argument of \<open>Stats.push\<close>: an array of samples, a single sample, or \<open>undefined\<close>,
  which is what \<open>results[key]\<close> is for a key that the store does not have.\<close>

datatype arg = ArrayArg "number list" | NumberArg number | UndefinedArg

text \<open>What the reporter takes from outside the repository. The package fast-stats is used
  in one way only, \<open>new Stats().push(...).amean()\<close>: \<open>stats_amean\<close> is the value of that
  expression as a function of the arguments of \<open>push\<close>. \<open>exponent_notation\<close> is the text
  of a number of magnitude \<open>10 ^ 21\<close> or more, which \<open>toFixed\<close> falls back to.\<close>

record outside =
  stats_amean :: "arg list \<Rightarrow> jsval"
  exponent_notation :: "rat \<Rightarrow> string"

text \<open>\<open>x.toFixed(3)\<close> for a number: the integer nearest to a thousand times the magnitude,
  the larger one at a tie, printed with three decimals.\<close>

definition fixed_digits :: "rat \<Rightarrow> string" where
  "fixed_digits x =
     (let ds = show_nat (nat \<lfloor>\<bar>x\<bar> * 1000 + 1 / 2\<rfloor>);
          m = replicate (4 - length ds) CHR ''0'' @ ds
      in (if x < 0 then ''-'' else []) @ take (length m - 3) m @ ''.'' @ drop (length m - 3) m)"

definition toFixed3 :: "outside \<Rightarrow> number \<Rightarrow> string" where
  "toFixed3 out v =
     (case v of
        NaN \<Rightarrow> ''NaN''
      | PInf \<Rightarrow> ''Infinity''
      | NInf \<Rightarrow> ''-Infinity''
      | Fin x \<Rightarrow> if \<bar>x\<bar> < 10 ^ 21 then fixed_digits x else exponent_notation out x)"



definition nullish :: "jsval \<Rightarrow> bool" where
  "nullish v \<longleftrightarrow> v = Undefined \<or> v = Null"

text \<open>\<open>s.split('-')\<close>, and an element of the result used as a property name or in a
  template literal, where a missing element reads as \<open>undefined\<close>.\<close>

fun split_dash :: "string \<Rightarrow> string list" where
  "split_dash [] = [[]]"
| "split_dash (c # s) =
     (if c = CHR ''-'' then [] # split_dash s
      else (case split_dash s of [] \<Rightarrow> [[c]] | w # ws \<Rightarrow> (c # w) # ws))"

definition segment :: "string \<Rightarrow> nat \<Rightarrow> string" where
  "segment key i = (let ws = split_dash key in if i < length ws then ws ! i else ''undefined'')"

text \<open>The store read from the file of results: an object from scenario names to arrays of
  samples, as the list of its properties in order, each name once.\<close>

type_synonym store = "(string \<times> number list) list"

subsection \<open>fullUploadStats\<close>

type_synonym row = "(string \<times> jsval) list"

definition row_names :: "string list" where
  "row_names = [''traditional'', ''multipart-5m-chunks'', ''multipart-25m-chunks'',
     ''multipart-50m-chunks'', ''multipart-100m-chunks'', ''multipart-200m-chunks'',
     ''multipart-500m-chunks'']"

definition byType_init :: "(string \<times> row) list" where
  "byType_init = map (\<lambda>n. (n, [])) row_names"

text \<open>\<open>byType[r][c] = v\<close>, which throws when \<open>byType\<close> has no row \<open>r\<close>.\<close>

definition assign :: "string \<Rightarrow> string \<Rightarrow> jsval \<Rightarrow> (string \<times> row) list \<Rightarrow> error + (string \<times> row) list" where
  "assign r c v byType =
     (case map_of byType r of
        None \<Rightarrow> Inl (TypeError ''Cannot set properties of undefined'')
      | Some cells \<Rightarrow> Inr (AList.update r (AList.update c v cells) byType))"

text \<open>The body of the loop over the keys of the store, lines 150 to 162. A traditional
  scenario pushes the array of its samples, a multipart one spreads it.\<close>

definition collect_key ::
  "outside \<Rightarrow> string \<Rightarrow> number list \<Rightarrow> (string \<times> row) list \<Rightarrow> error + (string \<times> row) list" where
  "collect_key out key xs byType =
     bindE (if startsWith key ''traditional-upload''
            then assign ''traditional'' (segment key 2) (stats_amean out [ArrayArg xs]) byType
            else Inr byType)
       (\<lambda>b1. if startsWith key ''upload-multipart-total''
              then assign (''multipart-'' @ segment key 4 @ ''-chunks'') (segment key 3)
                     (stats_amean out (map NumberArg xs)) b1
              else Inr b1)"

fun collect :: "outside \<Rightarrow> store \<Rightarrow> (string \<times> row) list \<Rightarrow> error + (string \<times> row) list" where
  "collect out [] byType = Inr byType"
| "collect out ((key, xs) # rest) byType = bindE (collect_key out key xs byType) (collect out rest)"

definition full_sizes :: "string list" where
  "full_sizes = [''512k'', ''5m'', ''10m'', ''25m'', ''50m'', ''100m'', ''1g'', ''1.5g'', ''2g'', ''5g'']"

text \<open>The two local functions of \<open>fullUploadStats\<close>, lines 165 to 196.\<close>

definition dataFromRow :: "row \<Rightarrow> jsval list" where
  "dataFromRow cells =
     map (\<lambda>v. if nullish v then Null else v)
       (map (\<lambda>s. case map_of cells s of None \<Rightarrow> Undefined | Some v \<Rightarrow> v) full_sizes)"

definition tableFromRow :: "outside \<Rightarrow> row \<Rightarrow> string list" where
  "tableFromRow out cells =
     map (\<lambda>v. case v of Num x \<Rightarrow> toFixed3 out x | _ \<Rightarrow> []) (dataFromRow cells)"

definition row_of :: "(string \<times> row) list \<Rightarrow> string \<Rightarrow> row" where
  "row_of byType r = (case map_of byType r of None \<Rightarrow> [] | Some cells \<Rightarrow> cells)"

definition row_labels :: "string list" where
  "row_labels = [''Traditional'', ''Multipart (5m chunks)'', ''Multipart (25m chunks)'',
     ''Multipart (50m chunks)'', ''Multipart (100m chunks)'', ''Multipart (200m chunks)'',
     ''Multipart (500m chunks)'']"

text \<open>What \<open>fullUploadStats\<close> hands on: the cells of the table of upload-stats.md and the
  series of the charts upload-stats.png and upload-stats-detailed.png.\<close>

record full_report =
  tableValues :: "string list list"
  chart_series :: "jsval list list"
  chart_truncated :: "jsval list list"

definition fullUploadStats :: "outside \<Rightarrow> store \<Rightarrow> error + full_report" where
  "fullUploadStats out results =
     bindE (collect out results byType_init) (\<lambda>byType.
       Inr \<lparr>tableValues =
              (''Upload type'' # full_sizes) #
              map (\<lambda>(l, r). l # tableFromRow out (row_of byType r)) (zip row_labels row_names),
            chart_series = map (\<lambda>r. dataFromRow (row_of byType r)) row_names,
            chart_truncated = map (\<lambda>r. take 6 (dataFromRow (row_of byType r))) (take 5 row_names)\<rparr>)"

subsection \<open>processDetailedMultipartStats\<close>












section \<open>Notions used to state the properties\<close>

definition is_suffix_char :: "char \<Rightarrow> bool" where
  "is_suffix_char c \<longleftrightarrow> c = CHR ''k'' \<or> c = CHR ''m'' \<or> c = CHR ''g''"

text \<open>A size string with a numeric prefix: the digits \<open>ds\<close>, followed by a point and the
  digits \<open>fs\<close> when there are any; and the rational the prefix denotes.\<close>

definition numeric_prefix :: "string \<Rightarrow> string \<Rightarrow> string" where
  "numeric_prefix ds fs = (if fs = [] then ds else ds @ CHR ''.'' # fs)"

definition prefix_value :: "string \<Rightarrow> string \<Rightarrow> rat" where
  "prefix_value ds fs = of_nat (digits_val (ds @ fs)) / 10 ^ length fs"

text \<open>The byte count as the specification words it: the product, rounded to an integer.\<close>

definition spec_size_bytes :: "rat \<Rightarrow> nat \<Rightarrow> rat" where
  "spec_size_bytes p n = of_int (round (p * 1024 ^ n))"

text \<open>The state at the start of the process, and an environment in which every call
  succeeds: the clock and the readings of \<open>process.hrtime()\<close> are given, each initiation
  answers with both identifiers, the bucket lists no object, and the \<open>i\<close>-th interaction,
  when it is a PUT, answers with the header \<open>etags i\<close>.\<close>

definition st0 :: state where
  "st0 = \<lparr>trace = [], measures_tbl = []\<rparr>"

definition backend :: "(nat \<Rightarrow> int) \<Rightarrow> (nat \<Rightarrow> nat \<times> nat) \<Rightarrow> (nat \<Rightarrow> string option) \<Rightarrow> env" where
  "backend clock ticks etags =
     \<lparr>Bucket = ''benchmark-00c0ffee00'',
      kMaxLength = 4294967296,
      date_now = clock,
      hrtime = ticks,
      send_reply = (\<lambda>_. None),
      create_multipart_reply = (\<lambda>_. Inr (Some ''upload-1'', Some ''key-1'')),
      list_reply = (\<lambda>_. Inr None),
      sign_reply = (\<lambda>_. Inr ''http://localhost:9000/signed''),
      put_reply = (\<lambda>i. Inr (etags i)),
      write_reply = (\<lambda>_. None),
      stdout_isTTY = True\<rparr>"

text \<open>The samples recorded under a scenario name.\<close>

definition samples :: "state \<Rightarrow> string \<Rightarrow> int list option" where
  "samples st name = map_of (measures_tbl st) name"

text \<open>An action that returns normally from every state, leaves the entry of \<open>name\<close>
  alone and only adds to the record of interactions; a setup likewise.\<close>

definition action_ok :: "string \<Rightarrow> (state \<Rightarrow> (error + state) option) \<Rightarrow> bool" where
  "action_ok name f \<longleftrightarrow>
     (\<forall>s. \<exists>s'. f s = Some (Inr s') \<and> samples s' name = samples s name \<and>
              length (trace s) \<le> length (trace s'))"

definition setup_ok :: "string \<Rightarrow> (state \<Rightarrow> (error + 'r \<times> state) option) \<Rightarrow> bool" where
  "setup_ok name f \<longleftrightarrow>
     (\<forall>s. \<exists>r s'. f s = Some (Inr (r, s')) \<and> samples s' name = samples s name \<and>
                length (trace s) \<le> length (trace s'))"

definition bench_ok :: "string \<Rightarrow> 'r bench \<Rightarrow> bool" where
  "bench_ok name b =
     (case b of
        WithSetup setup fn \<Rightarrow> setup_ok name setup \<and> (\<forall>r. action_ok name (fn r))
      | FnOnly fn \<Rightarrow> action_ok name fn)"

text \<open>An action whose every run, between the two clock readings of one turn of the
  sampling loop, takes longer than \<open>budget\<close> milliseconds.\<close>

definition slower_than :: "env \<Rightarrow> int \<Rightarrow> (state \<Rightarrow> (error + state) option) \<Rightarrow> bool" where
  "slower_than e budget f \<longleftrightarrow>
     (\<forall>s s'. f (emit DateNow s) = Some (Inr s') \<longrightarrow>
        budget < date_now e (length (trace s')) - date_now e (length (trace s)))"

definition bench_slower :: "env \<Rightarrow> int \<Rightarrow> 'r bench \<Rightarrow> bool" where
  "bench_slower e budget b =
     (case b of
        WithSetup setup fn \<Rightarrow> (\<forall>r. slower_than e budget (fn r))
      | FnOnly fn \<Rightarrow> slower_than e budget fn)"

definition clock_monotone :: "env \<Rightarrow> bool" where
  "clock_monotone e \<longleftrightarrow> (\<forall>i j. i \<le> j \<longrightarrow> date_now e i \<le> date_now e j)"

text \<open>The completion tag the script takes from the answer to a PUT, and the tags of the
  PUTs recorded in a stretch of interactions that starts at position \<open>i\<close>.\<close>

definition tag_of :: "error + string option \<Rightarrow> string" where
  "tag_of r = (case r of Inr (Some t) \<Rightarrow> t | _ \<Rightarrow> [])"

fun put_tags :: "env \<Rightarrow> nat \<Rightarrow> event list \<Rightarrow> string list" where
  "put_tags e i [] = []"
| "put_tags e i (ev # evs) =
     (case ev of KyPut _ _ \<Rightarrow> [tag_of (put_reply e i)] | _ \<Rightarrow> []) @ put_tags e (Suc i) evs"

text \<open>Two timers for the keys, as the answers of successive calls of
  \<open>process.hrtime()\<close>, each later than the one before: 1 s 20 ns, 1 s 23 ns, 12 s 1 ns,
  12 s 3 ns; and 7 s 3 ns, 7 s 5 ns, 7 s 999999999 ns, 8 s 5 ns.\<close>

definition unpadded_ticks :: "nat \<Rightarrow> nat \<times> nat" where
  "unpadded_ticks i = [(1, 20), (1, 23), (12, 1), (12, 3)] ! (i mod 4)"

definition straddling_ticks :: "nat \<Rightarrow> nat \<times> nat" where
  "straddling_ticks i = [(7, 3), (7, 5), (7, 999999999), (8, 5)] ! (i mod 4)"

definition collision_env :: env where
  "collision_env = backend (\<lambda>_. 0) unpadded_ticks (\<lambda>_. None)"

definition straddle_env :: env where
  "straddle_env = backend (\<lambda>_. 0) straddling_ticks (\<lambda>_. None)"

text \<open>What the sampling loop needs in order to stop at its next guard with three
  samples in: the scenario started at interaction \<open>i0\<close>, and either the budget is not
  positive or some turn since then took longer than the budget.\<close>

definition stop_inv :: "env \<Rightarrow> string \<Rightarrow> int \<Rightarrow> nat \<Rightarrow> state \<Rightarrow> bool" where
  "stop_inv e name maxTimeMs i0 st \<longleftrightarrow>
     i0 \<le> length (trace st) \<and>
     (maxTimeMs \<le> 0 \<or>
      (\<exists>j n. i0 \<le> j \<and> n < length (trace st) \<and> maxTimeMs < date_now e n - date_now e j))"


definition idle_env :: env where
  "idle_env = backend (\<lambda>_. 0) (\<lambda>_. (0, 0)) (\<lambda>_. None)"


text \<open>The interactions of uploading parts with the payload lengths \<open>files\<close>, numbered
  from \<open>pn\<close>, when the first of them is interaction \<open>i\<close>: each part is a presigned URL
  and a PUT to it.\<close>

definition url_of :: "error + string \<Rightarrow> string" where
  "url_of r = (case r of Inr url \<Rightarrow> url | Inl _ \<Rightarrow> [])"

fun part_events :: "env \<Rightarrow> string \<Rightarrow> string \<Rightarrow> nat \<Rightarrow> nat \<Rightarrow> nat list \<Rightarrow> event list" where
  "part_events e k u i pn [] = []"
| "part_events e k u i pn (file # files) =
     [GetSignedUrl (UploadPartCommand (Bucket e) k u pn), KyPut (url_of (sign_reply e i)) file]
     @ part_events e k u (i + 2) (Suc pn) files"

text \<open>The \<open>Parts\<close> of a finalize call for the tags \<open>eTags\<close>.\<close>

definition parts_of :: "string list \<Rightarrow> (string \<times> nat) list" where
  "parts_of eTags = map (\<lambda>(index, ETag). (ETag, index + 1)) (enumerate 0 eTags)"

text \<open>The interactions of the part-upload and finalize phases that start at interaction
  \<open>n\<close> (lines 259 to 281): a clock reading, the parts with payload lengths \<open>files\<close>, two
  clock readings, the finalize call with the tags that the PUTs returned, a clock reading.
  An iteration is the initiation, with its two timer readings for the key, followed by
  these phases.\<close>

definition phase_events :: "env \<Rightarrow> nat \<Rightarrow> string \<Rightarrow> string \<Rightarrow> nat list \<Rightarrow> event list" where
  "phase_events e n k u files =
     [DateNow] @ part_events e k u (Suc n) 1 files @
     [DateNow, DateNow,
      Send (CompleteMultipartUploadCommand (Bucket e) k u
              (parts_of (put_tags e (Suc n) (part_events e k u (Suc n) 1 files)))),
      DateNow]"

definition iteration_events ::
  "env \<Rightarrow> nat \<Rightarrow> string \<Rightarrow> string \<Rightarrow> string \<Rightarrow> nat list \<Rightarrow> event list" where
  "iteration_events e n key k u files =
     [HrTime, HrTime, Send (CreateMultipartUploadCommand (Bucket e) key)] @
     phase_events e (n + 3) k u files"

text \<open>The two samples that the phases starting at interaction \<open>n\<close> record: the time of
  the part uploads and the time of the finalize call.\<close>

definition upload_sample :: "env \<Rightarrow> nat \<Rightarrow> nat list \<Rightarrow> int" where
  "upload_sample e n files = date_now e (Suc n + 2 * length files) - date_now e n"

definition complete_sample :: "env \<Rightarrow> nat \<Rightarrow> nat list \<Rightarrow> int" where
  "complete_sample e n files =
     date_now e (n + 2 * length files + 4) - date_now e (n + 2 * length files + 2)"

text \<open>An environment whose clock advances by two seconds at every reading and whose
  initiation replies carry neither identifier.\<close>

definition fieldless_env :: env where
  "fieldless_env =
     (backend (\<lambda>i. 2000 * int i) (\<lambda>_. (0, 0)) (\<lambda>_. None))
       \<lparr>create_multipart_reply := (\<lambda>_. Inr (None, None))\<rparr>"

text \<open>A reply to an initiation that lacks an identifier, as the test
  \<open>!UploadId || !Key\<close> sees it: the field is absent or is the empty string.\<close>

definition lacks_field :: "string option \<Rightarrow> string option \<Rightarrow> bool" where
  "lacks_field uo ko \<longleftrightarrow> uo = None \<or> uo = Some [] \<or> ko = None \<or> ko = Some []"

text \<open>The three entries of a multipart scenario hold equally many samples.\<close>

definition balanced :: "string \<Rightarrow> string \<Rightarrow> state \<Rightarrow> bool" where
  "balanced sz chunk st \<longleftrightarrow>
     (\<exists>xs ys zs. samples st (total_name sz chunk) = Some xs \<and>
        samples st (upload_name sz chunk) = Some ys \<and>
        samples st (complete_name sz chunk) = Some zs \<and>
        length xs = length ys \<and> length ys = length zs)"

text \<open>A fixture with given buffer lengths, and a state in which the three entries of
  a multipart scenario exist and are empty.\<close>

definition mk_fixture :: "string \<Rightarrow> string \<Rightarrow> nat \<Rightarrow> nat \<Rightarrow> fixture" where
  "mk_fixture sz chunk cd lcd =
     \<lparr>chunkData = cd, lastChunkData = lcd,
      uploadMeasure = upload_name sz chunk, completeMeasure = complete_name sz chunk\<rparr>"

definition ready_state :: "string \<Rightarrow> string \<Rightarrow> state" where
  "ready_state sz chunk =
     \<lparr>trace = [],
      measures_tbl = [(total_name sz chunk, []), (upload_name sz chunk, []),
                      (complete_name sz chunk, [])]\<rparr>"

text \<open>An action that leaves the \<open>measures\<close> object alone.\<close>

definition quiet :: "(state \<Rightarrow> (error + state) option) \<Rightarrow> bool" where
  "quiet f \<longleftrightarrow> (\<forall>s s'. f s = Some (Inr s') \<longrightarrow> measures_tbl s' = measures_tbl s)"


subsection \<open>The statistics package\<close>

fun js_add :: "number \<Rightarrow> number \<Rightarrow> number" where
  "js_add NaN _ = NaN"
| "js_add _ NaN = NaN"
| "js_add (Fin a) (Fin b) = round_double (a + b)"
| "js_add PInf NInf = NaN"
| "js_add NInf PInf = NaN"
| "js_add PInf _ = PInf"
| "js_add _ PInf = PInf"
| "js_add NInf _ = NInf"
| "js_add _ NInf = NInf"

text \<open>Division by a count, which is positive and finite.\<close>

fun div_count :: "number \<Rightarrow> nat \<Rightarrow> number" where
  "div_count (Fin a) n = round_double (a / of_nat n)"
| "div_count v n = v"

text \<open>The data that \<open>push\<close> adds: the elements of its first argument when that is an array,
  its arguments otherwise. A datum \<open>undefined\<close> makes the sum NaN, as a datum NaN does.\<close>

definition pushed :: "arg list \<Rightarrow> number list" where
  "pushed args =
     (case args of
        ArrayArg xs # _ \<Rightarrow> xs
      | _ \<Rightarrow> map (\<lambda>a. case a of NumberArg x \<Rightarrow> x | _ \<Rightarrow> NaN) args)"

text \<open>A statistics package whose mean of no data is \<open>v0\<close> and whose mean of some data is
  their sum, added up in order, divided by their number. Numbers of magnitude \<open>10 ^ 21\<close>
  are printed as nothing: no mean below is that large.\<close>

definition stats_with :: "jsval \<Rightarrow> outside" where
  "stats_with v0 =
     \<lparr>stats_amean = (\<lambda>args. let d = pushed args
                             in if d = [] then v0
                                else Num (div_count (foldl js_add (Fin 0) d) (length d))),
      exponent_notation = (\<lambda>x. [])\<rparr>"

text \<open>The package fast-stats that chart.ts imports: its \<open>amean\<close> is NaN when nothing was
  pushed, which is what the test \<open>isNaN(x)\<close> of lines 568 to 644 is there for.\<close>

definition fast_stats :: outside where
  "fast_stats = stats_with (Num NaN)"



definition empty_upload_store :: store where
  "empty_upload_store = [(''traditional-upload-5m'', [])]"


subsection \<open>Turns of the sampling loop\<close>

text \<open>Line 168: the entry of the scenario is created when the store has none.\<close>

definition entered :: "string \<Rightarrow> state \<Rightarrow> state" where
  "entered name st =
     (case map_of (measures_tbl st) name of
        None \<Rightarrow> st\<lparr>measures_tbl := AList.update name [] (measures_tbl st)\<rparr>
      | Some _ \<Rightarrow> st)"

text \<open>The scenario \<open>b\<close>, started in \<open>st\<close>, enters its loop in \<open>s0\<close> with the action \<open>iter\<close>:
  the start of the scenario is read from the clock and the setup, when there is one,
  returns normally, having left the entry of \<open>name\<close> alone and having taken nothing
  from the record of interactions.\<close>

definition prepared ::
  "string \<Rightarrow> 'r bench \<Rightarrow> state \<Rightarrow> (state \<Rightarrow> (error + state) option) \<Rightarrow> state \<Rightarrow> bool" where
  "prepared name b st iter s0 =
     (case b of
        WithSetup prep fn \<Rightarrow>
          (\<exists>res. prep (emit DateNow (entered name st)) = Some (Inr (res, s0)) \<and> iter = fn res \<and>
                 samples s0 name = samples (entered name st) name \<and>
                 length (trace st) < length (trace s0))
      | FnOnly fn \<Rightarrow> s0 = emit DateNow (entered name st) \<and> iter = fn)"

text \<open>One turn of the loop, from \<open>st\<close> to \<open>st'\<close>: the action, called after the first
  reading of the clock, returns normally in a state \<open>a\<close>, having left the entry of \<open>name\<close>
  alone and having taken nothing from the record of interactions; \<open>st'\<close> is \<open>a\<close> after the
  second reading, with the difference of the two readings appended to the entry.\<close>

definition turn ::
  "env \<Rightarrow> string \<Rightarrow> (state \<Rightarrow> (error + state) option) \<Rightarrow> state \<Rightarrow> state \<Rightarrow> bool" where
  "turn e name iter st st' \<longleftrightarrow>
     (\<exists>a xs. iter (emit DateNow st) = Some (Inr a) \<and>
        samples st name = Some xs \<and> samples a name = Some xs \<and>
        length (trace st) < length (trace a) \<and>
        st' = (emit DateNow a)\<lparr>measures_tbl :=
                 AList.update name
                   (xs @ [date_now e (length (trace a)) - date_now e (length (trace st))])
                   (measures_tbl a)\<rparr>)"

text \<open>The sample of a turn from \<open>st\<close> to \<open>st'\<close>: the last interaction of \<open>st'\<close> is the second
  reading of the clock, the first one follows the interactions of \<open>st\<close>.\<close>

definition elapsed :: "env \<Rightarrow> state \<Rightarrow> state \<Rightarrow> int" where
  "elapsed e st st' = date_now e (length (trace st') - 1) - date_now e (length (trace st))"




subsection \<open>Places in the sweep\<close>

text \<open>The loop of \<open>measure\<close>, at its guard in \<open>st\<close>, comes to its guard again in \<open>st'\<close> after
  some turns, none or more, that have returned normally.\<close>

inductive reaches ::
  "env \<Rightarrow> string \<Rightarrow> (state \<Rightarrow> (error + state) option) \<Rightarrow> int \<Rightarrow> int \<Rightarrow> state \<Rightarrow> state \<Rightarrow> bool"
  for e name iter b os where
    reaches_here: "reaches e name iter b os st st"
  | reaches_turn:
      "samples st name = Some xs \<Longrightarrow>
       length xs < 3 \<or> date_now e (length (trace st)) - os < b \<Longrightarrow>
       sample_once e name iter (if length xs < 3 then st else emit DateNow st) = Some (Inr sm) \<Longrightarrow>
       reaches e name iter b os sm st' \<Longrightarrow>
       reaches e name iter b os st st'"

text \<open>The steps of \<open>run\<close> before the multipart scenarios, lines 293 to 331, and the two
  sweeps of multipart scenarios that follow, lines 332 to 339, as a list of their sizes
  and chunks.\<close>

definition run_prefix :: "env \<Rightarrow> state \<Rightarrow> (error + state) option" where
  "run_prefix e st =
     bindP (Some (send e (CreateBucketCommand (Bucket e)) st)) (\<lambda>st1.
     bindP (measure_scenario e ''get-traditional-presigned-url''
              (FnOnly (presigned_url_only e) :: unit bench) 1000 st1) (\<lambda>st2.
     bindP (measure_scenario e ''initiate-multipart-only''
              (FnOnly (initiate_only e) :: unit bench) 1000 st2) (\<lambda>st3.
     bindP (measure_scenario e ''get-multipart-presigned-url-only''
              (WithSetup (\<lambda>s. Some (presign_setup e s)) (part_presign e)) 1000 st3) (\<lambda>st4.
     measureTraditionalUploadCases e
       [''512k'', ''5m'', ''10m'', ''25m'', ''50m'', ''100m'', ''1g'', ''1.5g''] st4))))"

definition run_sweeps :: "(string list \<times> string list) list" where
  "run_sweeps =
     [([''512k'', ''5m'', ''10m'', ''25m'', ''50m'', ''100m''], [''5m'', ''25m'', ''50m'', ''100m'']),
      ([''1g'', ''2g'', ''5g''], [''5m'', ''25m'', ''50m'', ''100m'', ''200m'', ''500m''])]"

fun measure_sweeps :: "env \<Rightarrow> (string list \<times> string list) list \<Rightarrow> state \<Rightarrow> (error + state) option" where
  "measure_sweeps e [] st = Some (Inr st)"
| "measure_sweeps e ((sizes, chunks) # rest) st =
     bindP (measureMultipartUploadCases e sizes chunks st) (measure_sweeps e rest)"

text \<open>An environment whose clock advances by two seconds at every reading and whose
  initiation replies carry both identifiers in the first 240 interactions and neither
  of them afterwards.\<close>

definition late_env :: env where
  "late_env =
     (backend (\<lambda>i. 2000 * int i) (\<lambda>_. (0, 0)) (\<lambda>_. None))
       \<lparr>create_multipart_reply :=
          (\<lambda>i. if i < 240 then Inr (Some ''upload-1'', Some ''key-1'') else Inr (None, None))\<rparr>"

section \<open>Basic facts about the state\<close>

lemma trace_emit [simp]: "trace (emit ev st) = trace st @ [ev]"
  by (simp add: emit_def)

lemma measures_emit [simp]: "measures_tbl (emit ev st) = measures_tbl st"
  by (simp add: emit_def)

lemma samples_emit [simp]: "samples (emit ev st) name = samples st name"
  by (simp add: samples_def)

lemma now_eq: "now e st = (date_now e (length (trace st)), emit DateNow st)"
  by (simp add: now_def)

lemma bindP_simps [simp]:
  "bindP None f = None"
  "bindP (Some (Inl err)) f = Some (Inl err)"
  "bindP (Some (Inr x)) f = f x"
  by (simp_all add: bindP_def)

lemma bindE_simps [simp]:
  "bindE (Inl err) f = Inl err"
  "bindE (Inr x) f = f x"
  by (simp_all add: bindE_def)

lemma push_measure_Some:
  assumes "samples st name = Some xs"
  shows "push_measure name v st =
         Inr (st\<lparr>measures_tbl := AList.update name (xs @ [v]) (measures_tbl st)\<rparr>)"
  using assms by (simp add: push_measure_def samples_def)

lemma samples_update:
  "samples (st\<lparr>measures_tbl := AList.update k v m\<rparr>) name =
   (if name = k then Some v else map_of m name)"
  by (simp add: samples_def update_conv')


lemma clearLine_Inr: "clearLine e st = Inr st' \<longleftrightarrow> stdout_isTTY e \<and> st' = st"
  by (auto simp: clearLine_def)

lemma clearLine_tty: "stdout_isTTY e \<Longrightarrow> clearLine e st = Inr st"
  by (simp add: clearLine_def)

lemma backend_tty [simp]: "stdout_isTTY (backend clock ticks etags)"
  by (simp add: backend_def)

lemma bindP_Inr: "bindP m f = Some (Inr y) \<longleftrightarrow> (\<exists>x. m = Some (Inr x) \<and> f x = Some (Inr y))"
  by (auto simp: bindP_def split: option.splits sum.splits)

lemma bindE_Inr: "bindE m f = Inr y \<longleftrightarrow> (\<exists>x. m = Inr x \<and> f x = Inr y)"
  by (auto simp: bindE_def split: sum.splits)

lemma push_measure_Inr:
  "push_measure name v st = Inr st' \<longleftrightarrow>
   (\<exists>xs. samples st name = Some xs \<and>
         st' = st\<lparr>measures_tbl := AList.update name (xs @ [v]) (measures_tbl st)\<rparr>)"
  by (auto simp: push_measure_def samples_def split: option.splits)


lemma idle_replies:
  "create_multipart_reply idle_env j = Inr (Some ''upload-1'', Some ''key-1'')"
  "send_reply idle_env j = None"
  "sign_reply idle_env j = Inr ''http://localhost:9000/signed''"
  "put_reply idle_env j = Inr None"
  "Bucket idle_env = ''benchmark-00c0ffee00''"
  "kMaxLength idle_env = 4294967296"
  "date_now idle_env j = 0"
  "hrtime idle_env j = (0, 0)"
  "stdout_isTTY idle_env"
  by (simp_all add: idle_env_def backend_def)

section \<open>Doubles and size strings\<close>

lemma ilog2_le: assumes "0 < a" shows "2 powi (ilog2 a) \<le> a"
proof (cases "1 \<le> a")
  case True
  then have pos: "0 < \<lfloor>a\<rfloor>" by linarith
  from bitlen_bounds[OF pos] have b: "2 ^ nat (bitlen \<lfloor>a\<rfloor> - 1) \<le> \<lfloor>a\<rfloor>" by simp
  have ge: "0 \<le> bitlen \<lfloor>a\<rfloor> - 1" using pos by (simp add: bitlen_alt_def)
  have "(2::rat) powi (bitlen \<lfloor>a\<rfloor> - 1) = of_int (2 ^ nat (bitlen \<lfloor>a\<rfloor> - 1))"
    using ge by (simp add: power_int_def)
  also have "\<dots> \<le> of_int \<lfloor>a\<rfloor>" using b by (simp only: of_int_le_iff)
  also have "\<dots> \<le> a" by simp
  finally show ?thesis using True by (simp add: ilog2_def)
next
  case False
  define c where "c = \<lceil>1 / a\<rceil>"
  have "1 < 1 / a" using False assms by simp
  then have c2: "2 \<le> c" unfolding c_def by linarith
  then have pos: "0 < c - 1" by simp
  from bitlen_bounds[OF pos] have "c - 1 < 2 ^ nat (bitlen (c - 1))" by simp
  then have "c \<le> 2 ^ nat (bitlen (c - 1))" by simp
  then have "(of_int c :: rat) \<le> 2 ^ nat (bitlen (c - 1))" by simp
  moreover have "1 / a \<le> of_int c" unfolding c_def by simp
  ultimately have le: "1 / a \<le> 2 ^ nat (bitlen (c - 1))" by linarith
  have "1 / 2 ^ nat (bitlen (c - 1)) \<le> a"
  proof -
    have "1 \<le> a * 2 ^ nat (bitlen (c - 1))"
      using le assms by (simp add: field_simps)
    then show ?thesis by (simp add: field_simps)
  qed
  moreover have "(2::rat) powi (- bitlen (c - 1)) = 1 / 2 ^ nat (bitlen (c - 1))"
    using bitlen_nonneg[of "c - 1"] by (simp add: power_int_def field_simps)
  ultimately show ?thesis using False by (simp add: ilog2_def c_def)
qed

lemma round_even_of_int: "round_even (of_int n) = n"
  by (simp add: round_even_def)

lemma round_double_exact:
  assumes m: "\<bar>m\<bar> < 2 ^ 53" and k1: "- 1074 \<le> k" and k2: "k \<le> 971"
  shows "round_double (of_int m * 2 powi k) = Fin (of_int m * 2 powi k)"
proof (cases "m = 0")
  case True
  then show ?thesis by (simp add: round_double_def)
next
  case False
  define r :: rat where "r = of_int m * 2 powi k"
  define a where "a = \<bar>r\<bar>"
  have p2: "(0::rat) < 2 powi j" for j by simp
  have a_eq: "a = of_int \<bar>m\<bar> * 2 powi k"
    unfolding a_def r_def by (simp add: abs_mult)
  have a_pos: "0 < a" unfolding a_eq using False by simp
  have r0: "r \<noteq> 0" using a_pos a_def by auto
  have "of_int \<bar>m\<bar> < (2::rat) ^ 53" using m by (metis of_int_less_iff of_int_numeral of_int_power)
  then have "a < 2 ^ 53 * 2 powi k" unfolding a_eq by (simp)
  also have "\<dots> = 2 powi (53 + k)" by (simp add: power_int_add)
  finally have a_lt: "a < 2 powi (53 + k)" .
  have lt: "(2::rat) powi (ilog2 a) < 2 powi (53 + k)"
    using ilog2_le[OF a_pos] a_lt by linarith
  have e_lt: "ilog2 a < 53 + k"
  proof (rule ccontr)
    assume "\<not> ilog2 a < 53 + k"
    then have "53 + k \<le> ilog2 a" by simp
    then have "(2::rat) powi (53 + k) \<le> 2 powi (ilog2 a)"
      by (intro power_int_increasing) simp_all
    with lt show False by simp
  qed
  define ex where "ex = max (ilog2 a - 52) (- 1074)"
  have ex_le: "ex \<le> k" unfolding ex_def using e_lt k1 by simp
  have "a / 2 powi ex = of_int \<bar>m\<bar> * 2 powi (k - ex)"
    unfolding a_eq by (simp add: power_int_diff)
  also have "\<dots> = of_int (\<bar>m\<bar> * 2 ^ nat (k - ex))"
    using ex_le by (simp add: power_int_def)
  finally have q: "a / 2 powi ex = of_int (\<bar>m\<bar> * 2 ^ nat (k - ex))" .
  have v: "of_int (round_even (a / 2 powi ex)) * 2 powi ex = a"
    unfolding q round_even_of_int unfolding q[symmetric] by simp
  have "a < 2 powi 1024"
  proof -
    have "(2::rat) powi (53 + k) \<le> 2 powi 1024"
      using k2 by (intro power_int_increasing) simp_all
    then show ?thesis using a_lt by linarith
  qed
  then have nov: "\<not> 2 ^ 1024 \<le> a" by (simp add: power_int_def)
  have "round_double r = Fin (if 0 < r then a else - a)"
    using r0 v nov unfolding round_double_def Let_def a_def[symmetric] ex_def[symmetric]
    by simp
  also have "(if 0 < r then a else - a) = r" unfolding a_def by simp
  finally show ?thesis unfolding r_def .
qed


lemma is_digit_not_ws: "is_digit c \<Longrightarrow> \<not> is_ws c"
  by (auto simp: is_digit_def is_ws_def)

lemma is_digit_not_sign: "is_digit c \<Longrightarrow> c \<noteq> CHR ''-'' \<and> c \<noteq> CHR ''+'' \<and> c \<noteq> CHR ''I''"
  by (auto simp: is_digit_def)

lemma suffix_char_props:
  "is_suffix_char c \<Longrightarrow> \<not> is_digit c \<and> c \<noteq> CHR ''.'' \<and> c \<noteq> CHR ''e'' \<and> c \<noteq> CHR ''E''"
  by (auto simp: is_suffix_char_def is_digit_def)

lemma takeWhile_digits_then:
  "\<forall>c\<in>set ds. is_digit c \<Longrightarrow> \<not> is_digit c \<Longrightarrow> takeWhile is_digit (ds @ c # t) = ds"
  by (simp add: takeWhile_tail)

lemma dropWhile_digits_then:
  "\<forall>c\<in>set ds. is_digit c \<Longrightarrow> \<not> is_digit c \<Longrightarrow> dropWhile is_digit (ds @ c # t) = c # t"
  by (simp add: dropWhile_append2)

lemma parse_exponent_suffix: "is_suffix_char c \<Longrightarrow> parse_exponent (c # t) = 0"
  using suffix_char_props[of c] by (simp add: parse_exponent_def)

lemma unsigned_decimal_digits:
  assumes ne: "ds \<noteq> []" and ds: "\<forall>c\<in>set ds. is_digit c" and c: "is_suffix_char c"
  shows "unsigned_decimal (ds @ [c]) = Some (of_nat (digits_val ds))"
proof -
  have nc: "\<not> is_digit c" and ndot: "c \<noteq> CHR ''.''" using suffix_char_props[OF c] by simp_all
  have tw: "takeWhile is_digit (ds @ [c]) = ds"
    using takeWhile_digits_then[OF ds nc, of "[]"] by simp
  have dw: "dropWhile is_digit (ds @ [c]) = [c]"
    using dropWhile_digits_then[OF ds nc, of "[]"] by simp
  have fp: "frac_digits [c] = []" and af: "after_frac [c] = [c]"
    using ndot by (simp_all add: frac_digits_def after_frac_def)
  show ?thesis
    unfolding unsigned_decimal_def tw dw fp af Let_def
    using ne by (simp add: parse_exponent_suffix[OF c])
qed

lemma unsigned_decimal_point:
  assumes ne: "ds \<noteq> []" and ds: "\<forall>c\<in>set ds. is_digit c"
    and fs: "\<forall>c\<in>set fs. is_digit c" and c: "is_suffix_char c"
  shows "unsigned_decimal (ds @ CHR ''.'' # fs @ [c]) =
         Some (of_nat (digits_val (ds @ fs)) / 10 ^ length fs)"
proof -
  have nd: "\<not> is_digit CHR ''.''" by (simp add: is_digit_def)
  have nc: "\<not> is_digit c" using suffix_char_props[OF c] by simp
  have tw: "takeWhile is_digit (ds @ CHR ''.'' # fs @ [c]) = ds"
    using takeWhile_digits_then[OF ds nd, of "fs @ [c]"] by simp
  have dw: "dropWhile is_digit (ds @ CHR ''.'' # fs @ [c]) = CHR ''.'' # fs @ [c]"
    using dropWhile_digits_then[OF ds nd, of "fs @ [c]"] by simp
  have tw2: "takeWhile is_digit (fs @ [c]) = fs"
    using takeWhile_digits_then[OF fs nc, of "[]"] by simp
  have dw2: "dropWhile is_digit (fs @ [c]) = [c]"
    using dropWhile_digits_then[OF fs nc, of "[]"] by simp
  have fp: "frac_digits (CHR ''.'' # fs @ [c]) = fs"
    and af: "after_frac (CHR ''.'' # fs @ [c]) = [c]"
    by (simp_all add: frac_digits_def after_frac_def tw2 dw2)
  show ?thesis
    unfolding unsigned_decimal_def tw dw fp af Let_def
    using ne by (simp add: parse_exponent_suffix[OF c])
qed

lemma parseFloat_leading_digit:
  assumes d: "is_digit d"
  shows "parseFloat (d # t) =
         (case unsigned_decimal (d # t) of None \<Rightarrow> NaN | Some v \<Rightarrow> round_double v)"
proof -
  have ws: "dropWhile is_ws (d # t) = d # t" using is_digit_not_ws[OF d] by simp
  have sg: "sign_neg (d # t) = False" "skip_sign (d # t) = d # t"
    using is_digit_not_sign[OF d] by (simp_all add: sign_neg_def skip_sign_def)
  have inf: "take 8 (d # t) \<noteq> ''Infinity''" using is_digit_not_sign[OF d] by auto
  show ?thesis unfolding parseFloat_def ws sg Let_def
    using inf is_digit_not_sign[OF d] by (simp split: option.split)
qed

lemma parseFloat_digits:
  assumes ne: "ds \<noteq> []" and ds: "\<forall>c\<in>set ds. is_digit c" and c: "is_suffix_char c"
  shows "parseFloat (ds @ [c]) = round_double (of_nat (digits_val ds))"
proof -
  obtain d ds' where dd: "ds = d # ds'" using ne by (cases ds) auto
  have d: "is_digit d" using ds dd by simp
  have "parseFloat (ds @ [c]) =
        (case unsigned_decimal (ds @ [c]) of None \<Rightarrow> NaN | Some v \<Rightarrow> round_double v)"
    using parseFloat_leading_digit[OF d, of "ds' @ [c]"] unfolding dd by simp
  then show ?thesis by (simp add: unsigned_decimal_digits[OF ne ds c])
qed

lemma parseFloat_decimal:
  assumes ne: "ds \<noteq> []" and ds: "\<forall>c\<in>set ds. is_digit c"
    and fs: "\<forall>c\<in>set fs. is_digit c" and c: "is_suffix_char c"
  shows "parseFloat (ds @ CHR ''.'' # fs @ [c]) =
         round_double (of_nat (digits_val (ds @ fs)) / 10 ^ length fs)"
proof -
  obtain d ds' where dd: "ds = d # ds'" using ne by (cases ds) auto
  have d: "is_digit d" using ds dd by simp
  have "parseFloat (ds @ CHR ''.'' # fs @ [c]) =
        (case unsigned_decimal (ds @ CHR ''.'' # fs @ [c]) of
           None \<Rightarrow> NaN | Some v \<Rightarrow> round_double v)"
    using parseFloat_leading_digit[OF d, of "ds' @ CHR ''.'' # fs @ [c]"] unfolding dd by simp
  then show ?thesis by (simp add: unsigned_decimal_point[OF ne ds fs c])
qed

lemma js_mul_1024_exact:
  assumes "\<bar>m\<bar> < 2 ^ 53" "- 1084 \<le> k" "k \<le> 961"
  shows "js_mul (Fin (of_int m * 2 powi k)) (Fin 1024) = Fin (of_int m * 2 powi (k + 10))"
proof -
  have "of_int m * 2 powi k * (1024::rat) = of_int m * 2 powi (k + 10)"
    by (simp add: power_int_add)
  then have "js_mul (Fin (of_int m * 2 powi k)) (Fin 1024) =
             round_double (of_int m * 2 powi (k + 10))"
    by (simp only: js_mul.simps)
  also have "\<dots> = Fin (of_int m * 2 powi (k + 10))"
    using assms by (intro round_double_exact) simp_all
  finally show ?thesis .
qed


lemma parseFloat_numeric_prefix:
  assumes "ds \<noteq> []" "\<forall>c\<in>set ds. is_digit c" "\<forall>c\<in>set fs. is_digit c" "is_suffix_char c"
  shows "parseFloat (numeric_prefix ds fs @ [c]) = round_double (prefix_value ds fs)"
proof (cases "fs = []")
  case True
  then show ?thesis
    using parseFloat_digits[OF assms(1,2,4)] by (simp add: numeric_prefix_def prefix_value_def)
next
  case False
  then show ?thesis
    using parseFloat_decimal[OF assms] by (simp add: numeric_prefix_def prefix_value_def)
qed

lemma endsWith_last: "endsWith s [c] \<longleftrightarrow> s \<noteq> [] \<and> last s = c"
proof (cases s rule: rev_cases)
  case Nil
  then show ?thesis by (simp add: endsWith_def)
next
  case (snoc xs x)
  then show ?thesis by (simp add: endsWith_def)
qed

lemma sizeToBytes_double:
  assumes ne: "ds \<noteq> []" and ds: "\<forall>c\<in>set ds. is_digit c" and fs: "\<forall>c\<in>set fs. is_digit c"
    and v: "prefix_value ds fs = of_int m * 2 powi k"
    and m: "\<bar>m\<bar> < 2 ^ 53" and k1: "- 1074 \<le> k" and k2: "k \<le> 941"
  shows "sizeToBytes (numeric_prefix ds fs @ ''k'') = Inr (Fin (prefix_value ds fs * 1024))"
    and "sizeToBytes (numeric_prefix ds fs @ ''m'') = Inr (Fin (prefix_value ds fs * 1024 ^ 2))"
    and "sizeToBytes (numeric_prefix ds fs @ ''g'') = Inr (Fin (prefix_value ds fs * 1024 ^ 3))"
proof -
  let ?p = "numeric_prefix ds fs"
  have pf: "parseFloat (?p @ [c]) = Fin (of_int m * 2 powi k)" if "is_suffix_char c" for c
    using parseFloat_numeric_prefix[OF ne ds fs that] round_double_exact[OF m k1] k2
    by (simp add: v)
  have m1: "js_mul (Fin (of_int m * 2 powi k)) (Fin 1024) = Fin (of_int m * 2 powi (k + 10))"
    using m k1 k2 by (intro js_mul_1024_exact) simp_all
  have m2: "js_mul (Fin (of_int m * 2 powi (k + 10))) (Fin 1024) = Fin (of_int m * 2 powi (k + 20))"
    using js_mul_1024_exact[of m "k + 10"] m k1 k2 by (simp add: add.assoc)
  have m3: "js_mul (Fin (of_int m * 2 powi (k + 20))) (Fin 1024) = Fin (of_int m * 2 powi (k + 30))"
    using js_mul_1024_exact[of m "k + 20"] m k1 k2 by (simp add: add.assoc)
  have p10: "of_int m * (2::rat) powi (k + 10) = prefix_value ds fs * 1024"
    by (simp add: v power_int_add)
  have p20: "of_int m * (2::rat) powi (k + 20) = prefix_value ds fs * 1024 ^ 2"
    by (simp add: v power_int_add)
  have p30: "of_int m * (2::rat) powi (k + 30) = prefix_value ds fs * 1024 ^ 3"
    by (simp add: v power_int_add)
  show "sizeToBytes (?p @ ''k'') = Inr (Fin (prefix_value ds fs * 1024))"
    by (simp add: sizeToBytes_def endsWith_last pf is_suffix_char_def m1 p10 del: js_mul.simps)
  show "sizeToBytes (?p @ ''m'') = Inr (Fin (prefix_value ds fs * 1024 ^ 2))"
    by (simp add: sizeToBytes_def endsWith_last pf is_suffix_char_def m1 m2 p20 del: js_mul.simps)
  show "sizeToBytes (?p @ ''g'') = Inr (Fin (prefix_value ds fs * 1024 ^ 3))"
    by (simp add: sizeToBytes_def endsWith_last pf is_suffix_char_def m1 m2 m3 p30 del: js_mul.simps)
qed

lemma sizeToBytes_5m: "sizeToBytes ''5m'' = Inr (Fin 5242880)"
proof -
  have "sizeToBytes (numeric_prefix ''5'' [] @ ''m'') = Inr (Fin (prefix_value ''5'' [] * 1024 ^ 2))"
    by (rule sizeToBytes_double(2)[where m = 5 and k = 0])
       (simp_all add: is_digit_def prefix_value_def digits_val_def digit_val_def)
  then show ?thesis
    by (simp add: numeric_prefix_def prefix_value_def digits_val_def digit_val_def)
qed

lemma sizeToBytes_no_suffix:
  "\<not> endsWith s ''k'' \<Longrightarrow> \<not> endsWith s ''m'' \<Longrightarrow> \<not> endsWith s ''g'' \<Longrightarrow>
   sizeToBytes s = Inl (Error (''Invalid size '' @ s))"
  by (simp add: sizeToBytes_def)

lemma sizeToBytes_suffix:
  "endsWith s ''k'' \<or> endsWith s ''m'' \<or> endsWith s ''g'' \<Longrightarrow> \<exists>v. sizeToBytes s = Inr v"
  by (auto simp add: sizeToBytes_def)

text \<open>
  Claim C4, as amended. For a size string made of a numeric prefix (decimal digits, with or
  without a fraction) and one of the suffixes k, m, g, where the prefix is a double (an
  integer below \<open>2 ^ 53\<close> scaled by a power of two), \<open>sizeToBytes\<close> returns the prefix
  times 1024, 1024 squared or 1024 cubed, exactly and with no rounding to an integer.
\<close>

theorem sizeToBytes_exact_product:
  assumes "ds \<noteq> []" and "list_all is_digit ds" and "list_all is_digit fs"
    and "prefix_value ds fs = of_int m * 2 powi k"
    and "\<bar>m\<bar> < 2 ^ 53" and "- 1074 \<le> k" and "k \<le> 941"
  shows "sizeToBytes (numeric_prefix ds fs @ ''k'') = Inr (Fin (prefix_value ds fs * 1024)) \<and>
         sizeToBytes (numeric_prefix ds fs @ ''m'') = Inr (Fin (prefix_value ds fs * 1024 ^ 2)) \<and>
         sizeToBytes (numeric_prefix ds fs @ ''g'') = Inr (Fin (prefix_value ds fs * 1024 ^ 3))"
  using sizeToBytes_double[of ds fs m k] assms by (simp add: list_all_iff)

theorem sizeToBytes_exact_product_witness:
  "sizeToBytes ''1.5k'' = Inr (Fin 1536) \<and>
   sizeToBytes ''1.5m'' = Inr (Fin 1572864) \<and>
   sizeToBytes ''1.5g'' = Inr (Fin 1610612736)"
proof -
  have v: "prefix_value ''1'' ''5'' = of_int 3 * 2 powi (- 1)"
    by (simp add: prefix_value_def digits_val_def digit_val_def)
  have d: "list_all is_digit ''1''" "list_all is_digit ''5''"
    by (simp_all add: is_digit_def)
  have "''1'' \<noteq> []" by simp
  from sizeToBytes_exact_product[OF this d v] show ?thesis
    by (simp add: numeric_prefix_def prefix_value_def digits_val_def digit_val_def)
qed

text \<open>
  The claim as stated fails: for the size string 0.00048828125k the product is one half,
  which \<open>sizeToBytes\<close> returns as it is, while the rounded product of the specification
  is 1.
\<close>

theorem sizeToBytes_round_counterexample:
  "sizeToBytes ''0.00048828125k'' = Inr (Fin (1 / 2)) \<and>
   spec_size_bytes (prefix_value ''0'' ''00048828125'') 1 = 1"
proof -
  have "sizeToBytes (numeric_prefix ''0'' ''00048828125'' @ ''k'') =
        Inr (Fin (prefix_value ''0'' ''00048828125'' * 1024))"
    by (rule sizeToBytes_double(1)[where m = 1 and k = "- 11"])
       (simp_all add: is_digit_def prefix_value_def digits_val_def digit_val_def)
  then have "sizeToBytes ''0.00048828125k'' = Inr (Fin (1 / 2))"
    by (simp add: numeric_prefix_def prefix_value_def digits_val_def digit_val_def)
  moreover have "spec_size_bytes (prefix_value ''0'' ''00048828125'') 1 = 1"
    by (simp add: spec_size_bytes_def prefix_value_def digits_val_def digit_val_def round_def)
  ultimately show ?thesis by simp
qed

text \<open>
  Claim C5, as amended. \<open>sizeToBytes\<close> throws, with the message Invalid size followed by
  the input, exactly for the strings that end in none of k, m, g. A string that ends in
  one of them always gives a number, whatever stands before the suffix.
\<close>

theorem sizeToBytes_throws_iff_no_suffix:
  "(\<not> endsWith s ''k'' \<and> \<not> endsWith s ''m'' \<and> \<not> endsWith s ''g'' \<longrightarrow>
      sizeToBytes s = Inl (Error (''Invalid size '' @ s))) \<and>
   (endsWith s ''k'' \<or> endsWith s ''m'' \<or> endsWith s ''g'' \<longrightarrow>
      (\<exists>v. sizeToBytes s = Inr v))"
  using sizeToBytes_no_suffix[of s] sizeToBytes_suffix[of s] by blast

theorem sizeToBytes_throws_iff_no_suffix_witness:
  "sizeToBytes ''5M'' = Inl (Error ''Invalid size 5M'') \<and> (\<exists>v. sizeToBytes ''1x2k'' = Inr v)"
  using sizeToBytes_throws_iff_no_suffix[of "''5M''"]
    sizeToBytes_throws_iff_no_suffix[of "''1x2k''"]
  by (simp add: endsWith_def)

text \<open>
  The claim as stated fails for a malformed prefix before a valid suffix: the string abck
  gives the number NaN and no error.
\<close>

theorem sizeToBytes_malformed_prefix_counterexample:
  "sizeToBytes ''abck'' = Inr NaN"
  by (simp add: sizeToBytes_def endsWith_def parseFloat_def unsigned_decimal_def sign_neg_def
      skip_sign_def is_ws_def is_digit_def frac_digits_def after_frac_def)

section \<open>Object keys\<close>

lemma getKey_eq:
  "getKey e base st =
     (key_of base (hrtime e (length (trace st))) (hrtime e (Suc (length (trace st)))),
      emit HrTime (emit HrTime st))"
  by (simp add: getKey_def hr_def emit_def)

text \<open>
  Claim C8. The code at two failing inputs. The key is the prefix, a slash, and the
  seconds of one call of \<open>process.hrtime()\<close> followed by the nanoseconds of the next call,
  both in decimal with no padding and nothing between them. With a timer that answers
  1 s 20 ns, 1 s 23 ns, 12 s 1 ns and 12 s 3 ns, two successive runs of \<open>getKey\<close> give the
  key p/123 twice, for want of padding; with a timer that answers 7 s 3 ns, 7 s 5 ns,
  7 s 999999999 ns and 8 s 5 ns, they give p/75 twice, the seconds and the nanoseconds
  of the second key coming from either side of a full second.
\<close>

theorem getKey_collision:
  "map (hrtime collision_env) [0, 1, 2, 3] = [(1, 20), (1, 23), (12, 1), (12, 3)] \<and>
   getKey collision_env ''p'' st0 = (''p/123'', emit HrTime (emit HrTime st0)) \<and>
   getKey collision_env ''p'' (emit HrTime (emit HrTime st0)) =
     (''p/123'', emit HrTime (emit HrTime (emit HrTime (emit HrTime st0)))) \<and>
   map (hrtime straddle_env) [0, 1, 2, 3] = [(7, 3), (7, 5), (7, 999999999), (8, 5)] \<and>
   getKey straddle_env ''p'' st0 = (''p/75'', emit HrTime (emit HrTime st0)) \<and>
   getKey straddle_env ''p'' (emit HrTime (emit HrTime st0)) =
     (''p/75'', emit HrTime (emit HrTime (emit HrTime (emit HrTime st0))))"
  by (simp add: collision_env_def straddle_env_def unpadded_ticks_def straddling_ticks_def
      backend_def st0_def getKey_eq emit_def key_of_def show_nat.simps)
section \<open>The sampling loop\<close>

lemma sample_once_ok:
  assumes ok: "action_ok name iter" and xs: "samples st name = Some xs"
    and tty: "stdout_isTTY e"
  shows "\<exists>st' n. sample_once e name iter st = Some (Inr st') \<and>
           length (trace st) < n \<and> length (trace st') = Suc n \<and>
           samples st' name = Some (xs @ [date_now e n - date_now e (length (trace st))]) \<and>
           iter (emit DateNow st) \<noteq> None \<and>
           (\<exists>s2. iter (emit DateNow st) = Some (Inr s2) \<and> length (trace s2) = n)"
proof -
  from ok obtain s2 where s2: "iter (emit DateNow st) = Some (Inr s2)"
    and keep: "samples s2 name = samples (emit DateNow st) name"
    and grow: "length (trace (emit DateNow st)) \<le> length (trace s2)"
    unfolding action_ok_def by blast
  let ?d = "date_now e (length (trace s2)) - date_now e (length (trace st))"
  let ?st' = "(emit DateNow s2)\<lparr>measures_tbl := AList.update name (xs @ [?d]) (measures_tbl (emit DateNow s2))\<rparr>"
  have x2: "samples (emit DateNow s2) name = Some xs" using keep xs by simp
  have "sample_once e name iter st = Some (Inr ?st')"
    by (simp add: sample_once_def now_eq s2 push_measure_Some[OF x2] clearLine_tty[OF tty])
  moreover have "samples ?st' name = Some (xs @ [?d])"
    by (simp add: samples_update)
  moreover have "length (trace st) < length (trace s2)" using grow by simp
  moreover have "length (trace ?st') = Suc (length (trace s2))" by simp
  ultimately show ?thesis using s2 by blast
qed

lemma measure_loop_stop:
  assumes mono: "clock_monotone e"
    and xs: "samples st name = Some xs" and len: "3 \<le> length xs"
    and inv: "stop_inv e name maxTimeMs i0 st"
  shows "measure_loop e name iter maxTimeMs (date_now e i0) st = Some (Inr (emit DateNow st))"
proof -
  let ?t = "date_now e (length (trace st))"
  have i0: "i0 \<le> length (trace st)" using inv by (simp add: stop_inv_def)
  have ge: "date_now e i0 \<le> ?t" using mono i0 by (simp add: clock_monotone_def)
  have "\<not> ?t - date_now e i0 < maxTimeMs"
  proof (cases "maxTimeMs \<le> 0")
    case True
    with ge show ?thesis by simp
  next
    case False
    with inv obtain j n where j: "i0 \<le> j" and n: "n < length (trace st)"
      and d: "maxTimeMs < date_now e n - date_now e j"
      by (auto simp: stop_inv_def)
    have "date_now e n \<le> ?t" using mono n by (simp add: clock_monotone_def)
    moreover have "date_now e i0 \<le> date_now e j" using mono j by (simp add: clock_monotone_def)
    ultimately show ?thesis using d by linarith
  qed
  then show ?thesis
    using xs len
    by (subst measure_loop.simps) (simp add: samples_def loop_guard_def now_eq)
qed

lemma measure_loop_step:
  assumes ok: "action_ok name iter"
    and stop: "maxTimeMs \<le> 0 \<or> slower_than e maxTimeMs iter"
    and xs: "samples st name = Some xs" and len: "length xs < 3"
    and i0: "i0 \<le> length (trace st)" and tty: "stdout_isTTY e"
  shows "\<exists>st' d. measure_loop e name iter maxTimeMs os st =
                 measure_loop e name iter maxTimeMs os st' \<and>
           samples st' name = Some (xs @ [d]) \<and> stop_inv e name maxTimeMs i0 st'"
proof -
  from sample_once_ok[OF ok xs tty] obtain st' n s2 where
    so: "sample_once e name iter st = Some (Inr st')"
    and n: "length (trace st) < n" "length (trace st') = Suc n"
    and sm: "samples st' name = Some (xs @ [date_now e n - date_now e (length (trace st))])"
    and s2: "iter (emit DateNow st) = Some (Inr s2)" "length (trace s2) = n"
    by blast
  have "measure_loop e name iter maxTimeMs os st = measure_loop e name iter maxTimeMs os st'"
    using xs len so
    by (subst measure_loop.simps) (simp add: samples_def loop_guard_def)
  moreover have "stop_inv e name maxTimeMs i0 st'"
  proof (cases "maxTimeMs \<le> 0")
    case True
    then show ?thesis using n i0 by (simp add: stop_inv_def)
  next
    case False
    with stop have "slower_than e maxTimeMs iter" by simp
    with s2 have "maxTimeMs < date_now e n - date_now e (length (trace st))"
      unfolding slower_than_def by blast
    then show ?thesis using n i0 unfolding stop_inv_def by (intro conjI disjI2) auto
  qed
  ultimately show ?thesis using sm by blast
qed

lemma measure_loop_three:
  assumes ok: "action_ok name iter" and mono: "clock_monotone e"
    and stop: "maxTimeMs \<le> 0 \<or> slower_than e maxTimeMs iter"
    and xs: "samples st name = Some []" and i0: "i0 \<le> length (trace st)"
    and tty: "stdout_isTTY e"
  shows "\<exists>st' a b c. measure_loop e name iter maxTimeMs (date_now e i0) st = Some (Inr st') \<and>
           samples st' name = Some [a, b, c]"
proof -
  let ?loop = "measure_loop e name iter maxTimeMs (date_now e i0)"
  from measure_loop_step[OF ok stop xs _ i0 tty, of "date_now e i0"] obtain s1 a where
    1: "?loop st = ?loop s1" "samples s1 name = Some [a]" "stop_inv e name maxTimeMs i0 s1"
    by auto
  have i1: "i0 \<le> length (trace s1)" using 1(3) by (simp add: stop_inv_def)
  from measure_loop_step[OF ok stop 1(2) _ i1 tty, of "date_now e i0"] obtain s2 b where
    2: "?loop s1 = ?loop s2" "samples s2 name = Some [a, b]" "stop_inv e name maxTimeMs i0 s2"
    by auto
  have i2: "i0 \<le> length (trace s2)" using 2(3) by (simp add: stop_inv_def)
  from measure_loop_step[OF ok stop 2(2) _ i2 tty, of "date_now e i0"] obtain s3 c where
    3: "?loop s2 = ?loop s3" "samples s3 name = Some [a, b, c]" "stop_inv e name maxTimeMs i0 s3"
    by auto
  have "?loop s3 = Some (Inr (emit DateNow s3))"
    by (rule measure_loop_stop[OF mono 3(2) _ 3(3)]) simp
  then have "?loop st = Some (Inr (emit DateNow s3))" using 1(1) 2(1) 3(1) by simp
  moreover have "samples (emit DateNow s3) name = Some [a, b, c]" using 3(2) by simp
  ultimately show ?thesis by blast
qed

lemma measure_sampling_three:
  assumes empty: "samples st name = None \<or> samples st name = Some []"
    and ok: "bench_ok name b" and mono: "clock_monotone e"
    and stop: "maxTimeMs \<le> 0 \<or> bench_slower e maxTimeMs b"
    and tty: "stdout_isTTY e"
  shows "\<exists>st' x y z. measure_sampling e name b maxTimeMs st = Some (Inr st') \<and>
           samples st' name = Some [x, y, z]"
proof -
  define s0 where "s0 = (case map_of (measures_tbl st) name of
                   None \<Rightarrow> st\<lparr>measures_tbl := AList.update name [] (measures_tbl st)\<rparr>
                 | Some _ \<Rightarrow> st)"
  have s0: "samples s0 name = Some []" and t0: "trace s0 = trace st"
    using empty by (auto simp: s0_def samples_def update_conv' split: option.splits)
  let ?i0 = "length (trace st)"
  let ?s1 = "emit DateNow s0"
  have s1: "samples ?s1 name = Some []" using s0 by simp
  show ?thesis
  proof (cases b)
    case (FnOnly fn)
    have okf: "action_ok name fn" using ok FnOnly by (simp add: bench_ok_def)
    have stf: "maxTimeMs \<le> 0 \<or> slower_than e maxTimeMs fn"
      using stop FnOnly by (simp add: bench_slower_def)
    have "?i0 \<le> length (trace ?s1)" using t0 by simp
    from measure_loop_three[OF okf mono stf s1 this tty] show ?thesis
      using FnOnly t0 by (simp add: measure_sampling_def s0_def[symmetric] now_eq Let_def)
  next
    case (WithSetup prep fn)
    have oks: "setup_ok name prep" and okf: "action_ok name (fn r)" for r
      using ok WithSetup by (simp_all add: bench_ok_def)
    have stf: "maxTimeMs \<le> 0 \<or> slower_than e maxTimeMs (fn r)" for r
      using stop WithSetup by (auto simp add: bench_slower_def)
    from oks obtain r s2 where su: "prep ?s1 = Some (Inr (r, s2))"
      and keep: "samples s2 name = samples ?s1 name"
      and grow: "length (trace ?s1) \<le> length (trace s2)"
      unfolding setup_ok_def by blast
    have s2: "samples s2 name = Some []" using keep s1 by simp
    have "?i0 \<le> length (trace s2)" using grow t0 by simp
    from measure_loop_three[OF okf mono stf s2 this tty] show ?thesis
      using WithSetup t0 su by (simp add: measure_sampling_def s0_def[symmetric] now_eq Let_def)
  qed
qed

lemma measure_loop_rule:
  assumes "samples st name = Some xs"
  shows "measure_loop e name iter maxTimeMs os st =
         (if length xs < 3 \<or> date_now e (length (trace st)) - os < maxTimeMs
          then bindP (sample_once e name iter (if length xs < 3 then st else emit DateNow st))
                 (measure_loop e name iter maxTimeMs os)
          else Some (Inr (emit DateNow st)))"
  using assms
  by (subst measure_loop.simps)
     (auto simp: samples_def loop_guard_def now_eq bindP_def split: option.splits sum.splits)


lemma turn_sample_once:
  assumes tty: "stdout_isTTY e" and t: "turn e name iter st st'"
  shows "sample_once e name iter st = Some (Inr st')"
    and "\<exists>xs. samples st name = Some xs \<and> samples st' name = Some (xs @ [elapsed e st st'])"
    and "length (trace st) < length (trace st')"
proof -
  from t obtain a xs where a: "iter (emit DateNow st) = Some (Inr a)"
    and xs: "samples st name = Some xs" and xa: "samples a name = Some xs"
    and len: "length (trace st) < length (trace a)"
    and st': "st' = (emit DateNow a)\<lparr>measures_tbl :=
                 AList.update name
                   (xs @ [date_now e (length (trace a)) - date_now e (length (trace st))])
                   (measures_tbl a)\<rparr>"
    unfolding turn_def by blast
  have x2: "samples (emit DateNow a) name = Some xs" using xa by simp
  show "sample_once e name iter st = Some (Inr st')"
    by (simp add: sample_once_def now_eq a push_measure_Some[OF x2] clearLine_tty[OF tty] st')
  show "\<exists>xs. samples st name = Some xs \<and> samples st' name = Some (xs @ [elapsed e st st'])"
    using xs by (simp add: st' samples_update elapsed_def)
  show "length (trace st) < length (trace st')" using len by (simp add: st')
qed


lemma three_turns:
  assumes tty: "stdout_isTTY e" and mono: "clock_monotone e"
    and start: "i0 < length (trace s0)" and x0: "samples s0 name = Some []"
    and t1: "turn e name iter s0 s1" and t2: "turn e name iter s1 s2"
    and t3: "turn e name iter s2 s3"
    and stop: "b \<le> 0 \<or> b < elapsed e s0 s1 \<or> b < elapsed e s1 s2 \<or> b < elapsed e s2 s3"
  shows "measure_loop e name iter b (date_now e i0) s0 = Some (Inr (emit DateNow s3))"
    and "samples (emit DateNow s3) name = Some [elapsed e s0 s1, elapsed e s1 s2, elapsed e s2 s3]"
proof -
  let ?loop = "measure_loop e name iter b (date_now e i0)"
  note a1 = turn_sample_once[OF tty t1] and a2 = turn_sample_once[OF tty t2]
    and a3 = turn_sample_once[OF tty t3]
  have x1: "samples s1 name = Some [elapsed e s0 s1]" using a1(2) x0 by simp
  have x2: "samples s2 name = Some [elapsed e s0 s1, elapsed e s1 s2]" using a2(2) x1 by simp
  have x3: "samples s3 name = Some [elapsed e s0 s1, elapsed e s1 s2, elapsed e s2 s3]"
    using a3(2) x2 by simp
  have m: "date_now e i \<le> date_now e j" if "i \<le> j" for i j
    using mono that by (simp add: clock_monotone_def)
  let ?t = "date_now e (length (trace s3))"
  have l: "length (trace s0) < length (trace s1)" "length (trace s1) < length (trace s2)"
    "length (trace s2) < length (trace s3)"
    using a1(3) a2(3) a3(3) by simp_all
  have g: "\<not> ?t - date_now e i0 < b"
  proof -
    have b0: "date_now e i0 \<le> ?t" using l start by (intro m) simp
    have u: "date_now e (length (trace s1) - 1) \<le> ?t" "date_now e (length (trace s2) - 1) \<le> ?t"
      "date_now e (length (trace s3) - 1) \<le> ?t"
      using l by (auto intro!: m)
    have d: "date_now e i0 \<le> date_now e (length (trace s0))"
      "date_now e i0 \<le> date_now e (length (trace s1))"
      "date_now e i0 \<le> date_now e (length (trace s2))"
      using l start by (auto intro!: m)
    have e1: "elapsed e s0 s1 \<le> ?t - date_now e i0"
      unfolding elapsed_def using u(1) d(1) by linarith
    have e2: "elapsed e s1 s2 \<le> ?t - date_now e i0"
      unfolding elapsed_def using u(2) d(2) by linarith
    have e3: "elapsed e s2 s3 \<le> ?t - date_now e i0"
      unfolding elapsed_def using u(3) d(3) by linarith
    from stop b0 e1 e2 e3 show ?thesis by linarith
  qed
  have "?loop s0 = ?loop s1" by (simp add: measure_loop_rule[OF x0] a1(1))
  also have "\<dots> = ?loop s2" by (simp add: measure_loop_rule[OF x1] a2(1))
  also have "\<dots> = ?loop s3" by (simp add: measure_loop_rule[OF x2] a3(1))
  also have "\<dots> = Some (Inr (emit DateNow s3))" using g by (simp add: measure_loop_rule[OF x3])
  finally show "?loop s0 = Some (Inr (emit DateNow s3))" .
  show "samples (emit DateNow s3) name = Some [elapsed e s0 s1, elapsed e s1 s2, elapsed e s2 s3]"
    using x3 by simp
qed

lemma entered_samples:
  "samples st name = None \<or> samples st name = Some [] \<Longrightarrow> samples (entered name st) name = Some []"
  by (auto simp: entered_def samples_def update_conv' split: option.splits)

lemma entered_trace [simp]: "trace (entered name st) = trace st"
  by (simp add: entered_def split: option.splits)

lemma entered_other: "other \<noteq> name \<Longrightarrow> samples (entered name st) other = samples st other"
  by (simp add: entered_def samples_def update_conv' split: option.splits)

lemma sampling_prepared:
  assumes "prepared name bench st iter s0"
  shows "measure_sampling e name bench b st =
           measure_loop e name iter b (date_now e (length (trace st))) s0"
    and "length (trace st) < length (trace s0)"
    and "samples s0 name = samples (entered name st) name"
  using assms
  by (auto simp: prepared_def measure_sampling_def entered_def[symmetric] now_eq Let_def
      split: bench.splits)

lemma sampling_three_turns:
  assumes tty: "stdout_isTTY e" and mono: "clock_monotone e"
    and empty: "samples st name = None \<or> samples st name = Some []"
    and prep: "prepared name bench st iter s0"
    and t1: "turn e name iter s0 s1" and t2: "turn e name iter s1 s2"
    and t3: "turn e name iter s2 s3"
    and stop: "b \<le> 0 \<or> b < elapsed e s0 s1 \<or> b < elapsed e s1 s2 \<or> b < elapsed e s2 s3"
  shows "measure_sampling e name bench b st = Some (Inr (emit DateNow s3))"
    and "samples (emit DateNow s3) name = Some [elapsed e s0 s1, elapsed e s1 s2, elapsed e s2 s3]"
proof -
  note p = sampling_prepared[OF prep]
  have x0: "samples s0 name = Some []" using p(3) entered_samples[OF empty] by simp
  note r = three_turns[OF tty mono p(2) x0 t1 t2 t3 stop]
  show "measure_sampling e name bench b st = Some (Inr (emit DateNow s3))"
    using p(1) r(1) by simp
  show "samples (emit DateNow s3) name = Some [elapsed e s0 s1, elapsed e s1 s2, elapsed e s2 s3]"
    by (rule r(2))
qed







section \<open>One multipart iteration\<close>

lemma getSignedUrl_Inr:
  "getSignedUrl e cmd st = Inr (url, st') \<longleftrightarrow>
   sign_reply e (length (trace st)) = Inr url \<and> st' = emit (GetSignedUrl cmd) st"
  by (auto simp: getSignedUrl_def split: sum.splits)

lemma ky_put_Inr:
  "ky_put e url body st = Inr (r, st') \<longleftrightarrow>
   put_reply e (length (trace st)) = Inr r \<and> st' = emit (KyPut url body) st"
  by (auto simp: ky_put_def split: sum.splits)

lemma send_Inr:
  "send e cmd st = Inr st' \<longleftrightarrow> send_reply e (length (trace st)) = None \<and> st' = emit (Send cmd) st"
  by (auto simp: send_def split: option.splits)

lemma multipartUpload_Inr:
  "multipartUpload e u k pn file st = Inr (tag, st') \<longleftrightarrow>
   (\<exists>url r. sign_reply e (length (trace st)) = Inr url \<and>
            put_reply e (Suc (length (trace st))) = Inr r \<and>
            tag = (case r of None \<Rightarrow> [] | Some t \<Rightarrow> t) \<and>
            st' = emit (KyPut url file) (emit (GetSignedUrl (UploadPartCommand (Bucket e) k u pn)) st))"
  by (auto simp: multipartUpload_def getMultipartPresignedUrl_def getSignedUrl_def ky_put_def
      split: sum.splits)

lemma multipartUpload_result:
  assumes "multipartUpload e u k pn file st = Inr (tag, st')"
  shows "trace st' = trace st @ part_events e k u (length (trace st)) pn [file]"
    and "tag = tag_of (put_reply e (Suc (length (trace st))))"
    and "[tag] = put_tags e (length (trace st)) (part_events e k u (length (trace st)) pn [file])"
    and "measures_tbl st' = measures_tbl st"
proof -
  from assms obtain url r where s: "sign_reply e (length (trace st)) = Inr url"
    and p: "put_reply e (Suc (length (trace st))) = Inr r"
    and tag: "tag = (case r of None \<Rightarrow> [] | Some t \<Rightarrow> t)"
    and st': "st' = emit (KyPut url file) (emit (GetSignedUrl (UploadPartCommand (Bucket e) k u pn)) st)"
    unfolding multipartUpload_Inr by blast
  show "trace st' = trace st @ part_events e k u (length (trace st)) pn [file]"
    by (simp add: st' s url_of_def)
  show t: "tag = tag_of (put_reply e (Suc (length (trace st))))"
    by (simp add: tag p tag_of_def split: option.splits)
  show "[tag] = put_tags e (length (trace st)) (part_events e k u (length (trace st)) pn [file])"
    by (simp add: t)
  show "measures_tbl st' = measures_tbl st"
    by (simp add: st')
qed

lemma put_tags_append:
  "put_tags e i (xs @ ys) = put_tags e i xs @ put_tags e (i + length xs) ys"
  by (induction xs arbitrary: i) auto

lemma length_part_events [simp]: "length (part_events e k u i pn files) = 2 * length files"
  by (induction files arbitrary: i pn) auto

lemma part_events_append:
  "part_events e k u i pn (xs @ ys) =
   part_events e k u i pn xs @ part_events e k u (i + 2 * length xs) (pn + length xs) ys"
  by (induction xs arbitrary: i pn) auto

lemma length_put_tags_part_events [simp]:
  "length (put_tags e i (part_events e k u i pn files)) = length files"
  by (induction files arbitrary: i pn) auto

lemma upload_chunks_result_aux:
  assumes "upload_chunks e chunk u k cd cs rem pn tags st = Some y"
  shows "\<forall>rem' pn' tags' st'. y = Inr ((rem', pn', tags'), st') \<longrightarrow>
           (\<exists>m. trace st' = trace st @ part_events e k u (length (trace st)) pn (replicate m cd) \<and>
                tags' = tags @ put_tags e (length (trace st))
                                 (part_events e k u (length (trace st)) pn (replicate m cd)) \<and>
                pn' = pn + m \<and> measures_tbl st' = measures_tbl st \<and> \<not> js_gt rem' cs)"
  using assms
proof (induction e chunk u k cd cs rem pn tags st y rule: upload_chunks.raw_induct[rotated 1, consumes 1])
  case (1 loop e chunk u k cd cs rem pn tags st y)
  show ?case
  proof (cases "js_gt rem cs")
    case False
    with 1(2) have "y = Inr ((rem, pn, tags), st)" by simp
    then show ?thesis using False by (auto intro: exI[of _ 0])
  next
    case True
    show ?thesis
    proof (intro allI impI)
      fix rem' pn' tags' st'
      assume y: "y = Inr ((rem', pn', tags'), st')"
      from 1(2) True y obtain tag st1 c where
        mu: "multipartUpload e u k pn cd st = Inr (tag, st1)"
        and rec: "loop e chunk u k cd cs (js_sub rem c) (pn + 1) (tags @ [tag]) st1 =
                  Some (Inr ((rem', pn', tags'), st'))"
        by (auto split: sum.splits)
      note r = multipartUpload_result[OF mu]
      from 1(1)[OF rec] obtain m where
        t: "trace st' = trace st1 @ part_events e k u (length (trace st1)) (pn + 1) (replicate m cd)"
        and g: "tags' = (tags @ [tag]) @ put_tags e (length (trace st1))
                  (part_events e k u (length (trace st1)) (pn + 1) (replicate m cd))"
        and p: "pn' = pn + 1 + m" and ms: "measures_tbl st' = measures_tbl st1"
        and ng: "\<not> js_gt rem' cs"
        by blast
      have l1: "length (trace st1) = length (trace st) + 2" using r(1) by simp
      have pe: "part_events e k u (length (trace st)) pn (replicate (Suc m) cd) =
                part_events e k u (length (trace st)) pn [cd] @
                part_events e k u (length (trace st1)) (pn + 1) (replicate m cd)"
        using part_events_append[of e k u "length (trace st)" pn "[cd]" "replicate m cd"] l1
        by simp
      have "trace st' = trace st @ part_events e k u (length (trace st)) pn (replicate (Suc m) cd)"
        using t r(1) pe by simp
      moreover have "tags' = tags @ put_tags e (length (trace st))
                 (part_events e k u (length (trace st)) pn (replicate (Suc m) cd))"
        unfolding pe put_tags_append using g r(3) l1 by simp
      moreover have "pn' = pn + Suc m" using p by simp
      moreover have "measures_tbl st' = measures_tbl st" using ms r(4) by simp
      ultimately show "\<exists>m. trace st' = trace st @ part_events e k u (length (trace st)) pn (replicate m cd) \<and>
                tags' = tags @ put_tags e (length (trace st))
                                 (part_events e k u (length (trace st)) pn (replicate m cd)) \<and>
                pn' = pn + m \<and> measures_tbl st' = measures_tbl st \<and> \<not> js_gt rem' cs"
        using ng by blast
    qed
  qed
qed

lemma upload_chunks_result:
  assumes "upload_chunks e chunk u k cd cs rem pn tags st = Some (Inr ((rem', pn', tags'), st'))"
  shows "\<exists>m. trace st' = trace st @ part_events e k u (length (trace st)) pn (replicate m cd) \<and>
                tags' = tags @ put_tags e (length (trace st))
                                 (part_events e k u (length (trace st)) pn (replicate m cd)) \<and>
                pn' = pn + m \<and> measures_tbl st' = measures_tbl st \<and> \<not> js_gt rem' cs"
  using upload_chunks_result_aux[OF assms] by blast

lemma completeMultipart_Inr:
  "completeMultipart e u k tags st = Inr st' \<longleftrightarrow>
   send_reply e (length (trace st)) = None \<and>
   st' = emit (Send (CompleteMultipartUploadCommand (Bucket e) k u (parts_of tags))) st"
  by (simp add: completeMultipart_def send_Inr parts_of_def)

lemma initiateMultipart_Inr:
  "initiateMultipart e p st = Inr (out, st') \<longleftrightarrow>
   create_multipart_reply e (length (trace st) + 2) = Inr out \<and>
   st' = emit (Send (CreateMultipartUploadCommand (Bucket e)
                   (key_of p (hrtime e (length (trace st))) (hrtime e (Suc (length (trace st)))))))
           (emit HrTime (emit HrTime st))"
  by (auto simp: initiateMultipart_def getKey_eq split: sum.splits)

text \<open>The last part, when bytes remain after the loop.\<close>

lemma last_part_result:
  assumes "(if js_gt rem (Fin 0) then
              Some (bindE (multipartUpload e u k pn lcd st)
                      (\<lambda>(tag, st3). Inr (tags @ [tag], st3)))
            else Some (Inr (tags, st))) = Some (Inr (tags', st'))"
  shows "\<exists>l. (l = [] \<and> \<not> js_gt rem (Fin 0) \<or> l = [lcd] \<and> js_gt rem (Fin 0)) \<and>
             trace st' = trace st @ part_events e k u (length (trace st)) pn l \<and>
             tags' = tags @ put_tags e (length (trace st)) (part_events e k u (length (trace st)) pn l) \<and>
             measures_tbl st' = measures_tbl st"
proof (cases "js_gt rem (Fin 0)")
  case False
  with assms show ?thesis by (intro exI[of _ "[]"]) simp
next
  case True
  with assms obtain tag where mu: "multipartUpload e u k pn lcd st = Inr (tag, st')"
    and t: "tags' = tags @ [tag]"
    by (auto simp: bindE_Inr)
  note r = multipartUpload_result[OF mu]
  show ?thesis
    using True r(1) r(3)[symmetric] r(4) t by (intro exI[of _ "[lcd]"]) simp
qed

lemma multipart_parts_result:
  assumes "multipart_parts e chunk fx rem cs u k st = Some (Inr st')"
  shows "\<exists>m l ys zs rem' tags1 s2.
           upload_chunks e chunk u k (chunkData fx) cs rem 1 [] (emit DateNow st) =
             Some (Inr ((rem', 1 + m, tags1), s2)) \<and>
           (l = [] \<and> \<not> js_gt rem' (Fin 0) \<or> l = [lastChunkData fx] \<and> js_gt rem' (Fin 0)) \<and>
           trace st' = trace st @ phase_events e (length (trace st)) k u
                                    (replicate m (chunkData fx) @ l) \<and>
           samples st (uploadMeasure fx) = Some ys \<and>
           map_of (AList.update (uploadMeasure fx)
                     (ys @ [upload_sample e (length (trace st)) (replicate m (chunkData fx) @ l)])
                     (measures_tbl st)) (completeMeasure fx) = Some zs \<and>
           measures_tbl st' =
             AList.update (completeMeasure fx)
               (zs @ [complete_sample e (length (trace st)) (replicate m (chunkData fx) @ l)])
               (AList.update (uploadMeasure fx)
                  (ys @ [upload_sample e (length (trace st)) (replicate m (chunkData fx) @ l)])
                  (measures_tbl st))"
proof -
  let ?n = "length (trace st)"
  let ?s1 = "emit DateNow st"
  from assms obtain rem' pn' tags1 s2 tags2 s3 where
    uc: "upload_chunks e chunk u k (chunkData fx) cs rem 1 [] ?s1 = Some (Inr ((rem', pn', tags1), s2))"
    and lp: "(if js_gt rem' (Fin 0) then
                Some (bindE (multipartUpload e u k pn' (lastChunkData fx) s2)
                        (\<lambda>(tag, st3). Inr (tags1 @ [tag], st3)))
              else Some (Inr (tags1, s2))) = Some (Inr (tags2, s3))"
    and rest: "bindE (push_measure (uploadMeasure fx)
                        (date_now e (length (trace s3)) - date_now e ?n) (emit DateNow s3)) (\<lambda>st5.
                 let (start', st6) = now e st5
                 in bindE (completeMultipart e u k tags2 st6) (\<lambda>st7.
                      let (end', st8) = now e st7
                      in push_measure (completeMeasure fx) (end' - start') st8)) = Inr st'"
    unfolding multipart_parts_def now_eq
    by (auto simp: bindP_Inr split: prod.splits)
  from upload_chunks_result[OF uc] obtain m where
    t2: "trace s2 = trace ?s1 @ part_events e k u (Suc ?n) 1 (replicate m (chunkData fx))"
    and g2: "tags1 = put_tags e (Suc ?n) (part_events e k u (Suc ?n) 1 (replicate m (chunkData fx)))"
    and p2: "pn' = 1 + m" and m2: "measures_tbl s2 = measures_tbl st"
    by auto
  have l2: "length (trace s2) = Suc ?n + 2 * m" using t2 by simp
  from last_part_result[OF lp] obtain l where
    l: "l = [] \<and> \<not> js_gt rem' (Fin 0) \<or> l = [lastChunkData fx] \<and> js_gt rem' (Fin 0)"
    and t3: "trace s3 = trace s2 @ part_events e k u (length (trace s2)) pn' l"
    and g3: "tags2 = tags1 @ put_tags e (length (trace s2)) (part_events e k u (length (trace s2)) pn' l)"
    and m3: "measures_tbl s3 = measures_tbl s2"
    by blast
  let ?files = "replicate m (chunkData fx) @ l"
  have pe: "part_events e k u (Suc ?n) 1 ?files =
            part_events e k u (Suc ?n) 1 (replicate m (chunkData fx)) @
            part_events e k u (length (trace s2)) pn' l"
    using part_events_append[of e k u "Suc ?n" 1 "replicate m (chunkData fx)" l] l2 p2 by simp
  have t3': "trace s3 = trace st @ [DateNow] @ part_events e k u (Suc ?n) 1 ?files"
    using t3 t2 pe by simp
  have g3': "tags2 = put_tags e (Suc ?n) (part_events e k u (Suc ?n) 1 ?files)"
    unfolding pe put_tags_append using g3 g2 l2 by simp
  have l3: "length (trace s3) = Suc ?n + 2 * length ?files" using t3' by simp
  from rest obtain ys where
    ys: "samples (emit DateNow s3) (uploadMeasure fx) = Some ys"
    and rest2: "(let s5 = (emit DateNow s3)\<lparr>measures_tbl := AList.update (uploadMeasure fx)
                    (ys @ [date_now e (length (trace s3)) - date_now e ?n])
                    (measures_tbl (emit DateNow s3))\<rparr>;
                   (start', st6) = now e s5
                 in bindE (completeMultipart e u k tags2 st6) (\<lambda>st7.
                      let (end', st8) = now e st7
                      in push_measure (completeMeasure fx) (end' - start') st8)) = Inr st'"
    by (auto simp: bindE_Inr push_measure_Inr Let_def)
  define s5 where "s5 = (emit DateNow s3)\<lparr>measures_tbl := AList.update (uploadMeasure fx)
                    (ys @ [date_now e (length (trace s3)) - date_now e ?n])
                    (measures_tbl (emit DateNow s3))\<rparr>"
  have t5: "trace s5 = trace s3 @ [DateNow]" by (simp add: s5_def)
  have m5: "measures_tbl s5 = AList.update (uploadMeasure fx)
              (ys @ [upload_sample e ?n ?files]) (measures_tbl st)"
    using m3 m2 l3 by (simp add: s5_def upload_sample_def)
  from rest2 obtain zs where
    sr: "send_reply e (length (trace (emit DateNow s5))) = None"
    and zs: "samples (emit DateNow (emit (Send (CompleteMultipartUploadCommand (Bucket e) k u
                (parts_of tags2))) (emit DateNow s5))) (completeMeasure fx) = Some zs"
    and st': "st' = (emit DateNow (emit (Send (CompleteMultipartUploadCommand (Bucket e) k u
                (parts_of tags2))) (emit DateNow s5)))
                \<lparr>measures_tbl := AList.update (completeMeasure fx)
                   (zs @ [date_now e (length (trace s5) + 2) - date_now e (length (trace s5))])
                   (measures_tbl s5)\<rparr>"
    unfolding s5_def[symmetric]
    by (auto simp: now_eq bindE_Inr completeMultipart_Inr push_measure_Inr Let_def)
  have "trace st' = trace st @ phase_events e ?n k u ?files"
    using st' t5 t3' g3' by (simp add: phase_events_def)
  moreover have "samples st (uploadMeasure fx) = Some ys"
    using ys m3 m2 by (simp add: samples_def)
  moreover have "map_of (AList.update (uploadMeasure fx)
                     (ys @ [upload_sample e ?n ?files]) (measures_tbl st)) (completeMeasure fx) = Some zs"
    using zs m5 by (simp add: samples_def)
  moreover have "measures_tbl st' = AList.update (completeMeasure fx)
               (zs @ [complete_sample e ?n ?files])
               (AList.update (uploadMeasure fx) (ys @ [upload_sample e ?n ?files]) (measures_tbl st))"
  proof -
    have a1: "length (trace s5) + 2 = ?n + 2 * length ?files + 4"
      and a2: "length (trace s5) = ?n + 2 * length ?files + 2"
      using t5 l3 by simp_all
    have "date_now e (length (trace s5) + 2) - date_now e (length (trace s5)) =
          complete_sample e ?n ?files"
      by (simp only: a1 a2[symmetric] complete_sample_def)
    then show ?thesis using st' m5 by simp
  qed
  ultimately show ?thesis using l uc[unfolded p2] by blast
qed

lemma multipart_fn_result:
  assumes "multipart_fn e sz chunk fx st = Some (Inr st')"
  shows "\<exists>rem cs u k m l ys zs rem' tags1 s2.
           sizeToBytes sz = Inr rem \<and> sizeToBytes chunk = Inr cs \<and>
           create_multipart_reply e (length (trace st) + 2) = Inr (Some u, Some k) \<and>
           u \<noteq> [] \<and> k \<noteq> [] \<and>
           upload_chunks e chunk u k (chunkData fx) cs rem 1 []
               (emit DateNow (emit (Send (CreateMultipartUploadCommand (Bucket e)
                   (key_of (multipart_prefix sz chunk)
                      (hrtime e (length (trace st))) (hrtime e (Suc (length (trace st)))))))
                 (emit HrTime (emit HrTime st)))) =
             Some (Inr ((rem', 1 + m, tags1), s2)) \<and>
           (l = [] \<and> \<not> js_gt rem' (Fin 0) \<or> l = [lastChunkData fx] \<and> js_gt rem' (Fin 0)) \<and>
           trace st' = trace st @ iteration_events e (length (trace st))
               (key_of (multipart_prefix sz chunk)
                  (hrtime e (length (trace st))) (hrtime e (Suc (length (trace st)))))
               k u (replicate m (chunkData fx) @ l) \<and>
           samples st (uploadMeasure fx) = Some ys \<and>
           map_of (AList.update (uploadMeasure fx)
                     (ys @ [upload_sample e (length (trace st) + 3) (replicate m (chunkData fx) @ l)])
                     (measures_tbl st)) (completeMeasure fx) = Some zs \<and>
           measures_tbl st' =
             AList.update (completeMeasure fx)
               (zs @ [complete_sample e (length (trace st) + 3) (replicate m (chunkData fx) @ l)])
               (AList.update (uploadMeasure fx)
                  (ys @ [upload_sample e (length (trace st) + 3) (replicate m (chunkData fx) @ l)])
                  (measures_tbl st))"
proof -
  let ?n = "length (trace st)"
  let ?key = "key_of (multipart_prefix sz chunk) (hrtime e ?n) (hrtime e (Suc ?n))"
  let ?s1 = "emit (Send (CreateMultipartUploadCommand (Bucket e) ?key)) (emit HrTime (emit HrTime st))"
  from assms obtain rem cs uo ko where
    rem: "sizeToBytes sz = Inr rem" and cs: "sizeToBytes chunk = Inr cs"
    and cr: "create_multipart_reply e (?n + 2) = Inr (uo, ko)"
    and body: "(case (uo, ko) of
            (Some u, Some k) \<Rightarrow>
              if u = [] \<or> k = [] then Some (Inl (Error ''UploadId or Key is undefined''))
              else multipart_parts e chunk fx rem cs u k ?s1
          | _ \<Rightarrow> Some (Inl (Error ''UploadId or Key is undefined''))) = Some (Inr st')"
    unfolding multipart_fn_def
    by (auto simp: bindP_Inr initiateMultipart_Inr)
  from body obtain u k where uk: "uo = Some u" "ko = Some k" "u \<noteq> []" "k \<noteq> []"
    and parts: "multipart_parts e chunk fx rem cs u k ?s1 = Some (Inr st')"
    by (auto split: option.splits if_splits)
  have n1: "length (trace ?s1) = ?n + 3" by simp
  have m1: "measures_tbl ?s1 = measures_tbl st" by simp
  have sm: "samples ?s1 name = samples st name" for name by (simp add: samples_def)
  have tr: "trace ?s1 @ phase_events e (?n + 3) k u files =
            trace st @ iteration_events e ?n ?key k u files" for files
    by (simp add: iteration_events_def)
  from multipart_parts_result[OF parts] show ?thesis
    unfolding n1 m1 sm tr using rem cs cr uk by blast
qed

lemma names_distinct:
  "total_name sz chunk \<noteq> upload_name sz chunk"
  "total_name sz chunk \<noteq> complete_name sz chunk"
  "upload_name sz chunk \<noteq> complete_name sz chunk"
  by (simp_all add: total_name_def upload_name_def complete_name_def)

lemma multipart_setup_names:
  assumes "multipart_setup e sz chunk s = Inr (fx, s1)"
  shows "uploadMeasure fx = upload_name sz chunk" "completeMeasure fx = complete_name sz chunk"
    and "samples s1 (upload_name sz chunk) = Some []"
    and "samples s1 (complete_name sz chunk) = Some []"
    and "samples s1 (total_name sz chunk) = samples s (total_name sz chunk)"
    and "trace s1 = trace s"
  using assms names_distinct[of sz chunk]
  by (auto simp: multipart_setup_def bindE_Inr Let_def samples_def update_conv')

lemma length_phase_events [simp]:
  "length (phase_events e n k u files) = 2 * length files + 5"
  by (simp add: phase_events_def)

lemma length_iteration_events [simp]:
  "length (iteration_events e n key k u files) = 2 * length files + 8"
  by (simp add: iteration_events_def)

lemma sample_once_multipart:
  assumes so: "sample_once e (total_name sz chunk) (multipart_fn e sz chunk fx) st = Some (Inr st')"
    and um: "uploadMeasure fx = upload_name sz chunk"
    and cm: "completeMeasure fx = complete_name sz chunk"
  shows "\<exists>xs ys zs key k u files.
           samples st (total_name sz chunk) = Some xs \<and>
           samples st (upload_name sz chunk) = Some ys \<and>
           samples st (complete_name sz chunk) = Some zs \<and>
           trace st' = trace st @ [DateNow] @
                         iteration_events e (Suc (length (trace st))) key k u files @ [DateNow] \<and>
           samples st' (total_name sz chunk) =
             Some (xs @ [date_now e (length (trace st) + 2 * length files + 9) -
                         date_now e (length (trace st))]) \<and>
           samples st' (upload_name sz chunk) =
             Some (ys @ [upload_sample e (length (trace st) + 4) files]) \<and>
           samples st' (complete_name sz chunk) =
             Some (zs @ [complete_sample e (length (trace st) + 4) files])"
proof -
  let ?n = "length (trace st)"
  let ?T = "total_name sz chunk" and ?U = "upload_name sz chunk" and ?C = "complete_name sz chunk"
  note nd = names_distinct[of sz chunk]
  from so obtain s2 xs where
    fn: "multipart_fn e sz chunk fx (emit DateNow st) = Some (Inr s2)"
    and xs: "samples (emit DateNow s2) ?T = Some xs"
    and st': "st' = (emit DateNow s2)\<lparr>measures_tbl := AList.update ?T
                 (xs @ [date_now e (length (trace s2)) - date_now e ?n])
                 (measures_tbl (emit DateNow s2))\<rparr>"
    unfolding sample_once_def now_eq
    by (auto simp: bindP_Inr push_measure_Inr clearLine_Inr)
  from multipart_fn_result[OF fn] obtain key k u files ys zs where
    tr: "trace s2 = trace (emit DateNow st) @
           iteration_events e (length (trace (emit DateNow st))) key k u files"
    and ys: "samples (emit DateNow st) (uploadMeasure fx) = Some ys"
    and zs: "map_of (AList.update (uploadMeasure fx)
               (ys @ [upload_sample e (length (trace (emit DateNow st)) + 3) files])
               (measures_tbl (emit DateNow st))) (completeMeasure fx) = Some zs"
    and ms: "measures_tbl s2 = AList.update (completeMeasure fx)
               (zs @ [complete_sample e (length (trace (emit DateNow st)) + 3) files])
               (AList.update (uploadMeasure fx)
                  (ys @ [upload_sample e (length (trace (emit DateNow st)) + 3) files])
                  (measures_tbl (emit DateNow st)))"
    by blast
  have idx: "length (trace (emit DateNow st)) + 3 = ?n + 4" by simp
  note ys = ys[unfolded idx] and zs = zs[unfolded idx] and ms = ms[unfolded idx]
  have l2: "length (trace s2) = ?n + 2 * length files + 9" using tr by simp
  have ys': "samples st ?U = Some ys" using ys um by simp
  have zs': "samples st ?C = Some zs" using zs um cm nd by (simp add: update_conv' samples_def)
  have xs': "samples st ?T = Some xs"
    using xs ms um cm nd by (simp add: samples_def update_conv')
  have "trace st' = trace st @ [DateNow] @ iteration_events e (Suc ?n) key k u files @ [DateNow]"
    using st' tr by simp
  moreover have "samples st' ?T = Some (xs @ [date_now e (?n + 2 * length files + 9) - date_now e ?n])"
    using st' l2 by (simp add: samples_def update_conv')
  moreover have "samples st' ?U = Some (ys @ [upload_sample e (?n + 4) files])"
    using st' ms um cm nd by (simp add: samples_def update_conv')
  moreover have "samples st' ?C = Some (zs @ [complete_sample e (?n + 4) files])"
    using st' ms um cm nd by (simp add: samples_def update_conv')
  ultimately show ?thesis using xs' ys' zs' by blast
qed

lemma sample_once_balanced:
  assumes "sample_once e (total_name sz chunk) (multipart_fn e sz chunk fx) st = Some (Inr st')"
    and "uploadMeasure fx = upload_name sz chunk"
    and "completeMeasure fx = complete_name sz chunk"
    and "balanced sz chunk st"
  shows "balanced sz chunk st'"
proof -
  from sample_once_multipart[OF assms(1-3)] obtain xs ys zs a b c where
    "samples st (total_name sz chunk) = Some xs"
    "samples st (upload_name sz chunk) = Some ys"
    "samples st (complete_name sz chunk) = Some zs"
    "samples st' (total_name sz chunk) = Some (xs @ [a])"
    "samples st' (upload_name sz chunk) = Some (ys @ [b])"
    "samples st' (complete_name sz chunk) = Some (zs @ [c])"
    by blast
  with assms(4) show ?thesis by (auto simp: balanced_def)
qed

lemma measure_loop_balanced_aux:
  assumes "measure_loop e name iter b os st = Some y"
  shows "name = total_name sz chunk \<longrightarrow> iter = multipart_fn e sz chunk fx \<longrightarrow>
         uploadMeasure fx = upload_name sz chunk \<longrightarrow> completeMeasure fx = complete_name sz chunk \<longrightarrow>
         balanced sz chunk st \<longrightarrow> (\<forall>st'. y = Inr st' \<longrightarrow> balanced sz chunk st')"
  using assms
proof (induction e name iter b os st y rule: measure_loop.raw_induct[rotated 1, consumes 1])
  case (1 loop e name iter b os st y)
  show ?case
  proof (intro impI allI)
    fix st'
    assume nm: "name = total_name sz chunk" and it: "iter = multipart_fn e sz chunk fx"
      and um: "uploadMeasure fx = upload_name sz chunk"
      and cm: "completeMeasure fx = complete_name sz chunk"
      and bal: "balanced sz chunk st" and y: "y = Inr st'"
    from bal obtain xs where xs: "map_of (measures_tbl st) name = Some xs"
      by (auto simp: balanced_def samples_def nm)
    obtain again s1 where g: "loop_guard e xs b os st = (again, s1)" by (cases "loop_guard e xs b os st")
    have s1: "s1 = st \<or> s1 = emit DateNow st"
      using g by (auto simp: loop_guard_def now_eq split: if_splits)
    then have bal1: "balanced sz chunk s1" using bal by (auto simp: balanced_def)
    show "balanced sz chunk st'"
    proof (cases again)
      case False
      with 1(2) xs g y have "st' = s1" by simp
      with bal1 show ?thesis by simp
    next
      case True
      with 1(2) xs g y obtain s2 where
        so: "sample_once e name iter s1 = Some (Inr s2)"
        and rec: "loop e name iter b os s2 = Some (Inr st')"
        by (auto split: option.splits sum.splits)
      have "balanced sz chunk s2"
        using sample_once_balanced[OF so[unfolded nm it] um cm bal1] .
      with 1(1)[OF rec] nm it um cm show ?thesis by blast
    qed
  qed
qed

lemma measure_sampling_balanced:
  assumes run: "measure_sampling e (total_name sz chunk)
                  (WithSetup (\<lambda>s. Some (multipart_setup e sz chunk s)) (multipart_fn e sz chunk))
                  b st = Some (Inr st')"
    and empty: "samples st (total_name sz chunk) = None \<or> samples st (total_name sz chunk) = Some []"
  shows "balanced sz chunk st'"
proof -
  let ?T = "total_name sz chunk"
  define s0 where "s0 = (case map_of (measures_tbl st) ?T of
                   None \<Rightarrow> st\<lparr>measures_tbl := AList.update ?T [] (measures_tbl st)\<rparr>
                 | Some _ \<Rightarrow> st)"
  have s0: "samples s0 ?T = Some []"
    using empty by (auto simp: s0_def samples_def update_conv' split: option.splits)
  from run obtain fx s2 where
    su: "multipart_setup e sz chunk (emit DateNow s0) = Inr (fx, s2)"
    and lp: "measure_loop e ?T (multipart_fn e sz chunk fx) b (date_now e (length (trace s0))) s2 =
             Some (Inr st')"
    unfolding measure_sampling_def s0_def[symmetric] now_eq
    by (auto simp: bindP_Inr Let_def)
  note nm = multipart_setup_names[OF su]
  have "balanced sz chunk s2"
    using nm(3,4,5) s0 by (simp add: balanced_def)
  with measure_loop_balanced_aux[OF lp, of sz chunk fx] nm(1,2) show ?thesis by blast
qed

lemma sizeToBytes_10m: "sizeToBytes ''10m'' = Inr (Fin 10485760)"
proof -
  have "sizeToBytes (numeric_prefix ''10'' [] @ ''m'') = Inr (Fin (prefix_value ''10'' [] * 1024 ^ 2))"
    by (rule sizeToBytes_double(2)[where m = 10 and k = 0])
       (simp_all add: is_digit_def prefix_value_def digits_val_def digit_val_def)
  then show ?thesis
    by (simp add: numeric_prefix_def prefix_value_def digits_val_def digit_val_def)
qed

lemma upload_chunks_none:
  "\<not> js_gt rem cs \<Longrightarrow>
   upload_chunks e chunk u k cd cs rem pn tags st = Some (Inr ((rem, pn, tags), st))"
  by (subst upload_chunks.simps) simp

lemma upload_chunks_more:
  "js_gt rem cs \<Longrightarrow>
   upload_chunks e chunk u k cd cs rem pn tags st =
     (case multipartUpload e u k pn cd st of
        Inl err \<Rightarrow> Some (Inl err)
      | Inr (tag, st1) \<Rightarrow>
          (case sizeToBytes chunk of
             Inl err \<Rightarrow> Some (Inl err)
           | Inr c \<Rightarrow> upload_chunks e chunk u k cd cs (js_sub rem c) (pn + 1) (tags @ [tag]) st1))"
  by (subst upload_chunks.simps) simp

lemma js_sub_10m_5m: "js_sub (Fin 10485760) (Fin 5242880) = Fin 5242880"
  using round_double_exact[of 5242880 0] by simp

lemma js_rem_10m_5m: "js_rem (Fin 10485760) (Fin 5242880) = Fin 0"
  by simp

lemma js_rem_5m_5m: "js_rem (Fin 5242880) (Fin 5242880) = Fin 0"
  by simp

lemma upload_chunks_5m_5m:
  "upload_chunks e ''5m'' u k cd (Fin 5242880) (Fin 5242880) pn tags st =
   Some (Inr ((Fin 5242880, pn, tags), st))"
  by (rule upload_chunks_none) (simp add: js_gt_def)

lemma upload_chunks_10m_5m:
  "upload_chunks e ''5m'' u k cd (Fin 5242880) (Fin 10485760) pn tags st =
     (case multipartUpload e u k pn cd st of
        Inl err \<Rightarrow> Some (Inl err)
      | Inr (tag, st1) \<Rightarrow> Some (Inr ((Fin 5242880, pn + 1, tags @ [tag]), st1)))"
proof -
  have g: "js_gt (Fin 10485760) (Fin 5242880)" by (simp add: js_gt_def)
  have rd: "round_double 5242880 = Fin 5242880"
    using round_double_exact[of 5242880 0] by simp
  show ?thesis
    unfolding upload_chunks_more[OF g]
    by (simp add: sizeToBytes_5m rd upload_chunks_5m_5m split: sum.splits)
qed

lemma phase_events_one:
  "phase_events e n k u [a] =
     [DateNow, GetSignedUrl (UploadPartCommand (Bucket e) k u 1),
      KyPut (url_of (sign_reply e (Suc n))) a, DateNow, DateNow,
      Send (CompleteMultipartUploadCommand (Bucket e) k u [(tag_of (put_reply e (n + 2)), 1)]),
      DateNow]"
  by (simp add: phase_events_def parts_of_def)

lemma phase_events_two:
  "phase_events e n k u [a, b] =
     [DateNow, GetSignedUrl (UploadPartCommand (Bucket e) k u 1),
      KyPut (url_of (sign_reply e (Suc n))) a,
      GetSignedUrl (UploadPartCommand (Bucket e) k u 2),
      KyPut (url_of (sign_reply e (n + 3))) b, DateNow, DateNow,
      Send (CompleteMultipartUploadCommand (Bucket e) k u
              [(tag_of (put_reply e (n + 2)), 1), (tag_of (put_reply e (n + 4)), 2)]),
      DateNow]"
  by (simp add: phase_events_def parts_of_def numeral_eq_Suc)

lemma fn_5m_5m_files:
  assumes "multipart_fn e ''5m'' ''5m'' fx st = Some (Inr st')"
  shows "\<exists>key k u. trace st' = trace st @ iteration_events e (length (trace st)) key k u
                                              [lastChunkData fx]"
proof -
  from multipart_fn_result[OF assms] obtain rem cs u k m l rem' tags1 s2 s key where
    "sizeToBytes ''5m'' = Inr rem" "sizeToBytes ''5m'' = Inr cs"
    and uc: "upload_chunks e ''5m'' u k (chunkData fx) cs rem 1 [] s = Some (Inr ((rem', 1 + m, tags1), s2))"
    and l: "l = [] \<and> \<not> js_gt rem' (Fin 0) \<or> l = [lastChunkData fx] \<and> js_gt rem' (Fin 0)"
    and tr: "trace st' = trace st @ iteration_events e (length (trace st)) key k u
               (replicate m (chunkData fx) @ l)"
    by blast
  then have rc: "rem = Fin 5242880" "cs = Fin 5242880" by (simp_all add: sizeToBytes_5m)
  from uc have "rem' = Fin 5242880" "m = 0"
    unfolding rc upload_chunks_5m_5m by simp_all
  with l have "replicate m (chunkData fx) @ l = [lastChunkData fx]" by (simp add: js_gt_def)
  with tr show ?thesis by auto
qed

lemma setup_10m_5m_fixture:
  assumes "multipart_setup e ''10m'' ''5m'' s = Inr (fx, s1)"
  shows "chunkData fx = 5242880" "lastChunkData fx = 0"
  using assms
  by (auto simp: multipart_setup_def bindE_Inr sizeToBytes_5m sizeToBytes_10m getFileOfSize_def
      Let_def split: if_splits)

lemma fn_10m_5m_files:
  assumes "multipart_fn e ''10m'' ''5m'' fx st = Some (Inr st')"
  shows "\<exists>key k u. trace st' = trace st @ iteration_events e (length (trace st)) key k u
                                              [chunkData fx, lastChunkData fx]"
proof -
  from multipart_fn_result[OF assms] obtain rem cs u k m l rem' tags1 s2 s key where
    "sizeToBytes ''10m'' = Inr rem" "sizeToBytes ''5m'' = Inr cs"
    and uc: "upload_chunks e ''5m'' u k (chunkData fx) cs rem 1 [] s = Some (Inr ((rem', 1 + m, tags1), s2))"
    and l: "l = [] \<and> \<not> js_gt rem' (Fin 0) \<or> l = [lastChunkData fx] \<and> js_gt rem' (Fin 0)"
    and tr: "trace st' = trace st @ iteration_events e (length (trace st)) key k u
               (replicate m (chunkData fx) @ l)"
    by blast
  then have rc: "rem = Fin 10485760" "cs = Fin 5242880"
    by (simp_all add: sizeToBytes_5m sizeToBytes_10m)
  from uc have "rem' = Fin 5242880" "m = 1"
    unfolding rc upload_chunks_10m_5m by (auto split: sum.splits)
  with l have "replicate m (chunkData fx) @ l = [chunkData fx, lastChunkData fx]"
    by (simp add: js_gt_def)
  with tr show ?thesis by auto
qed


lemma setup_5m_5m_fixture:
  assumes "multipart_setup e ''5m'' ''5m'' s = Inr (fx, s1)"
  shows "chunkData fx = 5242880" "lastChunkData fx = 0"
  using assms
  by (auto simp: multipart_setup_def sizeToBytes_5m bindE_Inr getFileOfSize_def Let_def
      split: if_splits)

lemma multipartUpload_idle:
  "multipartUpload idle_env u k pn file st =
   Inr ([], emit (KyPut ''http://localhost:9000/signed'' file)
              (emit (GetSignedUrl (UploadPartCommand ''benchmark-00c0ffee00'' k u pn)) st))"
  by (simp add: multipartUpload_def getMultipartPresignedUrl_def getSignedUrl_def ky_put_def
      idle_replies)

lemma setup_idle:
  assumes "sizeToBytes sz = Inr (Fin a)" "sizeToBytes chunk = Inr (Fin b)"
    and "0 \<le> b" "b \<le> 4294967296" "js_rem (Fin a) (Fin b) = Fin c" "0 \<le> c" "c \<le> 4294967296"
  shows "multipart_setup idle_env sz chunk st =
         Inr (mk_fixture sz chunk (nat \<lfloor>b\<rfloor>) (nat \<lfloor>c\<rfloor>),
              st\<lparr>measures_tbl := AList.update (complete_name sz chunk) []
                   (AList.update (upload_name sz chunk) [] (measures_tbl st))\<rparr>)"
  using assms
  by (simp add: multipart_setup_def getFileOfSize_def idle_replies mk_fixture_def Let_def
      del: js_rem.simps)

lemma parts_idle_returns:
  assumes uc: "upload_chunks idle_env chunk u k (chunkData fx) cs rem 1 [] (emit DateNow st) =
                 Some (Inr ((rem', pn', tags1), s2))"
    and m2: "measures_tbl s2 = measures_tbl st"
    and ys: "samples st (uploadMeasure fx) = Some ys"
    and zs: "samples st (completeMeasure fx) = Some zs"
  shows "\<exists>st'. multipart_parts idle_env chunk fx rem cs u k st = Some (Inr st')"
proof -
  have a: "map_of (measures_tbl st) (uploadMeasure fx) = Some ys"
    "map_of (measures_tbl st) (completeMeasure fx) = Some zs"
    using ys zs by (simp_all add: samples_def)
  show ?thesis
    using a
    by (cases "js_gt rem' (Fin 0)")
       (simp_all add: multipart_parts_def now_eq uc[unfolded One_nat_def] multipartUpload_idle m2 push_measure_def
          completeMultipart_def send_def idle_replies update_conv')
qed

lemma fn_idle_returns:
  assumes sz: "sizeToBytes sz = Inr rem" and ch: "sizeToBytes chunk = Inr cs"
    and uc: "\<And>s. \<exists>rem' pn' tags1 s2.
               upload_chunks idle_env chunk ''upload-1'' ''key-1'' (chunkData fx) cs rem 1 [] s =
                 Some (Inr ((rem', pn', tags1), s2)) \<and> measures_tbl s2 = measures_tbl s"
    and ys: "samples st (uploadMeasure fx) = Some ys"
    and zs: "samples st (completeMeasure fx) = Some zs"
  shows "\<exists>st'. multipart_fn idle_env sz chunk fx st = Some (Inr st')"
proof -
  let ?s1 = "emit (Send (CreateMultipartUploadCommand ''benchmark-00c0ffee00''
                (key_of (multipart_prefix sz chunk) (0, 0) (0, 0)))) (emit HrTime (emit HrTime st))"
  from uc[of "emit DateNow ?s1"] obtain rem' pn' tags1 s2 where
    u: "upload_chunks idle_env chunk ''upload-1'' ''key-1'' (chunkData fx) cs rem 1 []
          (emit DateNow ?s1) = Some (Inr ((rem', pn', tags1), s2))"
    and m: "measures_tbl s2 = measures_tbl ?s1"
    by auto
  have "\<exists>st'. multipart_parts idle_env chunk fx rem cs ''upload-1'' ''key-1'' ?s1 = Some (Inr st')"
    by (rule parts_idle_returns[OF u m]) (simp_all add: ys zs)
  then show ?thesis
    by (simp add: multipart_fn_def sz ch initiateMultipart_def getKey_eq idle_replies)
qed

lemma fn_idle_5m_5m:
  "\<exists>st'. multipart_fn idle_env ''5m'' ''5m'' (mk_fixture ''5m'' ''5m'' 5242880 0)
           (ready_state ''5m'' ''5m'') = Some (Inr st')"
proof (rule fn_idle_returns[OF sizeToBytes_5m sizeToBytes_5m])
  show "\<exists>rem' pn' tags1 s2.
          upload_chunks idle_env ''5m'' ''upload-1'' ''key-1''
            (chunkData (mk_fixture ''5m'' ''5m'' 5242880 0)) (Fin 5242880) (Fin 5242880) 1 [] s =
          Some (Inr ((rem', pn', tags1), s2)) \<and> measures_tbl s2 = measures_tbl s" for s
    by (simp add: upload_chunks_5m_5m)
  show "samples (ready_state ''5m'' ''5m'') (uploadMeasure (mk_fixture ''5m'' ''5m'' 5242880 0)) = Some []"
    using names_distinct[of "''5m''" "''5m''"]
    by (simp add: samples_def ready_state_def mk_fixture_def)
  show "samples (ready_state ''5m'' ''5m'') (completeMeasure (mk_fixture ''5m'' ''5m'' 5242880 0)) = Some []"
    using names_distinct[of "''5m''" "''5m''"]
    by (simp add: samples_def ready_state_def mk_fixture_def)
qed

lemma fn_idle_10m_5m:
  "\<exists>st'. multipart_fn idle_env ''10m'' ''5m'' (mk_fixture ''10m'' ''5m'' 5242880 0)
           (ready_state ''10m'' ''5m'') = Some (Inr st')"
proof (rule fn_idle_returns[OF sizeToBytes_10m sizeToBytes_5m])
  show "\<exists>rem' pn' tags1 s2.
          upload_chunks idle_env ''5m'' ''upload-1'' ''key-1''
            (chunkData (mk_fixture ''10m'' ''5m'' 5242880 0)) (Fin 5242880) (Fin 10485760) 1 [] s =
          Some (Inr ((rem', pn', tags1), s2)) \<and> measures_tbl s2 = measures_tbl s" for s
    by (simp add: upload_chunks_10m_5m multipartUpload_idle)
  show "samples (ready_state ''10m'' ''5m'') (uploadMeasure (mk_fixture ''10m'' ''5m'' 5242880 0)) = Some []"
    using names_distinct[of "''10m''" "''5m''"]
    by (simp add: samples_def ready_state_def mk_fixture_def)
  show "samples (ready_state ''10m'' ''5m'') (completeMeasure (mk_fixture ''10m'' ''5m'' 5242880 0)) = Some []"
    using names_distinct[of "''10m''" "''5m''"]
    by (simp add: samples_def ready_state_def mk_fixture_def)
qed

lemma setup_idle_10m_5m:
  "multipart_setup idle_env ''10m'' ''5m'' st0 =
     Inr (mk_fixture ''10m'' ''5m'' 5242880 0,
          st0\<lparr>measures_tbl := AList.update (complete_name ''10m'' ''5m'') []
                   (AList.update (upload_name ''10m'' ''5m'') [] (measures_tbl st0))\<rparr>)"
  using setup_idle[OF sizeToBytes_10m sizeToBytes_5m _ _ js_rem_10m_5m, of st0] by simp


lemma setup_idle_5m_5m:
  "multipart_setup idle_env ''5m'' ''5m'' st0 =
     Inr (mk_fixture ''5m'' ''5m'' 5242880 0,
          st0\<lparr>measures_tbl := AList.update (complete_name ''5m'' ''5m'') []
                   (AList.update (upload_name ''5m'' ''5m'') [] (measures_tbl st0))\<rparr>)"
  using setup_idle[OF sizeToBytes_5m sizeToBytes_5m _ _ js_rem_5m_5m, of st0] by simp

text \<open>
  Claim C2. The code at the failing input, size 5m and chunk 5m. The chunk loop tests
  \<open>remainingBytes > chunkSize\<close> and so uploads nothing; all 5 MiB remain, the branch for
  remaining bytes is taken, and it sends the buffer \<open>lastChunkData\<close>, which the setup made
  of the remainder of 5 MiB by 5 MiB: with the fixture of the scenario's setup, an
  iteration that returns normally has issued one part upload, of 0 bytes, and one
  finalize call with the tag of that upload. None of the 5 MiB is uploaded.
\<close>

theorem multipart_5m_5m_empty_part:
  assumes "multipart_setup e ''5m'' ''5m'' s = Inr (fx, sa)"
    and "multipart_fn e ''5m'' ''5m'' fx st = Some (Inr st')"
  shows "\<exists>key k u url.
           trace st' = trace st @
             [HrTime, HrTime, Send (CreateMultipartUploadCommand (Bucket e) key), DateNow,
              GetSignedUrl (UploadPartCommand (Bucket e) k u 1), KyPut url 0,
              DateNow, DateNow,
              Send (CompleteMultipartUploadCommand (Bucket e) k u
                      [(tag_of (put_reply e (length (trace st) + 5)), 1)]),
              DateNow] \<and>
           (\<forall>s. upload_chunks e ''5m'' u k (chunkData fx) (Fin 5242880) (Fin 5242880) 1 [] s =
                  Some (Inr ((Fin 5242880, 1, []), s))) \<and>
           sizeToBytes ''5m'' = Inr (Fin 5242880) \<and> js_gt (Fin 5242880) (Fin 0) \<and>
           js_rem (Fin 5242880) (Fin 5242880) = Fin 0 \<and> lastChunkData fx = 0"
proof -
  note fxs = setup_5m_5m_fixture[OF assms(1)]
  from fn_5m_5m_files[OF assms(2)] obtain key k u where
    "trace st' = trace st @ iteration_events e (length (trace st)) key k u [lastChunkData fx]"
    by blast
  then have "trace st' = trace st @
             [HrTime, HrTime, Send (CreateMultipartUploadCommand (Bucket e) key), DateNow,
              GetSignedUrl (UploadPartCommand (Bucket e) k u 1),
              KyPut (url_of (sign_reply e (length (trace st) + 4))) 0,
              DateNow, DateNow,
              Send (CompleteMultipartUploadCommand (Bucket e) k u
                      [(tag_of (put_reply e (length (trace st) + 5)), 1)]),
              DateNow]"
    by (simp add: iteration_events_def phase_events_one add.commute fxs)
  then show ?thesis
    using fxs(2) by (auto simp: upload_chunks_5m_5m sizeToBytes_5m js_gt_def)
qed

theorem multipart_5m_5m_empty_part_witness:
  "\<exists>sa st' key k u url.
     multipart_setup idle_env ''5m'' ''5m'' st0 = Inr (mk_fixture ''5m'' ''5m'' 5242880 0, sa) \<and>
     multipart_fn idle_env ''5m'' ''5m'' (mk_fixture ''5m'' ''5m'' 5242880 0)
       (ready_state ''5m'' ''5m'') = Some (Inr st') \<and>
     trace st' = trace (ready_state ''5m'' ''5m'') @
       [HrTime, HrTime, Send (CreateMultipartUploadCommand (Bucket idle_env) key), DateNow,
        GetSignedUrl (UploadPartCommand (Bucket idle_env) k u 1), KyPut url 0,
        DateNow, DateNow,
        Send (CompleteMultipartUploadCommand (Bucket idle_env) k u
                [(tag_of (put_reply idle_env (length (trace (ready_state ''5m'' ''5m'')) + 5)), 1)]),
        DateNow]"
proof -
  from fn_idle_5m_5m obtain st' where
    r: "multipart_fn idle_env ''5m'' ''5m'' (mk_fixture ''5m'' ''5m'' 5242880 0)
          (ready_state ''5m'' ''5m'') = Some (Inr st')"
    by blast
  from multipart_5m_5m_empty_part[OF setup_idle_5m_5m r] setup_idle_5m_5m r
  show ?thesis by blast
qed


text \<open>
  Claim C3. The code at the failing input, size 10m and chunk 5m. With the fixture of the
  scenario's setup, an iteration of the upload action that returns normally has issued,
  after the initiation, exactly two part uploads, numbered 1 and 2, and exactly one
  finalize call with exactly two tags: that of part 1, then that of part 2. The first
  part carries the chunk buffer of 5242880 bytes. The second, sent by the branch for
  remaining bytes while 5 MiB remain, carries the buffer \<open>lastChunkData\<close>, which the setup
  made of the remainder of 10 MiB by 5 MiB and which is 0 bytes long: of the 10 MiB only
  the first 5 MiB are uploaded.
\<close>

theorem multipart_10m_5m_two_parts:
  assumes "multipart_setup e ''10m'' ''5m'' s = Inr (fx, s1)"
    and "multipart_fn e ''10m'' ''5m'' fx st = Some (Inr st')"
  shows "\<exists>key k u url1 url2.
           trace st' = trace st @
             [HrTime, HrTime, Send (CreateMultipartUploadCommand (Bucket e) key), DateNow,
              GetSignedUrl (UploadPartCommand (Bucket e) k u 1), KyPut url1 5242880,
              GetSignedUrl (UploadPartCommand (Bucket e) k u 2), KyPut url2 0,
              DateNow, DateNow,
              Send (CompleteMultipartUploadCommand (Bucket e) k u
                      [(tag_of (put_reply e (length (trace st) + 5)), 1),
                       (tag_of (put_reply e (length (trace st) + 7)), 2)]),
              DateNow] \<and>
           sizeToBytes ''10m'' = Inr (Fin 10485760) \<and> sizeToBytes ''5m'' = Inr (Fin 5242880) \<and>
           js_rem (Fin 10485760) (Fin 5242880) = Fin 0"
proof -
  note fxs = setup_10m_5m_fixture[OF assms(1)]
  from fn_10m_5m_files[OF assms(2)] obtain key k u where
    "trace st' = trace st @ iteration_events e (length (trace st)) key k u [5242880, 0]"
    unfolding fxs by blast
  then have "trace st' = trace st @
             [HrTime, HrTime, Send (CreateMultipartUploadCommand (Bucket e) key), DateNow,
              GetSignedUrl (UploadPartCommand (Bucket e) k u 1),
              KyPut (url_of (sign_reply e (length (trace st) + 4))) 5242880,
              GetSignedUrl (UploadPartCommand (Bucket e) k u 2),
              KyPut (url_of (sign_reply e (length (trace st) + 6))) 0,
              DateNow, DateNow,
              Send (CompleteMultipartUploadCommand (Bucket e) k u
                      [(tag_of (put_reply e (length (trace st) + 5)), 1),
                       (tag_of (put_reply e (length (trace st) + 7)), 2)]),
              DateNow]"
    by (simp add: iteration_events_def phase_events_two add.commute)
  then show ?thesis
    using sizeToBytes_10m sizeToBytes_5m js_rem_10m_5m by blast
qed

theorem multipart_10m_5m_two_parts_witness:
  "\<exists>s1 st' key k u url1 url2.
     multipart_setup idle_env ''10m'' ''5m'' st0 = Inr (mk_fixture ''10m'' ''5m'' 5242880 0, s1) \<and>
     multipart_fn idle_env ''10m'' ''5m'' (mk_fixture ''10m'' ''5m'' 5242880 0)
       (ready_state ''10m'' ''5m'') = Some (Inr st') \<and>
     trace st' = trace (ready_state ''10m'' ''5m'') @
       [HrTime, HrTime, Send (CreateMultipartUploadCommand (Bucket idle_env) key), DateNow,
        GetSignedUrl (UploadPartCommand (Bucket idle_env) k u 1), KyPut url1 5242880,
        GetSignedUrl (UploadPartCommand (Bucket idle_env) k u 2), KyPut url2 0,
        DateNow, DateNow,
        Send (CompleteMultipartUploadCommand (Bucket idle_env) k u
                [(tag_of (put_reply idle_env (length (trace (ready_state ''10m'' ''5m'')) + 5)), 1),
                 (tag_of (put_reply idle_env (length (trace (ready_state ''10m'' ''5m'')) + 7)), 2)]),
        DateNow]"
proof -
  from fn_idle_10m_5m obtain st' where
    r: "multipart_fn idle_env ''10m'' ''5m'' (mk_fixture ''10m'' ''5m'' 5242880 0)
          (ready_state ''10m'' ''5m'') = Some (Inr st')"
    by blast
  from multipart_10m_5m_two_parts[OF setup_idle_10m_5m r] setup_idle_10m_5m r
  show ?thesis by blast
qed

lemma put_tags_iteration:
  "put_tags e n (iteration_events e n key k u files) =
   put_tags e (n + 4) (part_events e k u (n + 4) 1 files)"
  by (simp add: iteration_events_def phase_events_def put_tags_append numeral_eq_Suc)

lemma map_fst_parts_of: "map fst (parts_of tags) = tags"
proof -
  have "fst \<circ> (\<lambda>(index, ETag). (ETag, index + 1)) = (snd :: nat \<times> string \<Rightarrow> string)"
    by (auto simp: fun_eq_iff)
  then show ?thesis by (simp add: parts_of_def map_snd_enumerate)
qed

lemma fn_finalize_tags:
  assumes "multipart_fn e sz chunk fx st = Some (Inr st')"
  shows "\<exists>k u tags.
           Send (CompleteMultipartUploadCommand (Bucket e) k u (parts_of tags)) \<in>
             set (drop (length (trace st)) (trace st')) \<and>
           tags = put_tags e (length (trace st)) (drop (length (trace st)) (trace st'))"
proof -
  from multipart_fn_result[OF assms] obtain key k u files where
    tr: "trace st' = trace st @ iteration_events e (length (trace st)) key k u files"
    by blast
  let ?tags = "put_tags e (length (trace st) + 4) (part_events e k u (length (trace st) + 4) 1 files)"
  have d: "drop (length (trace st)) (trace st') =
           iteration_events e (length (trace st)) key k u files"
    using tr by simp
  have "Send (CompleteMultipartUploadCommand (Bucket e) k u (parts_of ?tags)) \<in>
          set (iteration_events e (length (trace st)) key k u files)"
    by (simp add: iteration_events_def phase_events_def numeral_eq_Suc)
  then show ?thesis unfolding d put_tags_iteration by blast
qed

lemma multipartUpload_no_etag:
  assumes "sign_reply e (length (trace st)) = Inr url"
    and "put_reply e (Suc (length (trace st))) = Inr None"
  shows "multipartUpload e u k pn file st =
         Inr ([], emit (KyPut url file) (emit (GetSignedUrl (UploadPartCommand (Bucket e) k u pn)) st))"
  using assms
  by (simp add: multipartUpload_def getMultipartPresignedUrl_def getSignedUrl_def ky_put_def)

lemma fn_10m_5m_trace:
  assumes "multipart_setup e ''10m'' ''5m'' s = Inr (fx, sa)"
    and "multipart_fn e ''10m'' ''5m'' fx st = Some (Inr st')"
  shows "\<exists>key k u.
           trace st' = trace st @
             [HrTime, HrTime, Send (CreateMultipartUploadCommand (Bucket e) key), DateNow,
              GetSignedUrl (UploadPartCommand (Bucket e) k u 1),
              KyPut (url_of (sign_reply e (length (trace st) + 4))) 5242880,
              GetSignedUrl (UploadPartCommand (Bucket e) k u 2),
              KyPut (url_of (sign_reply e (length (trace st) + 6))) 0,
              DateNow, DateNow,
              Send (CompleteMultipartUploadCommand (Bucket e) k u
                      [(tag_of (put_reply e (length (trace st) + 5)), 1),
                       (tag_of (put_reply e (length (trace st) + 7)), 2)]),
              DateNow]"
proof -
  note fxs = setup_10m_5m_fixture[OF assms(1)]
  from fn_10m_5m_files[OF assms(2)] obtain key k u where
    "trace st' = trace st @ iteration_events e (length (trace st)) key k u [5242880, 0]"
    unfolding fxs by blast
  then have "trace st' = trace st @
             [HrTime, HrTime, Send (CreateMultipartUploadCommand (Bucket e) key), DateNow,
              GetSignedUrl (UploadPartCommand (Bucket e) k u 1),
              KyPut (url_of (sign_reply e (length (trace st) + 4))) 5242880,
              GetSignedUrl (UploadPartCommand (Bucket e) k u 2),
              KyPut (url_of (sign_reply e (length (trace st) + 6))) 0,
              DateNow, DateNow,
              Send (CompleteMultipartUploadCommand (Bucket e) k u
                      [(tag_of (put_reply e (length (trace st) + 5)), 1),
                       (tag_of (put_reply e (length (trace st) + 7)), 2)]),
              DateNow]"
    by (simp add: iteration_events_def phase_events_two add.commute)
  then show ?thesis by blast
qed

text \<open>
  Claim C6. A part upload whose PUT response has no ETag header returns the empty string
  as the tag of the part and raises nothing. The finalize call of an iteration carries,
  in order and unchanged, the tags that the part uploads of the iteration returned: for
  every PUT, the ETag header of its response, or the empty string when there is none.
  So in the scenario of size 10m and chunk 5m, whose iteration issues two PUTs, the
  finalize call carries the tag of the first response with part number 1 and the tag
  of the second with part number 2, and two empty strings when neither response has
  the header.
\<close>

theorem missing_etag_gives_empty_tag:
  "(sign_reply e (length (trace st)) = Inr url \<and>
    put_reply e (Suc (length (trace st))) = Inr None \<longrightarrow>
      multipartUpload e u k pn body st =
        Inr ([], emit (KyPut url body)
                   (emit (GetSignedUrl (UploadPartCommand (Bucket e) k u pn)) st))) \<and>
   (multipart_fn e sz chunk fx st = Some (Inr st') \<longrightarrow>
      (\<exists>k' u' tags.
         Send (CompleteMultipartUploadCommand (Bucket e) k' u' (parts_of tags)) \<in>
           set (drop (length (trace st)) (trace st')) \<and>
         tags = put_tags e (length (trace st)) (drop (length (trace st)) (trace st')) \<and>
         map fst (parts_of tags) = tags)) \<and>
   tag_of (Inr None) = [] \<and>
   (multipart_setup e ''10m'' ''5m'' s = Inr (fx, sa) \<and>
    multipart_fn e ''10m'' ''5m'' fx st = Some (Inr st') \<longrightarrow>
      (\<exists>key k' u' url1 url2.
         trace st' = trace st @
           [HrTime, HrTime, Send (CreateMultipartUploadCommand (Bucket e) key), DateNow,
            GetSignedUrl (UploadPartCommand (Bucket e) k' u' 1), KyPut url1 5242880,
            GetSignedUrl (UploadPartCommand (Bucket e) k' u' 2), KyPut url2 0,
            DateNow, DateNow,
            Send (CompleteMultipartUploadCommand (Bucket e) k' u'
                    [(tag_of (put_reply e (length (trace st) + 5)), 1),
                     (tag_of (put_reply e (length (trace st) + 7)), 2)]),
            DateNow] \<and>
         (put_reply e (length (trace st) + 5) = Inr None \<and>
          put_reply e (length (trace st) + 7) = Inr None \<longrightarrow>
            Send (CompleteMultipartUploadCommand (Bucket e) k' u' [([], 1), ([], 2)]) \<in>
              set (drop (length (trace st)) (trace st')))))"
proof (intro conjI impI)
  assume "sign_reply e (length (trace st)) = Inr url \<and>
    put_reply e (Suc (length (trace st))) = Inr None"
  then show "multipartUpload e u k pn body st =
        Inr ([], emit (KyPut url body)
                   (emit (GetSignedUrl (UploadPartCommand (Bucket e) k u pn)) st))"
    using multipartUpload_no_etag[of e st url u k pn body] by blast
next
  assume "multipart_fn e sz chunk fx st = Some (Inr st')"
  from fn_finalize_tags[OF this] map_fst_parts_of
  show "\<exists>k' u' tags.
         Send (CompleteMultipartUploadCommand (Bucket e) k' u' (parts_of tags)) \<in>
           set (drop (length (trace st)) (trace st')) \<and>
         tags = put_tags e (length (trace st)) (drop (length (trace st)) (trace st')) \<and>
         map fst (parts_of tags) = tags"
    by blast
next
  show "tag_of (Inr None) = []" by (simp add: tag_of_def)
next
  assume a: "multipart_setup e ''10m'' ''5m'' s = Inr (fx, sa) \<and>
    multipart_fn e ''10m'' ''5m'' fx st = Some (Inr st')"
  then have su: "multipart_setup e ''10m'' ''5m'' s = Inr (fx, sa)"
    and fn: "multipart_fn e ''10m'' ''5m'' fx st = Some (Inr st')" by simp_all
  from fn_10m_5m_trace[OF su fn] obtain key k' u' where
    tr: "trace st' = trace st @
             [HrTime, HrTime, Send (CreateMultipartUploadCommand (Bucket e) key), DateNow,
              GetSignedUrl (UploadPartCommand (Bucket e) k' u' 1),
              KyPut (url_of (sign_reply e (length (trace st) + 4))) 5242880,
              GetSignedUrl (UploadPartCommand (Bucket e) k' u' 2),
              KyPut (url_of (sign_reply e (length (trace st) + 6))) 0,
              DateNow, DateNow,
              Send (CompleteMultipartUploadCommand (Bucket e) k' u'
                      [(tag_of (put_reply e (length (trace st) + 5)), 1),
                       (tag_of (put_reply e (length (trace st) + 7)), 2)]),
              DateNow]"
    by blast
  have "put_reply e (length (trace st) + 5) = Inr None \<and>
          put_reply e (length (trace st) + 7) = Inr None \<longrightarrow>
            Send (CompleteMultipartUploadCommand (Bucket e) k' u' [([], 1), ([], 2)]) \<in>
              set (drop (length (trace st)) (trace st'))"
    by (simp add: tr tag_of_def)
  with tr show "\<exists>key k' u' url1 url2.
         trace st' = trace st @
           [HrTime, HrTime, Send (CreateMultipartUploadCommand (Bucket e) key), DateNow,
            GetSignedUrl (UploadPartCommand (Bucket e) k' u' 1), KyPut url1 5242880,
            GetSignedUrl (UploadPartCommand (Bucket e) k' u' 2), KyPut url2 0,
            DateNow, DateNow,
            Send (CompleteMultipartUploadCommand (Bucket e) k' u'
                    [(tag_of (put_reply e (length (trace st) + 5)), 1),
                     (tag_of (put_reply e (length (trace st) + 7)), 2)]),
            DateNow] \<and>
         (put_reply e (length (trace st) + 5) = Inr None \<and>
          put_reply e (length (trace st) + 7) = Inr None \<longrightarrow>
            Send (CompleteMultipartUploadCommand (Bucket e) k' u' [([], 1), ([], 2)]) \<in>
              set (drop (length (trace st)) (trace st')))"
    by blast
qed

theorem missing_etag_gives_empty_tag_witness:
  "multipartUpload idle_env ''upload-1'' ''key-1'' 1 5 st0 =
     Inr ([], emit (KyPut ''http://localhost:9000/signed'' 5)
                (emit (GetSignedUrl (UploadPartCommand (Bucket idle_env) ''key-1'' ''upload-1'' 1)) st0)) \<and>
   (\<exists>st' k' u' tags.
      multipart_fn idle_env ''10m'' ''5m'' (mk_fixture ''10m'' ''5m'' 5242880 0)
        (ready_state ''10m'' ''5m'') = Some (Inr st') \<and>
      Send (CompleteMultipartUploadCommand (Bucket idle_env) k' u' (parts_of tags)) \<in>
        set (drop (length (trace (ready_state ''10m'' ''5m''))) (trace st')) \<and>
      tags = put_tags idle_env (length (trace (ready_state ''10m'' ''5m'')))
               (drop (length (trace (ready_state ''10m'' ''5m''))) (trace st')) \<and>
      map fst (parts_of tags) = tags) \<and>
   (\<exists>st' key k' u' url1 url2.
      multipart_fn idle_env ''10m'' ''5m'' (mk_fixture ''10m'' ''5m'' 5242880 0)
        (ready_state ''10m'' ''5m'') = Some (Inr st') \<and>
      trace st' =
        [HrTime, HrTime, Send (CreateMultipartUploadCommand (Bucket idle_env) key), DateNow,
         GetSignedUrl (UploadPartCommand (Bucket idle_env) k' u' 1), KyPut url1 5242880,
         GetSignedUrl (UploadPartCommand (Bucket idle_env) k' u' 2), KyPut url2 0,
         DateNow, DateNow,
         Send (CompleteMultipartUploadCommand (Bucket idle_env) k' u' [([], 1), ([], 2)]),
         DateNow])"
proof -
  let ?r = "ready_state ''10m'' ''5m''"
  from fn_idle_10m_5m obtain st' where
    r: "multipart_fn idle_env ''10m'' ''5m'' (mk_fixture ''10m'' ''5m'' 5242880 0) ?r = Some (Inr st')"
    by blast
  have a: "sign_reply idle_env (length (trace st0)) = Inr ''http://localhost:9000/signed''"
    "put_reply idle_env (Suc (length (trace st0))) = Inr None"
    by (simp_all add: idle_replies)
  note w1 = missing_etag_gives_empty_tag[where e = idle_env and st = st0
      and url = "''http://localhost:9000/signed''" and u = "''upload-1''" and k = "''key-1''"
      and pn = 1 and body = 5]
  note w2 = missing_etag_gives_empty_tag[where e = idle_env and sz = "''10m''" and chunk = "''5m''"
      and fx = "mk_fixture ''10m'' ''5m'' 5242880 0" and st' = st' and st = ?r and s = st0
      and sa = "st0\<lparr>measures_tbl := AList.update (complete_name ''10m'' ''5m'') []
                   (AList.update (upload_name ''10m'' ''5m'') [] (measures_tbl st0))\<rparr>"]
  from w2 setup_idle_10m_5m r obtain key k' u' url1 url2 where
    tr: "trace st' = trace ?r @
           [HrTime, HrTime, Send (CreateMultipartUploadCommand (Bucket idle_env) key), DateNow,
            GetSignedUrl (UploadPartCommand (Bucket idle_env) k' u' 1), KyPut url1 5242880,
            GetSignedUrl (UploadPartCommand (Bucket idle_env) k' u' 2), KyPut url2 0,
            DateNow, DateNow,
            Send (CompleteMultipartUploadCommand (Bucket idle_env) k' u'
                    [(tag_of (put_reply idle_env (length (trace ?r) + 5)), 1),
                     (tag_of (put_reply idle_env (length (trace ?r) + 7)), 2)]),
            DateNow]"
    by blast
  have c: "\<exists>st' key k' u' url1 url2.
      multipart_fn idle_env ''10m'' ''5m'' (mk_fixture ''10m'' ''5m'' 5242880 0) ?r = Some (Inr st') \<and>
      trace st' =
        [HrTime, HrTime, Send (CreateMultipartUploadCommand (Bucket idle_env) key), DateNow,
         GetSignedUrl (UploadPartCommand (Bucket idle_env) k' u' 1), KyPut url1 5242880,
         GetSignedUrl (UploadPartCommand (Bucket idle_env) k' u' 2), KyPut url2 0,
         DateNow, DateNow,
         Send (CompleteMultipartUploadCommand (Bucket idle_env) k' u' [([], 1), ([], 2)]),
         DateNow]"
    using r tr by (simp add: idle_replies tag_of_def ready_state_def)
  from w1 w2 a r c
  show ?thesis by blast
qed
section \<open>A missing session field\<close>

lemma fn_lacks_field:
  assumes "sizeToBytes sz = Inr rem" "sizeToBytes chunk = Inr cs"
    and "create_multipart_reply e (length (trace st) + 2) = Inr (uo, ko)"
    and "lacks_field uo ko"
  shows "multipart_fn e sz chunk fx st = Some (Inl (Error ''UploadId or Key is undefined''))"
  using assms
  by (auto simp: multipart_fn_def initiateMultipart_def getKey_eq lacks_field_def
      split: option.splits)

lemma presign_lacks_field:
  assumes "create_multipart_reply e (length (trace st) + 2) = Inr (uo, ko)"
    and "lacks_field uo ko"
  shows "presign_setup e st = Inl (Error ''Key or UploadId is undefined'')"
  using assms
  by (auto simp: presign_setup_def initiateMultipart_def getKey_eq lacks_field_def
      split: option.splits)

lemma fn_fields_present:
  assumes "sizeToBytes sz = Inr rem" "sizeToBytes chunk = Inr cs"
    and "create_multipart_reply e (length (trace st) + 2) = Inr (Some u, Some k)"
    and "u \<noteq> []" "k \<noteq> []"
  shows "multipart_fn e sz chunk fx st =
         multipart_parts e chunk fx rem cs u k
           (emit (Send (CreateMultipartUploadCommand (Bucket e)
                    (key_of (multipart_prefix sz chunk) (hrtime e (length (trace st)))
                       (hrtime e (Suc (length (trace st)))))))
              (emit HrTime (emit HrTime st)))"
  using assms
  by (simp add: multipart_fn_def initiateMultipart_def getKey_eq)

lemma setup_any_state:
  assumes "multipart_setup e sz chunk s = Inr (fx, s1)"
  shows "multipart_setup e sz chunk s' =
           Inr (fx, s'\<lparr>measures_tbl := AList.update (complete_name sz chunk) []
                        (AList.update (upload_name sz chunk) [] (measures_tbl s'))\<rparr>)"
    and "\<exists>rem cs. sizeToBytes sz = Inr rem \<and> sizeToBytes chunk = Inr cs"
  using assms
  by (auto simp: multipart_setup_def bindE_Inr Let_def)

lemma sampling_start:
  "measure_sampling e name b maxTimeMs st =
     (let s0 = (if samples st name = None
                then st\<lparr>measures_tbl := AList.update name [] (measures_tbl st)\<rparr> else st);
          os = date_now e (length (trace st));
          s1 = emit DateNow s0
      in case b of
           WithSetup prep fn \<Rightarrow>
             bindP (prep s1) (\<lambda>(res, s2). measure_loop e name (fn res) maxTimeMs os s2)
         | FnOnly fn \<Rightarrow> measure_loop e name fn maxTimeMs os s1)"
  by (cases b; cases "map_of (measures_tbl st) name")
     (simp_all add: measure_sampling_def now_eq samples_def Let_def)

lemma presign_scenario_aborts:
  assumes cr: "create_multipart_reply e (length (trace st) + 3) = Inr (uo, ko)"
    and lf: "lacks_field uo ko"
  shows "measure_scenario e name (WithSetup (\<lambda>s. Some (presign_setup e s)) fn) b st =
         Some (Inl (Error ''Key or UploadId is undefined''))"
proof -
  define s0 where "s0 = (if samples st name = None
                then st\<lparr>measures_tbl := AList.update name [] (measures_tbl st)\<rparr> else st)"
  have t0: "trace s0 = trace st" by (simp add: s0_def)
  have "presign_setup e (emit DateNow s0) = Inl (Error ''Key or UploadId is undefined'')"
    by (rule presign_lacks_field[OF _ lf]) (use cr in \<open>simp add: t0 numeral_eq_Suc\<close>)
  then show ?thesis
    unfolding measure_scenario_def sampling_start s0_def[symmetric] Let_def by simp
qed

lemma sample_once_frame:
  assumes so: "sample_once e name iter s = Some (Inr s')" and q: "quiet iter"
    and ne: "other \<noteq> name"
  shows "samples s' other = samples s other"
proof -
  from so obtain s2 xs where it: "iter (emit DateNow s) = Some (Inr s2)"
    and s': "s' = (emit DateNow s2)\<lparr>measures_tbl := AList.update name xs (measures_tbl (emit DateNow s2))\<rparr>"
    unfolding sample_once_def now_eq by (auto simp: bindP_Inr push_measure_Inr clearLine_Inr)
  from q it have "measures_tbl s2 = measures_tbl s" unfolding quiet_def by fastforce
  then show ?thesis using ne by (simp add: s' samples_def update_conv')
qed

lemma measure_loop_frame_aux:
  assumes "measure_loop e name iter b os st = Some y"
  shows "quiet iter \<longrightarrow>
         (\<forall>st'. y = Inr st' \<longrightarrow> (\<forall>other. other \<noteq> name \<longrightarrow> samples st' other = samples st other))"
  using assms
proof (induction e name iter b os st y rule: measure_loop.raw_induct[rotated 1, consumes 1])
  case (1 loop e name iter b os st y)
  show ?case
  proof (intro impI allI)
    fix st' other
    assume q: "quiet iter" and y: "y = Inr st'" and ne: "other \<noteq> name"
    from 1(2) y obtain xs where xs: "map_of (measures_tbl st) name = Some xs"
      by (auto split: option.splits)
    obtain again s1 where g: "loop_guard e xs b os st = (again, s1)"
      by (cases "loop_guard e xs b os st")
    have s1: "samples s1 other = samples st other"
      using g by (auto simp: loop_guard_def now_eq split: if_splits)
    show "samples st' other = samples st other"
    proof (cases again)
      case False
      with 1(2) xs g y have "st' = s1" by simp
      with s1 show ?thesis by simp
    next
      case True
      with 1(2) xs g y obtain s2 where
        so: "sample_once e name iter s1 = Some (Inr s2)"
        and rec: "loop e name iter b os s2 = Some (Inr st')"
        by (auto split: option.splits sum.splits)
      have "samples s2 other = samples s1 other" by (rule sample_once_frame[OF so q ne])
      moreover have "samples st' other = samples s2 other" using 1(1)[OF rec] q ne by blast
      ultimately show ?thesis using s1 by simp
    qed
  qed
qed

lemma cleanup_loop_Nil: "cleanup_loop e [] st = Some (Inr st)"
  by (subst cleanup_loop.simps) simp

lemma flush_empty_bucket:
  assumes "list_reply e (length (trace st)) = Inr None"
    and "write_reply e (Suc (length (trace st))) = None"
    and "stdout_isTTY e"
  shows "measure_flush e st =
         Some (Inr (emit (WriteFile ''results.json'' (measures_tbl st))
                      (emit (Send (ListObjectsV2Command (Bucket e) 2147483647)) st)))"
  using assms
  by (simp add: measure_flush_def cleanup_def listObjects_def cleanup_loop_Nil clearLine_tty)

lemma fieldless_replies:
  "create_multipart_reply fieldless_env j = Inr (None, None)"
  "send_reply fieldless_env j = None"
  "sign_reply fieldless_env j = Inr ''http://localhost:9000/signed''"
  "list_reply fieldless_env j = Inr None"
  "write_reply fieldless_env j = None"
  "Bucket fieldless_env = ''benchmark-00c0ffee00''"
  "date_now fieldless_env j = 2000 * int j"
  "hrtime fieldless_env j = (0, 0)"
  "stdout_isTTY fieldless_env"
  by (simp_all add: fieldless_env_def backend_def)

lemma fieldless_monotone: "clock_monotone fieldless_env"
  by (simp add: clock_monotone_def fieldless_replies)

lemma initiate_only_fieldless:
  "initiate_only fieldless_env s =
     Some (Inr (emit (Send (CreateMultipartUploadCommand ''benchmark-00c0ffee00''
                             (key_of ''initiate-multipart-only'' (0, 0) (0, 0))))
                  (emit HrTime (emit HrTime s))))"
  by (simp add: initiate_only_def drop_result_def initiateMultipart_def getKey_eq fieldless_replies)

lemma presigned_url_only_fieldless:
  "presigned_url_only fieldless_env s =
     Some (Inr (emit (GetSignedUrl (PutObjectCommand ''benchmark-00c0ffee00''
                             (key_of ''traditional-presigned-url-only'' (0, 0) (0, 0))))
                  (emit HrTime (emit HrTime s))))"
  by (simp add: presigned_url_only_def drop_result_def getTraditionalPresignedUrl_def
      getSignedUrl_def getKey_eq fieldless_replies)

lemma scenario_fieldless:
  assumes f: "\<And>s. \<exists>evs. f s = Some (Inr (s\<lparr>trace := trace s @ evs\<rparr>))"
    and empty: "samples st name = None \<or> samples st name = Some []"
  shows "\<exists>st'. measure_scenario fieldless_env name (FnOnly f :: unit bench) 1000 st = Some (Inr st') \<and>
           (\<forall>other. other \<noteq> name \<longrightarrow> samples st' other = samples st other)"
proof -
  have ok: "action_ok name f"
    unfolding action_ok_def
  proof
    fix s
    from f[of s] obtain evs where "f s = Some (Inr (s\<lparr>trace := trace s @ evs\<rparr>))" by blast
    then show "\<exists>s'. f s = Some (Inr s') \<and> samples s' name = samples s name \<and>
                 length (trace s) \<le> length (trace s')"
      by (simp add: samples_def)
  qed
  have q: "quiet f"
    unfolding quiet_def
  proof (intro allI impI)
    fix s s'
    assume a: "f s = Some (Inr s')"
    from f[of s] obtain evs where "f s = Some (Inr (s\<lparr>trace := trace s @ evs\<rparr>))" by blast
    with a show "measures_tbl s' = measures_tbl s" by auto
  qed
  have slow: "slower_than fieldless_env 1000 f"
    unfolding slower_than_def
  proof (intro allI impI)
    fix s s'
    assume a: "f (emit DateNow s) = Some (Inr s')"
    from f[of "emit DateNow s"] obtain evs where
      "f (emit DateNow s) = Some (Inr ((emit DateNow s)\<lparr>trace := trace (emit DateNow s) @ evs\<rparr>))"
      by blast
    with a have "length (trace s) < length (trace s')" by auto
    then show "1000 < date_now fieldless_env (length (trace s')) - date_now fieldless_env (length (trace s))"
      by (simp add: fieldless_replies)
  qed
  from measure_sampling_three[of st name "FnOnly f :: unit bench" fieldless_env 1000]
  obtain s1 where sm: "measure_sampling fieldless_env name (FnOnly f :: unit bench) 1000 st = Some (Inr s1)"
    using empty ok slow fieldless_monotone fieldless_replies(9)
    by (auto simp: bench_ok_def bench_slower_def)
  define s0 where "s0 = (if samples st name = None
                then st\<lparr>measures_tbl := AList.update name [] (measures_tbl st)\<rparr> else st)"
  from sm have lp: "measure_loop fieldless_env name f 1000 (date_now fieldless_env (length (trace st)))
                      (emit DateNow s0) = Some (Inr s1)"
    unfolding sampling_start s0_def[symmetric] Let_def by simp
  have fr: "samples s1 other = samples st other" if "other \<noteq> name" for other
  proof -
    have "samples s1 other = samples (emit DateNow s0) other"
      using measure_loop_frame_aux[OF lp] q that by blast
    also have "\<dots> = samples st other"
      using that by (simp add: s0_def samples_def update_conv')
    finally show ?thesis .
  qed
  have fl: "measure_flush fieldless_env s1 =
         Some (Inr (emit (WriteFile ''results.json'' (measures_tbl s1))
                      (emit (Send (ListObjectsV2Command (Bucket fieldless_env) 2147483647)) s1)))"
    by (rule flush_empty_bucket) (simp_all add: fieldless_replies)
  show ?thesis
    using sm fr by (simp add: measure_scenario_def fl)
qed

lemma run_aborts_at_presign:
  assumes "send e (CreateBucketCommand (Bucket e)) st = Inr s1"
    and "measure_scenario e ''get-traditional-presigned-url''
           (FnOnly (presigned_url_only e) :: unit bench) 1000 s1 = Some (Inr s2)"
    and "measure_scenario e ''initiate-multipart-only''
           (FnOnly (initiate_only e) :: unit bench) 1000 s2 = Some (Inr s3)"
    and "create_multipart_reply e (length (trace s3) + 3) = Inr (uo, ko)" and "lacks_field uo ko"
  shows "run e st = Some (Inl (Error ''Key or UploadId is undefined''))"
  by (simp add: run_def assms(1-3) presign_scenario_aborts[OF assms(4,5)])

lemma run_fieldless:
  "\<exists>s1 s2 s3.
     send fieldless_env (CreateBucketCommand (Bucket fieldless_env)) st0 = Inr s1 \<and>
     measure_scenario fieldless_env ''get-traditional-presigned-url''
           (FnOnly (presigned_url_only fieldless_env) :: unit bench) 1000 s1 = Some (Inr s2) \<and>
     measure_scenario fieldless_env ''initiate-multipart-only''
           (FnOnly (initiate_only fieldless_env) :: unit bench) 1000 s2 = Some (Inr s3)"
proof -
  let ?s1 = "emit (Send (CreateBucketCommand (Bucket fieldless_env))) st0"
  have a: "send fieldless_env (CreateBucketCommand (Bucket fieldless_env)) st0 = Inr ?s1"
    by (simp add: send_def fieldless_replies)
  have e1: "samples ?s1 name = None" for name by (simp add: samples_def st0_def)
  have "\<exists>evs. presigned_url_only fieldless_env s = Some (Inr (s\<lparr>trace := trace s @ evs\<rparr>))" for s
    by (simp add: presigned_url_only_fieldless emit_def) (rule exI, rule refl)
  from scenario_fieldless[OF this, of ?s1 "''get-traditional-presigned-url''"] e1
  obtain s2 where b: "measure_scenario fieldless_env ''get-traditional-presigned-url''
           (FnOnly (presigned_url_only fieldless_env) :: unit bench) 1000 ?s1 = Some (Inr s2)"
    and fr: "\<forall>other. other \<noteq> ''get-traditional-presigned-url'' \<longrightarrow> samples s2 other = samples ?s1 other"
    by blast
  have e2: "samples s2 ''initiate-multipart-only'' = None" using fr e1 by simp
  have "\<exists>evs. initiate_only fieldless_env s = Some (Inr (s\<lparr>trace := trace s @ evs\<rparr>))" for s
    by (simp add: initiate_only_fieldless emit_def) (rule exI, rule refl)
  from scenario_fieldless[OF this, of s2 "''initiate-multipart-only''"] e2
  obtain s3 where c: "measure_scenario fieldless_env ''initiate-multipart-only''
           (FnOnly (initiate_only fieldless_env) :: unit bench) 1000 s2 = Some (Inr s3)"
    by blast
  from a b c show ?thesis by blast
qed


lemma sizeToBytes_1g: "sizeToBytes ''1g'' = Inr (Fin 1073741824)"
proof -
  have "sizeToBytes (numeric_prefix ''1'' [] @ ''g'') = Inr (Fin (prefix_value ''1'' [] * 1024 ^ 3))"
    by (rule sizeToBytes_double(3)[where m = 1 and k = 0])
       (simp_all add: is_digit_def prefix_value_def digits_val_def digit_val_def)
  then show ?thesis
    by (simp add: numeric_prefix_def prefix_value_def digits_val_def digit_val_def)
qed

lemma setup_result:
  assumes "sizeToBytes sz = Inr (Fin a)" "sizeToBytes chunk = Inr (Fin b)"
    and "0 \<le> b" "b \<le> of_nat (kMaxLength e)" "js_rem (Fin a) (Fin b) = Fin c"
    and "0 \<le> c" "c \<le> of_nat (kMaxLength e)"
  shows "multipart_setup e sz chunk st =
         Inr (mk_fixture sz chunk (nat \<lfloor>b\<rfloor>) (nat \<lfloor>c\<rfloor>),
              st\<lparr>measures_tbl := AList.update (complete_name sz chunk) []
                   (AList.update (upload_name sz chunk) [] (measures_tbl st))\<rparr>)"
  using assms
  by (simp add: multipart_setup_def getFileOfSize_def mk_fixture_def Let_def del: js_rem.simps)

section \<open>Errors at any place of the sweep\<close>

lemma bindP_assoc: "bindP (bindP m f) g = bindP m (\<lambda>x. bindP (f x) g)"
  by (simp add: bindP_def split: option.splits sum.splits)

lemma reaches_loop:
  assumes "reaches e name iter b os st st'"
  shows "measure_loop e name iter b os st = measure_loop e name iter b os st'"
  using assms
proof (induction rule: reaches.induct)
  case (reaches_here st)
  show ?case by simp
next
  case (reaches_turn st xs sm st')
  have "measure_loop e name iter b os st = measure_loop e name iter b os sm"
    using reaches_turn(2,3) by (simp add: measure_loop_rule[OF reaches_turn(1)])
  with reaches_turn.IH show ?case by simp
qed

lemma sample_once_throws:
  "iter (emit DateNow st) = Some (Inl err) \<Longrightarrow> sample_once e name iter st = Some (Inl err)"
  by (simp add: sample_once_def now_eq)

lemma loop_turn_throws:
  assumes xs: "samples st name = Some xs"
    and g: "length xs < 3 \<or> date_now e (length (trace st)) - os < b"
    and it: "iter (emit DateNow (if length xs < 3 then st else emit DateNow st)) = Some (Inl err)"
  shows "measure_loop e name iter b os st = Some (Inl err)"
proof -
  have "sample_once e name iter (if length xs < 3 then st else emit DateNow st) = Some (Inl err)"
    by (rule sample_once_throws) (rule it)
  with g show ?thesis by (simp add: measure_loop_rule[OF xs])
qed

lemma measure_multipart_throws:
  assumes b: "multipart_budget sz = Inr b"
    and su: "multipart_setup e sz chunk (emit DateNow (entered (total_name sz chunk) st)) = Inr (fx, sa)"
    and re: "reaches e (total_name sz chunk) (multipart_fn e sz chunk fx) b
               (date_now e (length (trace st))) sa sk"
    and xs: "samples sk (total_name sz chunk) = Some xs"
    and g: "length xs < 3 \<or> date_now e (length (trace sk)) - date_now e (length (trace st)) < b"
    and cr: "create_multipart_reply e
               (length (trace (if length xs < 3 then sk else emit DateNow sk)) + 3) = Inr (uo, ko)"
    and lf: "lacks_field uo ko"
  shows "measure_multipart e sz chunk st = Some (Inl (Error ''UploadId or Key is undefined''))"
proof -
  let ?T = "total_name sz chunk"
  let ?fn = "multipart_fn e sz chunk fx"
  let ?os = "date_now e (length (trace st))"
  let ?t = "if length xs < 3 then sk else emit DateNow sk"
  from setup_any_state(2)[OF su] obtain rem cs where
    sz: "sizeToBytes sz = Inr rem" "sizeToBytes chunk = Inr cs" by blast
  have "?fn (emit DateNow ?t) = Some (Inl (Error ''UploadId or Key is undefined''))"
    by (rule fn_lacks_field[OF sz _ lf]) (use cr in \<open>simp add: numeral_eq_Suc\<close>)
  then have "measure_loop e ?T ?fn b ?os sk = Some (Inl (Error ''UploadId or Key is undefined''))"
    by (intro loop_turn_throws[where xs = xs] xs g)
  then have "measure_loop e ?T ?fn b ?os sa = Some (Inl (Error ''UploadId or Key is undefined''))"
    using reaches_loop[OF re] by simp
  then have "measure_sampling e ?T
               (WithSetup (\<lambda>s. Some (multipart_setup e sz chunk s)) (multipart_fn e sz chunk)) b st =
             Some (Inl (Error ''UploadId or Key is undefined''))"
    by (simp add: measure_sampling_def entered_def[symmetric] now_eq su)
  then show ?thesis by (simp add: measure_multipart_def b measure_scenario_def)
qed

lemma measure_chunks_append:
  "measure_chunks e sz (cha @ chb) st = bindP (measure_chunks e sz cha st) (measure_chunks e sz chb)"
proof (induction cha arbitrary: st)
  case Nil
  show ?case by simp
next
  case (Cons c cha)
  have "measure_chunks e sz (cha @ chb) =
          (\<lambda>x. bindP (measure_chunks e sz cha x) (measure_chunks e sz chb))"
    by (rule ext) (rule Cons.IH)
  then show ?case by (simp add: bindP_assoc)
qed

lemma measure_sizes_append:
  "measureMultipartUploadCases e (sza @ szb) chunks st =
     bindP (measureMultipartUploadCases e sza chunks st) (measureMultipartUploadCases e szb chunks)"
proof (induction sza arbitrary: st)
  case Nil
  show ?case by simp
next
  case (Cons c sza)
  have "measureMultipartUploadCases e (sza @ szb) chunks =
          (\<lambda>x. bindP (measureMultipartUploadCases e sza chunks x)
                 (measureMultipartUploadCases e szb chunks))"
    by (rule ext) (rule Cons.IH)
  then show ?case by (simp add: bindP_assoc)
qed

lemma measure_sweeps_append:
  "measure_sweeps e (swa @ swb) st = bindP (measure_sweeps e swa st) (measure_sweeps e swb)"
proof (induction swa arbitrary: st)
  case Nil
  show ?case by simp
next
  case (Cons c swa)
  have "measure_sweeps e (swa @ swb) =
          (\<lambda>x. bindP (measure_sweeps e swa x) (measure_sweeps e swb))"
    by (rule ext) (rule Cons.IH)
  then show ?case by (cases c) (simp add: bindP_assoc)
qed

lemma run_sweeps_eq:
  "run e st =
     bindP (run_prefix e st) (\<lambda>p.
     bindP (measure_sweeps e run_sweeps p) (\<lambda>st7.
     bindP (cleanup e st7) (\<lambda>st8. Some (send e (DeleteBucketCommand (Bucket e)) st8))))"
  by (simp add: run_def run_prefix_def run_sweeps_def bindP_assoc)

lemma sweep_place_throws:
  assumes p: "run_prefix e st = Some (Inr p)"
    and sw: "swa @ (sizes, chunks) # swb = run_sweeps"
    and q: "measure_sweeps e swa p = Some (Inr q)"
    and szs: "sizes = sza @ sz # szb"
    and r: "measureMultipartUploadCases e sza chunks q = Some (Inr r)"
    and chs: "chunks = cha @ chunk # chb"
    and t: "measure_chunks e sz cha r = Some (Inr t)"
    and m: "measure_multipart e sz chunk t = Some (Inl err)"
  shows "run e st = Some (Inl err)"
proof -
  have "measure_chunks e sz chunks r = Some (Inl err)"
    unfolding chs measure_chunks_append by (simp add: t m)
  then have "measureMultipartUploadCases e sizes chunks q = Some (Inl err)"
    unfolding szs measure_sizes_append by (simp add: r)
  then have "measure_sweeps e run_sweeps p = Some (Inl err)"
    unfolding sw[symmetric] measure_sweeps_append by (simp add: q)
  then show ?thesis by (simp add: run_sweeps_eq p)
qed

section \<open>A run whose initiation replies fail late\<close>

lemma late_replies:
  "i < 240 \<Longrightarrow> create_multipart_reply late_env i = Inr (Some ''upload-1'', Some ''key-1'')"
  "240 \<le> i \<Longrightarrow> create_multipart_reply late_env i = Inr (None, None)"
  "send_reply late_env j = None"
  "sign_reply late_env j = Inr ''http://localhost:9000/signed''"
  "put_reply late_env j = Inr None"
  "list_reply late_env j = Inr None"
  "write_reply late_env j = None"
  "Bucket late_env = ''benchmark-00c0ffee00''"
  "date_now late_env j = 2000 * int j"
  "hrtime late_env j = (0, 0)"
  "stdout_isTTY late_env"
  "kMaxLength late_env = 4294967296"
  by (simp_all add: late_env_def backend_def)

lemma late_monotone: "clock_monotone late_env"
  by (simp add: clock_monotone_def late_replies)

text \<open>A turn of an action that only adds \<open>k\<close> interactions.\<close>

lemma turn_trace_only:
  assumes act: "\<And>s. \<exists>evs. iter s = Some (Inr (s\<lparr>trace := trace s @ evs\<rparr>)) \<and> length evs = k"
    and xs: "samples s name = Some xs"
  shows "\<exists>s'. turn e name iter s s' \<and> length (trace s') = length (trace s) + k + 2 \<and>
           samples s' name = Some (xs @ [elapsed e s s']) \<and>
           (\<forall>other. other \<noteq> name \<longrightarrow> samples s' other = samples s other)"
proof -
  from act[of "emit DateNow s"] obtain evs where
    it: "iter (emit DateNow s) = Some (Inr ((emit DateNow s)\<lparr>trace := trace (emit DateNow s) @ evs\<rparr>))"
    and k: "length evs = k" by blast
  let ?a = "(emit DateNow s)\<lparr>trace := trace (emit DateNow s) @ evs\<rparr>"
  let ?s' = "(emit DateNow ?a)\<lparr>measures_tbl :=
               AList.update name
                 (xs @ [date_now e (length (trace ?a)) - date_now e (length (trace s))])
                 (measures_tbl ?a)\<rparr>"
  have xa: "samples ?a name = Some xs" using xs by (simp add: samples_def)
  have "turn e name iter s ?s'"
    unfolding turn_def using it xs xa by (intro exI[of _ ?a] exI[of _ xs]) simp
  moreover have "length (trace ?s') = length (trace s) + k + 2" by (simp add: k)
  moreover have "samples ?s' name = Some (xs @ [elapsed e s ?s'])"
    by (simp add: samples_update elapsed_def)
  moreover have "\<forall>other. other \<noteq> name \<longrightarrow> samples ?s' other = samples s other"
    by (simp add: samples_def update_conv')
  ultimately show ?thesis by blast
qed

lemma scenario_late:
  assumes b: "b < 2000 * (int k + 1)"
    and empty: "samples st name = None \<or> samples st name = Some []"
    and prep: "prepared name bench st iter sa"
    and ms: "measures_tbl sa = measures_tbl (entered name st)"
    and act: "\<And>s. \<exists>evs. iter s = Some (Inr (s\<lparr>trace := trace s @ evs\<rparr>)) \<and> length evs = k"
  shows "\<exists>st'. measure_scenario late_env name bench b st = Some (Inr st') \<and>
           length (trace st') = length (trace sa) + 3 * (k + 2) + 3 \<and>
           samples st' name \<noteq> None \<and>
           (\<forall>other. other \<noteq> name \<longrightarrow> samples st' other = samples st other)"
proof -
  note p = sampling_prepared[OF prep]
  have x0: "samples sa name = Some []" using p(3) entered_samples[OF empty] by simp
  have f0: "samples sa other = samples st other" if "other \<noteq> name" for other
    using that ms entered_other[OF that, of st] by (simp add: samples_def)
  from turn_trace_only[of iter k sa name "[]" late_env, OF act x0] obtain sb where
    1: "turn late_env name iter sa sb" "length (trace sb) = length (trace sa) + k + 2"
    "samples sb name = Some ([] @ [elapsed late_env sa sb])"
    "\<forall>other. other \<noteq> name \<longrightarrow> samples sb other = samples sa other" by blast
  from turn_trace_only[of iter k sb name _ late_env, OF act 1(3)] obtain sc where
    2: "turn late_env name iter sb sc" "length (trace sc) = length (trace sb) + k + 2"
    "samples sc name = Some (([] @ [elapsed late_env sa sb]) @ [elapsed late_env sb sc])"
    "\<forall>other. other \<noteq> name \<longrightarrow> samples sc other = samples sb other" by blast
  from turn_trace_only[of iter k sc name _ late_env, OF act 2(3)] obtain sd where
    3: "turn late_env name iter sc sd" "length (trace sd) = length (trace sc) + k + 2"
    "samples sd name = Some ((([] @ [elapsed late_env sa sb]) @ [elapsed late_env sb sc]) @
                               [elapsed late_env sc sd])"
    "\<forall>other. other \<noteq> name \<longrightarrow> samples sd other = samples sc other" by blast
  have "elapsed late_env sc sd = 2000 * (int k + 1)"
    using 3(2) by (simp add: elapsed_def late_replies)
  with b have stop: "b \<le> 0 \<or> b < elapsed late_env sa sb \<or> b < elapsed late_env sb sc \<or>
                     b < elapsed late_env sc sd" by simp
  note r = sampling_three_turns[OF late_replies(11) late_monotone empty prep 1(1) 2(1) 3(1) stop]
  let ?g = "emit DateNow sd"
  have fl: "measure_flush late_env ?g =
         Some (Inr (emit (WriteFile ''results.json'' (measures_tbl ?g))
                      (emit (Send (ListObjectsV2Command (Bucket late_env) 2147483647)) ?g)))"
    by (rule flush_empty_bucket) (simp_all add: late_replies)
  let ?st' = "emit (WriteFile ''results.json'' (measures_tbl ?g))
                (emit (Send (ListObjectsV2Command (Bucket late_env) 2147483647)) ?g)"
  have "measure_scenario late_env name bench b st = Some (Inr ?st')"
    by (simp add: measure_scenario_def r(1) fl)
  moreover have "length (trace ?st') = length (trace sa) + 3 * (k + 2) + 3"
    using 1(2) 2(2) 3(2) by simp
  moreover have "samples ?st' name \<noteq> None" using 3(3) by simp
  moreover have "\<forall>other. other \<noteq> name \<longrightarrow> samples ?st' other = samples st other"
    using 1(4) 2(4) 3(4) f0 by simp
  ultimately show ?thesis by blast
qed


lemma presigned_url_only_late:
  "\<exists>evs. presigned_url_only late_env s = Some (Inr (s\<lparr>trace := trace s @ evs\<rparr>)) \<and> length evs = 3"
  by (rule exI[of _ "[HrTime, HrTime, GetSignedUrl (PutObjectCommand ''benchmark-00c0ffee00''
                 (key_of ''traditional-presigned-url-only'' (0, 0) (0, 0)))]"])
     (simp add: presigned_url_only_def drop_result_def getTraditionalPresignedUrl_def
        getSignedUrl_def getKey_eq late_replies emit_def)

lemma initiate_only_late:
  "\<exists>evs. initiate_only late_env s = Some (Inr (s\<lparr>trace := trace s @ evs\<rparr>)) \<and> length evs = 3"
proof -
  obtain r where "create_multipart_reply late_env (Suc (Suc (length (trace s)))) = Inr r"
    by (cases "Suc (Suc (length (trace s))) < 240") (simp_all add: late_replies)
  then show ?thesis
    by (intro exI[of _ "[HrTime, HrTime, Send (CreateMultipartUploadCommand ''benchmark-00c0ffee00''
                 (key_of ''initiate-multipart-only'' (0, 0) (0, 0)))]"])
       (simp add: initiate_only_def drop_result_def initiateMultipart_def getKey_eq
          late_replies emit_def)
qed

lemma part_presign_late:
  "\<exists>evs. part_presign late_env r s = Some (Inr (s\<lparr>trace := trace s @ evs\<rparr>)) \<and> length evs = 1"
  by (cases r)
     (auto simp: part_presign_def drop_result_def getMultipartPresignedUrl_def getSignedUrl_def
        late_replies emit_def)

lemma presign_setup_late:
  assumes "length (trace s) + 2 < 240"
  shows "presign_setup late_env s =
           Inr ((''key-1'', ''upload-1''),
                s\<lparr>trace := trace s @ [HrTime, HrTime,
                  Send (CreateMultipartUploadCommand ''benchmark-00c0ffee00''
                          (key_of ''multipart-presigned-url-only'' (0, 0) (0, 0)))]\<rparr>)"
  using assms
  by (simp add: presign_setup_def initiateMultipart_def getKey_eq late_replies emit_def)

lemma traditionalUpload_late:
  "\<exists>evs. traditionalUpload late_env prefix file s = Inr (s\<lparr>trace := trace s @ evs\<rparr>) \<and> length evs = 4"
  by (rule exI[of _ "[HrTime, HrTime,
          GetSignedUrl (PutObjectCommand ''benchmark-00c0ffee00'' (key_of prefix (0, 0) (0, 0))),
          KyPut ''http://localhost:9000/signed'' file]"])
     (simp add: traditionalUpload_def getTraditionalPresignedUrl_def getSignedUrl_def ky_put_def
        getKey_eq late_replies emit_def)

lemma traditional_late:
  assumes "\<forall>sz\<in>set sizes. \<exists>n. sizeToBytes sz = Inr (Fin n) \<and> 0 \<le> n \<and> n \<le> 4294967296"
    and "distinct sizes"
    and "\<forall>sz\<in>set sizes. samples st (''traditional-upload-'' @ sz) = None"
  shows "\<exists>st'. measureTraditionalUploadCases late_env sizes st = Some (Inr st') \<and>
           length (trace st') = length (trace st) + 22 * length sizes \<and>
           (\<forall>other. (\<forall>sz\<in>set sizes. other \<noteq> ''traditional-upload-'' @ sz) \<longrightarrow>
                    samples st' other = samples st other)"
  using assms
proof (induction sizes arbitrary: st)
  case Nil
  show ?case by simp
next
  case (Cons sz sizes)
  let ?n = "''traditional-upload-'' @ sz"
  let ?B = "WithSetup
                 (\<lambda>s. Some (bindE (sizeToBytes sz) (\<lambda>n.
                         bindE (getFileOfSize late_env n) (\<lambda>file. Inr (file, s)))))
                 (\<lambda>file s. Some (traditionalUpload late_env ?n file s))"
  from Cons.prems(1) obtain n where n: "sizeToBytes sz = Inr (Fin n)" "0 \<le> n" "n \<le> 4294967296"
    by auto
  let ?sa = "emit DateNow (entered ?n st)"
  let ?it = "\<lambda>s. Some (traditionalUpload late_env ?n (nat \<lfloor>n\<rfloor>) s)"
  have e: "samples st ?n = None \<or> samples st ?n = Some []" using Cons.prems(3) by simp
  have pr: "prepared ?n ?B st ?it ?sa"
    unfolding prepared_def using n
    by (simp add: getFileOfSize_def late_replies)
  have act: "\<exists>evs. ?it s = Some (Inr (s\<lparr>trace := trace s @ evs\<rparr>)) \<and> length evs = 4" for s
    using traditionalUpload_late[of ?n "nat \<lfloor>n\<rfloor>" s] by simp
  from scenario_late[where b = 2000 and k = 4, OF _ e pr _ act] obtain s1 where
    s1: "measure_scenario late_env ?n ?B 2000 st = Some (Inr s1)"
    and l1: "length (trace s1) = length (trace ?sa) + 3 * (4 + 2) + 3"
    and f1: "\<forall>other. other \<noteq> ?n \<longrightarrow> samples s1 other = samples st other"
    by auto
  have d: "sz \<notin> set sizes" "distinct sizes" using Cons.prems(2) by simp_all
  have p3: "\<forall>x\<in>set sizes. samples s1 (''traditional-upload-'' @ x) = None"
  proof
    fix x assume x: "x \<in> set sizes"
    with d(1) have "''traditional-upload-'' @ x \<noteq> ?n" by auto
    with f1 have "samples s1 (''traditional-upload-'' @ x) = samples st (''traditional-upload-'' @ x)"
      by blast
    with Cons.prems(3) x show "samples s1 (''traditional-upload-'' @ x) = None" by simp
  qed
  from Cons.IH[OF _ d(2) p3] Cons.prems(1) obtain st' where
    r: "measureTraditionalUploadCases late_env sizes s1 = Some (Inr st')"
    and l2: "length (trace st') = length (trace s1) + 22 * length sizes"
    and f2: "\<forall>other. (\<forall>x\<in>set sizes. other \<noteq> ''traditional-upload-'' @ x) \<longrightarrow>
                    samples st' other = samples s1 other"
    by auto
  have "measureTraditionalUploadCases late_env (sz # sizes) st = Some (Inr st')"
    by (simp only: measureTraditionalUploadCases.simps s1 bindP_simps r)
  moreover have "length (trace st') = length (trace st) + 22 * length (sz # sizes)"
    using l1 l2 by simp
  moreover have "\<forall>other. (\<forall>x\<in>set (sz # sizes). other \<noteq> ''traditional-upload-'' @ x) \<longrightarrow>
                    samples st' other = samples st other"
  proof (intro allI impI)
    fix other assume o: "\<forall>x\<in>set (sz # sizes). other \<noteq> ''traditional-upload-'' @ x"
    then have "other \<noteq> ?n" "\<forall>x\<in>set sizes. other \<noteq> ''traditional-upload-'' @ x" by simp_all
    with f1 f2 show "samples st' other = samples st other" by metis
  qed
  ultimately show ?case by blast
qed


lemma sizeToBytes_512k: "sizeToBytes ''512k'' = Inr (Fin 524288)"
proof -
  have "sizeToBytes (numeric_prefix ''512'' [] @ ''k'') = Inr (Fin (prefix_value ''512'' [] * 1024))"
    by (rule sizeToBytes_double(1)[where m = 512 and k = 0])
       (simp_all add: is_digit_def prefix_value_def digits_val_def digit_val_def)
  then show ?thesis
    by (simp add: numeric_prefix_def prefix_value_def digits_val_def digit_val_def)
qed

lemma sizeToBytes_25m: "sizeToBytes ''25m'' = Inr (Fin 26214400)"
proof -
  have "sizeToBytes (numeric_prefix ''25'' [] @ ''m'') = Inr (Fin (prefix_value ''25'' [] * 1024 ^ 2))"
    by (rule sizeToBytes_double(2)[where m = 25 and k = 0])
       (simp_all add: is_digit_def prefix_value_def digits_val_def digit_val_def)
  then show ?thesis
    by (simp add: numeric_prefix_def prefix_value_def digits_val_def digit_val_def)
qed

lemma sizeToBytes_50m: "sizeToBytes ''50m'' = Inr (Fin 52428800)"
proof -
  have "sizeToBytes (numeric_prefix ''50'' [] @ ''m'') = Inr (Fin (prefix_value ''50'' [] * 1024 ^ 2))"
    by (rule sizeToBytes_double(2)[where m = 50 and k = 0])
       (simp_all add: is_digit_def prefix_value_def digits_val_def digit_val_def)
  then show ?thesis
    by (simp add: numeric_prefix_def prefix_value_def digits_val_def digit_val_def)
qed

lemma sizeToBytes_100m: "sizeToBytes ''100m'' = Inr (Fin 104857600)"
proof -
  have "sizeToBytes (numeric_prefix ''100'' [] @ ''m'') = Inr (Fin (prefix_value ''100'' [] * 1024 ^ 2))"
    by (rule sizeToBytes_double(2)[where m = 100 and k = 0])
       (simp_all add: is_digit_def prefix_value_def digits_val_def digit_val_def)
  then show ?thesis
    by (simp add: numeric_prefix_def prefix_value_def digits_val_def digit_val_def)
qed

lemma sizeToBytes_1_5g: "sizeToBytes ''1.5g'' = Inr (Fin 1610612736)"
proof -
  have "sizeToBytes (numeric_prefix ''1'' ''5'' @ ''g'') = Inr (Fin (prefix_value ''1'' ''5'' * 1024 ^ 3))"
    by (rule sizeToBytes_double(3)[where m = 3 and k = "- 1"])
       (simp_all add: is_digit_def prefix_value_def digits_val_def digit_val_def)
  then show ?thesis
    by (simp add: numeric_prefix_def prefix_value_def digits_val_def digit_val_def)
qed

lemma traditional_sizes:
  "\<forall>sz\<in>set [''512k'', ''5m'', ''10m'', ''25m'', ''50m'', ''100m'', ''1g'', ''1.5g''].
     \<exists>n. sizeToBytes sz = Inr (Fin n) \<and> 0 \<le> n \<and> n \<le> 4294967296"
  using sizeToBytes_512k sizeToBytes_5m sizeToBytes_10m sizeToBytes_25m sizeToBytes_50m
    sizeToBytes_100m sizeToBytes_1g sizeToBytes_1_5g
  by simp

lemma run_prefix_late:
  "\<exists>p. run_prefix late_env st0 = Some (Inr p) \<and> length (trace p) = 231 \<and>
        (\<forall>sz chunk. samples p (total_name sz chunk) = None)"
proof -
  let ?e = late_env
  let ?s1 = "emit (Send (CreateBucketCommand (Bucket ?e))) st0"
  have a: "send ?e (CreateBucketCommand (Bucket ?e)) st0 = Inr ?s1"
    by (simp add: send_def late_replies)
  have n1: "samples ?s1 name = None" for name by (simp add: samples_def st0_def)
  have l1: "length (trace ?s1) = 1" by (simp add: st0_def)
  let ?n1 = "''get-traditional-presigned-url''"
  have p1: "prepared ?n1 (FnOnly (presigned_url_only ?e) :: unit bench) ?s1
              (presigned_url_only ?e) (emit DateNow (entered ?n1 ?s1))"
    by (simp add: prepared_def)
  from scenario_late[where b = 1000 and k = 3, OF _ _ p1 _ presigned_url_only_late] n1
  obtain s2 where
    b: "measure_scenario ?e ?n1 (FnOnly (presigned_url_only ?e) :: unit bench) 1000 ?s1 = Some (Inr s2)"
    and l2: "length (trace s2) = length (trace (emit DateNow (entered ?n1 ?s1))) + 3 * (3 + 2) + 3"
    and f2: "\<forall>other. other \<noteq> ?n1 \<longrightarrow> samples s2 other = samples ?s1 other"
    by auto
  have l2': "length (trace s2) = 20" using l2 l1 by simp
  let ?n2 = "''initiate-multipart-only''"
  have n2: "samples s2 ?n2 = None" using f2 n1 by simp
  have p2: "prepared ?n2 (FnOnly (initiate_only ?e) :: unit bench) s2
              (initiate_only ?e) (emit DateNow (entered ?n2 s2))"
    by (simp add: prepared_def)
  from scenario_late[where b = 1000 and k = 3, OF _ _ p2 _ initiate_only_late] n2
  obtain s3 where
    c: "measure_scenario ?e ?n2 (FnOnly (initiate_only ?e) :: unit bench) 1000 s2 = Some (Inr s3)"
    and l3: "length (trace s3) = length (trace (emit DateNow (entered ?n2 s2))) + 3 * (3 + 2) + 3"
    and f3: "\<forall>other. other \<noteq> ?n2 \<longrightarrow> samples s3 other = samples s2 other"
    by auto
  have l3': "length (trace s3) = 39" using l3 l2' by simp
  let ?n3 = "''get-multipart-presigned-url-only''"
  have n3: "samples s3 ?n3 = None" using f3 f2 n1 by simp
  let ?t = "emit DateNow (entered ?n3 s3)"
  let ?sa = "?t\<lparr>trace := trace ?t @ [HrTime, HrTime,
                  Send (CreateMultipartUploadCommand ''benchmark-00c0ffee00''
                          (key_of ''multipart-presigned-url-only'' (0, 0) (0, 0)))]\<rparr>"
  have su: "presign_setup ?e ?t = Inr ((''key-1'', ''upload-1''), ?sa)"
    by (rule presign_setup_late) (simp add: l3')
  have p3: "prepared ?n3 (WithSetup (\<lambda>s. Some (presign_setup ?e s)) (part_presign ?e)) s3
              (part_presign ?e (''key-1'', ''upload-1'')) ?sa"
    unfolding prepared_def by (simp add: su) (simp add: samples_def)
  from scenario_late[where b = 1000 and k = 1, OF _ _ p3 _ part_presign_late] n3
  obtain s4 where
    d: "measure_scenario ?e ?n3 (WithSetup (\<lambda>s. Some (presign_setup ?e s)) (part_presign ?e))
          1000 s3 = Some (Inr s4)"
    and l4: "length (trace s4) = length (trace ?sa) + 3 * (1 + 2) + 3"
    and f4: "\<forall>other. other \<noteq> ?n3 \<longrightarrow> samples s4 other = samples s3 other"
    by auto
  have l4': "length (trace s4) = 55" using l4 l3' by simp
  have n4: "samples s4 other = None" if "other \<noteq> ?n1" "other \<noteq> ?n2" "other \<noteq> ?n3" for other
    using that f4 f3 f2 n1 by simp
  let ?sizes = "[''512k'', ''5m'', ''10m'', ''25m'', ''50m'', ''100m'', ''1g'', ''1.5g'']"
  have n5: "\<forall>sz\<in>set ?sizes. samples s4 (''traditional-upload-'' @ sz) = None"
    by (intro ballI n4) simp_all
  from traditional_late[OF traditional_sizes _ n5] obtain p where
    e: "measureTraditionalUploadCases ?e ?sizes s4 = Some (Inr p)"
    and l5: "length (trace p) = length (trace s4) + 22 * length ?sizes"
    and f5: "\<forall>other. (\<forall>sz\<in>set ?sizes. other \<noteq> ''traditional-upload-'' @ sz) \<longrightarrow>
                    samples p other = samples s4 other"
    by auto
  have "run_prefix ?e st0 = Some (Inr p)"
    by (simp only: run_prefix_def a b c d e bindP_simps)
  moreover have "length (trace p) = 231" using l5 l4' by simp
  moreover have "samples p (total_name sz chunk) = None" for sz chunk
  proof -
    have "\<forall>x\<in>set ?sizes. total_name sz chunk \<noteq> ''traditional-upload-'' @ x"
      by (simp add: total_name_def)
    with f5 have "samples p (total_name sz chunk) = samples s4 (total_name sz chunk)" by blast
    also have "\<dots> = None" by (rule n4) (simp_all add: total_name_def)
    finally show ?thesis .
  qed
  ultimately show ?thesis by blast
qed


lemma budget_512k: "multipart_budget ''512k'' = Inr 2000"
  by (simp add: multipart_budget_def sizeToBytes_512k sizeToBytes_1g js_ge_def)

lemma js_rem_512k_5m: "js_rem (Fin 524288) (Fin 5242880) = Fin 524288"
proof -
  have "\<lfloor>1 / 10 :: rat\<rfloor> = 0" by (simp add: floor_eq_iff)
  then show ?thesis by (simp add: Let_def)
qed

lemma upload_chunks_512k_5m:
  "upload_chunks e ''5m'' u k cd (Fin 5242880) (Fin 524288) pn tags st =
   Some (Inr ((Fin 524288, pn, tags), st))"
  by (rule upload_chunks_none) (simp add: js_gt_def)

lemma fn_512k_5m_files:
  assumes "multipart_fn e ''512k'' ''5m'' fx st = Some (Inr st')"
  shows "\<exists>key k u. trace st' = trace st @ iteration_events e (length (trace st)) key k u
                                              [lastChunkData fx]"
proof -
  from multipart_fn_result[OF assms] obtain rem cs u k m l rem' tags1 s2 s key where
    "sizeToBytes ''512k'' = Inr rem" "sizeToBytes ''5m'' = Inr cs"
    and uc: "upload_chunks e ''5m'' u k (chunkData fx) cs rem 1 [] s = Some (Inr ((rem', 1 + m, tags1), s2))"
    and l: "l = [] \<and> \<not> js_gt rem' (Fin 0) \<or> l = [lastChunkData fx] \<and> js_gt rem' (Fin 0)"
    and tr: "trace st' = trace st @ iteration_events e (length (trace st)) key k u
               (replicate m (chunkData fx) @ l)"
    by blast
  then have rc: "rem = Fin 524288" "cs = Fin 5242880"
    by (simp_all add: sizeToBytes_5m sizeToBytes_512k)
  from uc have "rem' = Fin 524288" "m = 0"
    unfolding rc upload_chunks_512k_5m by simp_all
  with l have "replicate m (chunkData fx) @ l = [lastChunkData fx]" by (simp add: js_gt_def)
  with tr show ?thesis by auto
qed

lemma multipartUpload_late:
  "multipartUpload late_env u k pn file st =
   Inr ([], emit (KyPut ''http://localhost:9000/signed'' file)
              (emit (GetSignedUrl (UploadPartCommand ''benchmark-00c0ffee00'' k u pn)) st))"
  by (simp add: multipartUpload_def getMultipartPresignedUrl_def getSignedUrl_def ky_put_def
      late_replies)

lemma fn_late_512k_5m:
  assumes i: "length (trace st) + 2 < 240"
    and ys: "samples st (uploadMeasure fx) = Some ys"
    and zs: "samples st (completeMeasure fx) = Some zs"
  shows "\<exists>st'. multipart_fn late_env ''512k'' ''5m'' fx st = Some (Inr st')"
proof -
  have a: "map_of (measures_tbl st) (uploadMeasure fx) = Some ys"
    "map_of (measures_tbl st) (completeMeasure fx) = Some zs"
    using ys zs by (simp_all add: samples_def)
  have g: "js_gt (Fin 524288) (Fin 0)" by (simp add: js_gt_def)
  show ?thesis
    using a i g
    by (simp add: multipart_fn_def sizeToBytes_512k sizeToBytes_5m initiateMultipart_def getKey_eq
        late_replies multipart_parts_def now_eq upload_chunks_512k_5m[unfolded One_nat_def]
        upload_chunks_512k_5m multipartUpload_late push_measure_def completeMultipart_def send_def
        update_conv')
qed

lemma turn_multipart:
  assumes fn: "multipart_fn e sz chunk fx (emit DateNow st) = Some (Inr a)"
    and um: "uploadMeasure fx = upload_name sz chunk"
    and cm: "completeMeasure fx = complete_name sz chunk"
    and xs: "samples st (total_name sz chunk) = Some xs"
  shows "turn e (total_name sz chunk) (multipart_fn e sz chunk fx) st
           ((emit DateNow a)\<lparr>measures_tbl :=
              AList.update (total_name sz chunk)
                (xs @ [date_now e (length (trace a)) - date_now e (length (trace st))])
                (measures_tbl a)\<rparr>)"
proof -
  note nd = names_distinct[of sz chunk]
  from multipart_fn_result[OF fn] obtain x y ys' zs' evs where
    m2: "measures_tbl a =
           AList.update (completeMeasure fx) (zs' @ [y])
             (AList.update (uploadMeasure fx) (ys' @ [x]) (measures_tbl (emit DateNow st)))"
    and tr: "trace a = trace (emit DateNow st) @ evs"
    by blast
  have t2: "samples a (total_name sz chunk) = Some xs"
    using xs nd by (simp add: samples_def m2 um cm update_conv')
  show ?thesis
    unfolding turn_def using fn xs t2 tr by (intro exI[of _ a] exI[of _ xs]) simp
qed


lemma late_place:
  "\<exists>p sa sk d.
     run_prefix late_env st0 = Some (Inr p) \<and>
     multipart_setup late_env ''512k'' ''5m''
       (emit DateNow (entered (total_name ''512k'' ''5m'') p)) =
         Inr (mk_fixture ''512k'' ''5m'' 5242880 524288, sa) \<and>
     reaches late_env (total_name ''512k'' ''5m'')
       (multipart_fn late_env ''512k'' ''5m'' (mk_fixture ''512k'' ''5m'' 5242880 524288)) 2000
       (date_now late_env (length (trace p))) sa sk \<and>
     samples sk (total_name ''512k'' ''5m'') = Some [d] \<and>
     create_multipart_reply late_env (length (trace sk) + 3) = Inr (None, None)"
proof -
  let ?T = "total_name ''512k'' ''5m''" and ?U = "upload_name ''512k'' ''5m''"
    and ?C = "complete_name ''512k'' ''5m''"
  let ?fx = "mk_fixture ''512k'' ''5m'' 5242880 524288"
  let ?fn = "multipart_fn late_env ''512k'' ''5m'' ?fx"
  note nd = names_distinct[of "''512k''" "''5m''"]
  from run_prefix_late obtain p where
    p: "run_prefix late_env st0 = Some (Inr p)" and lp: "length (trace p) = 231"
    and np: "samples p ?T = None"
    by blast
  define t0 where "t0 = emit DateNow (entered ?T p)"
  define sa where "sa = t0\<lparr>measures_tbl := AList.update ?C [] (AList.update ?U [] (measures_tbl t0))\<rparr>"
  have su: "multipart_setup late_env ''512k'' ''5m'' t0 = Inr (?fx, sa)"
    unfolding sa_def
    using setup_result[OF sizeToBytes_512k sizeToBytes_5m _ _ js_rem_512k_5m, of late_env t0]
    by (simp add: late_replies)
  have xt: "samples t0 ?T = Some []"
    using entered_samples[of p ?T] np by (simp add: t0_def)
  have x: "samples sa ?T = Some []" "samples sa ?U = Some []" "samples sa ?C = Some []"
    using nd xt by (simp_all add: sa_def samples_def update_conv')
  have la: "length (trace sa) = 232" by (simp add: sa_def t0_def lp)
  have um: "uploadMeasure ?fx = ?U" "completeMeasure ?fx = ?C" by (simp_all add: mk_fixture_def)
  have "\<exists>a. ?fn (emit DateNow sa) = Some (Inr a)"
    by (rule fn_late_512k_5m[where ys = "[]" and zs = "[]"]) (simp_all add: la um x)
  then obtain a where fn: "?fn (emit DateNow sa) = Some (Inr a)" by blast
  from fn_512k_5m_files[OF fn] have lna: "length (trace a) = 243" by (auto simp: la)
  define sk where "sk = (emit DateNow a)\<lparr>measures_tbl :=
      AList.update ?T ([] @ [date_now late_env (length (trace a)) -
                             date_now late_env (length (trace sa))]) (measures_tbl a)\<rparr>"
  have tu: "turn late_env ?T ?fn sa sk"
    unfolding sk_def by (rule turn_multipart[OF fn um x(1)])
  note ts = turn_sample_once[OF late_replies(11) tu]
  have so: "sample_once late_env ?T ?fn (if length ([] :: int list) < 3 then sa else emit DateNow sa) =
              Some (Inr sk)"
    using ts(1) by simp
  have re: "reaches late_env ?T ?fn 2000 (date_now late_env (length (trace p))) sa sk"
    by (rule reaches_turn[OF x(1) _ so reaches_here]) simp
  have xk: "samples sk ?T = Some [elapsed late_env sa sk]" using ts(2) x(1) by simp
  have lk: "length (trace sk) = 244" by (simp add: sk_def lna)
  have cr: "create_multipart_reply late_env (length (trace sk) + 3) = Inr (None, None)"
    by (rule late_replies(2)) (simp add: lk)
  from p su[unfolded t0_def] re xk cr show ?thesis by blast
qed

subsection \<open>Initiation replies without identifiers\<close>

text \<open>
  Claim C7, as amended. Where the script reads the identifiers of an initiation reply,
  in the upload action of a multipart scenario and in the setup of the scenario
  get-multipart-presigned-url-only, a reply whose UploadId or Key is absent or empty
  makes it throw, and the error ends the sweep, at whatever place the reply comes: in
  any turn of the sampling loop of any multipart scenario, for any size and chunk of
  either list of \<open>run\<close>, the scenarios, sizes and chunks before it having returned
  normally, \<open>run\<close> returns the error, and so does \<open>measureMultipartUploadCases\<close> for any
  lists of sizes and chunks. With both identifiers present and not empty the action goes
  on to the part uploads.
\<close>

theorem missing_session_field_aborts:
  "(sizeToBytes sz = Inr rem \<and> sizeToBytes chunk = Inr cs \<and>
    create_multipart_reply e (length (trace st) + 2) = Inr (uo, ko) \<and> lacks_field uo ko \<longrightarrow>
      multipart_fn e sz chunk fx st = Some (Inl (Error ''UploadId or Key is undefined''))) \<and>
   (create_multipart_reply e (length (trace st) + 2) = Inr (uo, ko) \<and> lacks_field uo ko \<longrightarrow>
      presign_setup e st = Inl (Error ''Key or UploadId is undefined'')) \<and>
   (measureMultipartUploadCases e sza (cha @ chunk # chb) st = Some (Inr r) \<and>
    measure_chunks e sz cha r = Some (Inr t) \<and>
    multipart_budget sz = Inr b \<and>
    multipart_setup e sz chunk (emit DateNow (entered (total_name sz chunk) t)) = Inr (fx, sa) \<and>
    reaches e (total_name sz chunk) (multipart_fn e sz chunk fx) b
      (date_now e (length (trace t))) sa sk \<and>
    samples sk (total_name sz chunk) = Some xs \<and>
    (length xs < 3 \<or> date_now e (length (trace sk)) - date_now e (length (trace t)) < b) \<and>
    create_multipart_reply e
      (length (trace (if length xs < 3 then sk else emit DateNow sk)) + 3) = Inr (uo, ko) \<and>
    lacks_field uo ko \<longrightarrow>
      measureMultipartUploadCases e (sza @ sz # szb) (cha @ chunk # chb) st =
        Some (Inl (Error ''UploadId or Key is undefined''))) \<and>
   (send e (CreateBucketCommand (Bucket e)) st = Inr pa \<and>
    measure_scenario e ''get-traditional-presigned-url''
      (FnOnly (presigned_url_only e) :: unit bench) 1000 pa = Some (Inr pb) \<and>
    measure_scenario e ''initiate-multipart-only''
      (FnOnly (initiate_only e) :: unit bench) 1000 pb = Some (Inr pc) \<and>
    create_multipart_reply e (length (trace pc) + 3) = Inr (uo, ko) \<and> lacks_field uo ko \<longrightarrow>
      run e st = Some (Inl (Error ''Key or UploadId is undefined''))) \<and>
   (run_prefix e st = Some (Inr p) \<and>
    swa @ (sza @ sz # szb, cha @ chunk # chb) # swb = run_sweeps \<and>
    measure_sweeps e swa p = Some (Inr q) \<and>
    measureMultipartUploadCases e sza (cha @ chunk # chb) q = Some (Inr r) \<and>
    measure_chunks e sz cha r = Some (Inr t) \<and>
    multipart_budget sz = Inr b \<and>
    multipart_setup e sz chunk (emit DateNow (entered (total_name sz chunk) t)) = Inr (fx, sa) \<and>
    reaches e (total_name sz chunk) (multipart_fn e sz chunk fx) b
      (date_now e (length (trace t))) sa sk \<and>
    samples sk (total_name sz chunk) = Some xs \<and>
    (length xs < 3 \<or> date_now e (length (trace sk)) - date_now e (length (trace t)) < b) \<and>
    create_multipart_reply e
      (length (trace (if length xs < 3 then sk else emit DateNow sk)) + 3) = Inr (uo, ko) \<and>
    lacks_field uo ko \<longrightarrow>
      run e st = Some (Inl (Error ''UploadId or Key is undefined''))) \<and>
   (sizeToBytes sz = Inr rem \<and> sizeToBytes chunk = Inr cs \<and>
    create_multipart_reply e (length (trace st) + 2) = Inr (Some u, Some k) \<and>
    u \<noteq> [] \<and> k \<noteq> [] \<longrightarrow>
      multipart_fn e sz chunk fx st =
        multipart_parts e chunk fx rem cs u k
          (emit (Send (CreateMultipartUploadCommand (Bucket e)
                   (key_of (multipart_prefix sz chunk) (hrtime e (length (trace st)))
                      (hrtime e (Suc (length (trace st)))))))
             (emit HrTime (emit HrTime st))))"
proof (intro conjI impI)
  assume "sizeToBytes sz = Inr rem \<and> sizeToBytes chunk = Inr cs \<and>
    create_multipart_reply e (length (trace st) + 2) = Inr (uo, ko) \<and> lacks_field uo ko"
  then show "multipart_fn e sz chunk fx st = Some (Inl (Error ''UploadId or Key is undefined''))"
    using fn_lacks_field by blast
next
  assume "create_multipart_reply e (length (trace st) + 2) = Inr (uo, ko) \<and> lacks_field uo ko"
  then show "presign_setup e st = Inl (Error ''Key or UploadId is undefined'')"
    using presign_lacks_field by blast
next
  assume a: "measureMultipartUploadCases e sza (cha @ chunk # chb) st = Some (Inr r) \<and>
    measure_chunks e sz cha r = Some (Inr t) \<and>
    multipart_budget sz = Inr b \<and>
    multipart_setup e sz chunk (emit DateNow (entered (total_name sz chunk) t)) = Inr (fx, sa) \<and>
    reaches e (total_name sz chunk) (multipart_fn e sz chunk fx) b
      (date_now e (length (trace t))) sa sk \<and>
    samples sk (total_name sz chunk) = Some xs \<and>
    (length xs < 3 \<or> date_now e (length (trace sk)) - date_now e (length (trace t)) < b) \<and>
    create_multipart_reply e
      (length (trace (if length xs < 3 then sk else emit DateNow sk)) + 3) = Inr (uo, ko) \<and>
    lacks_field uo ko"
  then have m: "measure_multipart e sz chunk t = Some (Inl (Error ''UploadId or Key is undefined''))"
    by (intro measure_multipart_throws[where b = b and fx = fx and sa = sa and sk = sk
          and xs = xs and uo = uo and ko = ko]) simp_all
  have "measure_chunks e sz (cha @ chunk # chb) r =
          Some (Inl (Error ''UploadId or Key is undefined''))"
    unfolding measure_chunks_append using a m by simp
  then show "measureMultipartUploadCases e (sza @ sz # szb) (cha @ chunk # chb) st =
        Some (Inl (Error ''UploadId or Key is undefined''))"
    unfolding measure_sizes_append using a by simp
next
  assume "send e (CreateBucketCommand (Bucket e)) st = Inr pa \<and>
    measure_scenario e ''get-traditional-presigned-url''
      (FnOnly (presigned_url_only e) :: unit bench) 1000 pa = Some (Inr pb) \<and>
    measure_scenario e ''initiate-multipart-only''
      (FnOnly (initiate_only e) :: unit bench) 1000 pb = Some (Inr pc) \<and>
    create_multipart_reply e (length (trace pc) + 3) = Inr (uo, ko) \<and> lacks_field uo ko"
  then show "run e st = Some (Inl (Error ''Key or UploadId is undefined''))"
    using run_aborts_at_presign[of e st pa pb pc uo ko] by blast
next
  assume a: "run_prefix e st = Some (Inr p) \<and>
    swa @ (sza @ sz # szb, cha @ chunk # chb) # swb = run_sweeps \<and>
    measure_sweeps e swa p = Some (Inr q) \<and>
    measureMultipartUploadCases e sza (cha @ chunk # chb) q = Some (Inr r) \<and>
    measure_chunks e sz cha r = Some (Inr t) \<and>
    multipart_budget sz = Inr b \<and>
    multipart_setup e sz chunk (emit DateNow (entered (total_name sz chunk) t)) = Inr (fx, sa) \<and>
    reaches e (total_name sz chunk) (multipart_fn e sz chunk fx) b
      (date_now e (length (trace t))) sa sk \<and>
    samples sk (total_name sz chunk) = Some xs \<and>
    (length xs < 3 \<or> date_now e (length (trace sk)) - date_now e (length (trace t)) < b) \<and>
    create_multipart_reply e
      (length (trace (if length xs < 3 then sk else emit DateNow sk)) + 3) = Inr (uo, ko) \<and>
    lacks_field uo ko"
  then have m: "measure_multipart e sz chunk t = Some (Inl (Error ''UploadId or Key is undefined''))"
    by (intro measure_multipart_throws[where b = b and fx = fx and sa = sa and sk = sk
          and xs = xs and uo = uo and ko = ko]) simp_all
  from a show "run e st = Some (Inl (Error ''UploadId or Key is undefined''))"
    by (intro sweep_place_throws[where p = p and swa = swa and swb = swb and q = q
          and sizes = "sza @ sz # szb" and chunks = "cha @ chunk # chb" and sza = sza
          and szb = szb and sz = sz and r = r and cha = cha and chb = chb and chunk = chunk
          and t = t] m) simp_all
next
  assume "sizeToBytes sz = Inr rem \<and> sizeToBytes chunk = Inr cs \<and>
    create_multipart_reply e (length (trace st) + 2) = Inr (Some u, Some k) \<and>
    u \<noteq> [] \<and> k \<noteq> []"
  then show "multipart_fn e sz chunk fx st =
        multipart_parts e chunk fx rem cs u k
          (emit (Send (CreateMultipartUploadCommand (Bucket e)
                   (key_of (multipart_prefix sz chunk) (hrtime e (length (trace st)))
                      (hrtime e (Suc (length (trace st)))))))
             (emit HrTime (emit HrTime st)))"
    using fn_fields_present by blast
qed


theorem missing_session_field_aborts_witness:
  "multipart_fn fieldless_env ''5m'' ''5m'' (mk_fixture ''5m'' ''5m'' 5242880 0) st0 =
     Some (Inl (Error ''UploadId or Key is undefined'')) \<and>
   presign_setup fieldless_env st0 = Inl (Error ''Key or UploadId is undefined'') \<and>
   (\<exists>p. run_prefix late_env st0 = Some (Inr p) \<and>
        measureMultipartUploadCases late_env
          [''512k'', ''5m'', ''10m'', ''25m'', ''50m'', ''100m'']
          [''5m'', ''25m'', ''50m'', ''100m''] p =
            Some (Inl (Error ''UploadId or Key is undefined''))) \<and>
   run fieldless_env st0 = Some (Inl (Error ''Key or UploadId is undefined'')) \<and>
   run late_env st0 = Some (Inl (Error ''UploadId or Key is undefined'')) \<and>
   multipart_fn idle_env ''5m'' ''5m'' (mk_fixture ''5m'' ''5m'' 5242880 0) st0 =
     multipart_parts idle_env ''5m'' (mk_fixture ''5m'' ''5m'' 5242880 0)
       (Fin 5242880) (Fin 5242880) ''upload-1'' ''key-1''
       (emit (Send (CreateMultipartUploadCommand (Bucket idle_env)
                (key_of (multipart_prefix ''5m'' ''5m'') (hrtime idle_env (length (trace st0)))
                   (hrtime idle_env (Suc (length (trace st0)))))))
          (emit HrTime (emit HrTime st0)))"
proof -
  let ?T = "total_name ''512k'' ''5m''"
  let ?fx = "mk_fixture ''512k'' ''5m'' 5242880 524288"
  have lf: "lacks_field None None" by (simp add: lacks_field_def)
  have cr: "create_multipart_reply fieldless_env j = Inr (None, None)" for j
    by (rule fieldless_replies)
  from run_fieldless obtain pa pb pc where f:
    "send fieldless_env (CreateBucketCommand (Bucket fieldless_env)) st0 = Inr pa"
    "measure_scenario fieldless_env ''get-traditional-presigned-url''
           (FnOnly (presigned_url_only fieldless_env) :: unit bench) 1000 pa = Some (Inr pb)"
    "measure_scenario fieldless_env ''initiate-multipart-only''
           (FnOnly (initiate_only fieldless_env) :: unit bench) 1000 pb = Some (Inr pc)"
    by blast
  from late_place obtain p sa sk d where l:
    "run_prefix late_env st0 = Some (Inr p)"
    "multipart_setup late_env ''512k'' ''5m'' (emit DateNow (entered ?T p)) = Inr (?fx, sa)"
    "reaches late_env ?T (multipart_fn late_env ''512k'' ''5m'' ?fx) 2000
       (date_now late_env (length (trace p))) sa sk"
    "samples sk ?T = Some [d]"
    "create_multipart_reply late_env (length (trace sk) + 3) = Inr (None, None)"
    by blast
  note w = missing_session_field_aborts[where e = fieldless_env and st = st0 and sz = "''5m''"
      and chunk = "''5m''" and rem = "Fin 5242880" and cs = "Fin 5242880" and uo = None
      and ko = None and fx = "mk_fixture ''5m'' ''5m'' 5242880 0"
      and pa = pa and pb = pb and pc = pc]
  note v = missing_session_field_aborts[where e = late_env and sz = "''512k''"
      and chunk = "''5m''" and uo = None and ko = None and fx = ?fx and b = 2000
      and sza = "[]" and szb = "[''5m'', ''10m'', ''25m'', ''50m'', ''100m'']"
      and cha = "[]" and chb = "[''25m'', ''50m'', ''100m'']"
      and swa = "[]"
      and swb = "[([''1g'', ''2g'', ''5g''], [''5m'', ''25m'', ''50m'', ''100m'', ''200m'', ''500m''])]"
      and p = p and q = p and r = p and t = p and sa = sa and sk = sk and xs = "[d]"]
  note u = missing_session_field_aborts[where e = idle_env and st = st0 and sz = "''5m''"
      and chunk = "''5m''" and rem = "Fin 5242880" and cs = "Fin 5242880"
      and u = "''upload-1''" and k = "''key-1''" and fx = "mk_fixture ''5m'' ''5m'' 5242880 0"]
  have 1: "multipart_fn fieldless_env ''5m'' ''5m'' (mk_fixture ''5m'' ''5m'' 5242880 0) st0 =
     Some (Inl (Error ''UploadId or Key is undefined''))"
    using w lf cr sizeToBytes_5m by blast
  have 2: "presign_setup fieldless_env st0 = Inl (Error ''Key or UploadId is undefined'')"
    using w lf cr by blast
  have 4: "run fieldless_env st0 = Some (Inl (Error ''Key or UploadId is undefined''))"
    using w f lf cr by blast
  have h: "measureMultipartUploadCases late_env [] ([] @ ''5m'' # [''25m'', ''50m'', ''100m'']) p =
             Some (Inr p)"
    "measure_chunks late_env ''512k'' [] p = Some (Inr p)"
    "measure_sweeps late_env [] p = Some (Inr p)"
    "length [d] < 3"
    "create_multipart_reply late_env
       (length (trace (if length [d] < 3 then sk else emit DateNow sk)) + 3) = Inr (None, None)"
    "[] @ ([] @ ''512k'' # [''5m'', ''10m'', ''25m'', ''50m'', ''100m''],
           [] @ ''5m'' # [''25m'', ''50m'', ''100m'']) #
       [([''1g'', ''2g'', ''5g''], [''5m'', ''25m'', ''50m'', ''100m'', ''200m'', ''500m''])] =
     run_sweeps"
    using l(5) by (simp_all add: run_sweeps_def)
  have 3: "measureMultipartUploadCases late_env
          ([] @ ''512k'' # [''5m'', ''10m'', ''25m'', ''50m'', ''100m''])
          ([] @ ''5m'' # [''25m'', ''50m'', ''100m'']) p =
            Some (Inl (Error ''UploadId or Key is undefined''))"
    using v[where st = p] h l lf budget_512k by blast
  have 5: "run late_env st0 = Some (Inl (Error ''UploadId or Key is undefined''))"
    using v[where st = st0] h l lf budget_512k by blast
  have 6: "multipart_fn idle_env ''5m'' ''5m'' (mk_fixture ''5m'' ''5m'' 5242880 0) st0 =
     multipart_parts idle_env ''5m'' (mk_fixture ''5m'' ''5m'' 5242880 0)
       (Fin 5242880) (Fin 5242880) ''upload-1'' ''key-1''
       (emit (Send (CreateMultipartUploadCommand (Bucket idle_env)
                (key_of (multipart_prefix ''5m'' ''5m'') (hrtime idle_env (length (trace st0)))
                   (hrtime idle_env (Suc (length (trace st0)))))))
          (emit HrTime (emit HrTime st0)))"
    using u sizeToBytes_5m idle_replies(1)[of "length (trace st0) + 2"] by simp
  from 3 have m3: "measureMultipartUploadCases late_env
          [''512k'', ''5m'', ''10m'', ''25m'', ''50m'', ''100m'']
          [''5m'', ''25m'', ''50m'', ''100m''] p =
            Some (Inl (Error ''UploadId or Key is undefined''))"
    by (simp only: append_Nil)
  from 1 2 m3 4 5 6 l(1) show ?thesis by blast
qed


text \<open>
  The claim as stated fails: the action of the scenario initiate-multipart-only does not
  read the reply, and returns normally on a reply that carries neither identifier.
\<close>

theorem initiation_unchecked_counterexample:
  "create_multipart_reply fieldless_env 2 = Inr (None, None) \<and>
   initiate_only fieldless_env st0 =
     Some (Inr (emit (Send (CreateMultipartUploadCommand ''benchmark-00c0ffee00''
                              ''initiate-multipart-only/00''))
                  (emit HrTime (emit HrTime st0))))"
  by (simp add: initiate_only_fieldless fieldless_replies key_of_def show_nat.simps)

section \<open>The three entries of a multipart scenario\<close>

lemma iteration_idle:
  assumes sz: "sizeToBytes sz = Inr rem" and ch: "sizeToBytes chunk = Inr cs"
    and uc: "\<And>s. \<exists>rem' pn' tags1 s2.
               upload_chunks idle_env chunk ''upload-1'' ''key-1'' (chunkData fx) cs rem 1 [] s =
                 Some (Inr ((rem', pn', tags1), s2)) \<and> measures_tbl s2 = measures_tbl s"
    and um: "uploadMeasure fx = upload_name sz chunk"
    and cm: "completeMeasure fx = complete_name sz chunk"
    and xs: "samples st (total_name sz chunk) = Some xs"
    and ys: "samples st (upload_name sz chunk) = Some ys"
    and zs: "samples st (complete_name sz chunk) = Some zs"
  shows "\<exists>st'. sample_once idle_env (total_name sz chunk) (multipart_fn idle_env sz chunk fx) st =
                 Some (Inr st') \<and>
           samples st' (total_name sz chunk) = Some (xs @ [0]) \<and>
           samples st' (upload_name sz chunk) = Some (ys @ [0]) \<and>
           samples st' (complete_name sz chunk) = Some (zs @ [0])"
proof -
  note nd = names_distinct[of sz chunk]
  have "\<exists>s2. multipart_fn idle_env sz chunk fx (emit DateNow st) = Some (Inr s2)"
    by (rule fn_idle_returns[OF sz ch uc]) (simp_all add: um cm ys zs)
  then obtain s2 where fn: "multipart_fn idle_env sz chunk fx (emit DateNow st) = Some (Inr s2)"
    by blast
  from multipart_fn_result[OF fn] obtain a b ys' zs' where
    m2: "measures_tbl s2 =
           AList.update (completeMeasure fx) (zs' @ [b])
             (AList.update (uploadMeasure fx) (ys' @ [a]) (measures_tbl (emit DateNow st)))"
    by blast
  have t2: "samples (emit DateNow s2) (total_name sz chunk) = Some xs"
    using xs nd by (simp add: samples_def m2 um cm update_conv')
  have "\<exists>st'. sample_once idle_env (total_name sz chunk) (multipart_fn idle_env sz chunk fx) st =
          Some (Inr st')"
    by (simp add: sample_once_def now_eq fn push_measure_Some[OF t2] clearLine_tty idle_replies)
  then obtain st' where so:
    "sample_once idle_env (total_name sz chunk) (multipart_fn idle_env sz chunk fx) st =
       Some (Inr st')"
    by blast
  from sample_once_multipart[OF so um cm] xs ys zs
  have "samples st' (total_name sz chunk) = Some (xs @ [0]) \<and>
        samples st' (upload_name sz chunk) = Some (ys @ [0]) \<and>
        samples st' (complete_name sz chunk) = Some (zs @ [0])"
    by (auto simp: idle_replies upload_sample_def complete_sample_def)
  with so show ?thesis by blast
qed

lemma loop_idle:
  assumes sz: "sizeToBytes sz = Inr rem" and ch: "sizeToBytes chunk = Inr cs"
    and uc: "\<And>s. \<exists>rem' pn' tags1 s2.
               upload_chunks idle_env chunk ''upload-1'' ''key-1'' (chunkData fx) cs rem 1 [] s =
                 Some (Inr ((rem', pn', tags1), s2)) \<and> measures_tbl s2 = measures_tbl s"
    and um: "uploadMeasure fx = upload_name sz chunk"
    and cm: "completeMeasure fx = complete_name sz chunk"
    and xs: "samples st (total_name sz chunk) = Some []"
    and ys: "samples st (upload_name sz chunk) = Some []"
    and zs: "samples st (complete_name sz chunk) = Some []"
  shows "\<exists>st'. measure_loop idle_env (total_name sz chunk) (multipart_fn idle_env sz chunk fx) 0 0 st =
                 Some (Inr st') \<and>
           samples st' (total_name sz chunk) = Some [0, 0, 0] \<and>
           samples st' (upload_name sz chunk) = Some [0, 0, 0] \<and>
           samples st' (complete_name sz chunk) = Some [0, 0, 0]"
proof -
  let ?T = "total_name sz chunk"
  let ?loop = "measure_loop idle_env ?T (multipart_fn idle_env sz chunk fx) 0 0"
  from iteration_idle[OF sz ch uc um cm xs ys zs] obtain s1 where
    1: "sample_once idle_env ?T (multipart_fn idle_env sz chunk fx) st = Some (Inr s1)"
    "samples s1 ?T = Some [0]" "samples s1 (upload_name sz chunk) = Some [0]"
    "samples s1 (complete_name sz chunk) = Some [0]"
    by auto
  from iteration_idle[OF sz ch uc um cm 1(2,3,4)] obtain s2 where
    2: "sample_once idle_env ?T (multipart_fn idle_env sz chunk fx) s1 = Some (Inr s2)"
    "samples s2 ?T = Some [0, 0]" "samples s2 (upload_name sz chunk) = Some [0, 0]"
    "samples s2 (complete_name sz chunk) = Some [0, 0]"
    by auto
  from iteration_idle[OF sz ch uc um cm 2(2,3,4)] obtain s3 where
    3: "sample_once idle_env ?T (multipart_fn idle_env sz chunk fx) s2 = Some (Inr s3)"
    "samples s3 ?T = Some [0, 0, 0]" "samples s3 (upload_name sz chunk) = Some [0, 0, 0]"
    "samples s3 (complete_name sz chunk) = Some [0, 0, 0]"
    by auto
  have "?loop st = ?loop s1" by (simp add: measure_loop_rule[OF xs] 1(1))
  also have "\<dots> = ?loop s2" by (simp add: measure_loop_rule[OF 1(2)] 2(1))
  also have "\<dots> = ?loop s3" by (simp add: measure_loop_rule[OF 2(2)] 3(1))
  also have "\<dots> = Some (Inr (emit DateNow s3))"
    by (simp add: measure_loop_rule[OF 3(2)] idle_replies)
  finally show ?thesis using 3(2,3,4) by simp
qed

lemma sampling_idle_5m_5m:
  "\<exists>st'. measure_sampling idle_env (total_name ''5m'' ''5m'')
            (WithSetup (\<lambda>s. Some (multipart_setup idle_env ''5m'' ''5m'' s))
               (multipart_fn idle_env ''5m'' ''5m'')) 0 st0 = Some (Inr st') \<and>
          samples st' (total_name ''5m'' ''5m'') = Some [0, 0, 0] \<and>
          samples st' (upload_name ''5m'' ''5m'') = Some [0, 0, 0] \<and>
          samples st' (complete_name ''5m'' ''5m'') = Some [0, 0, 0]"
proof -
  let ?T = "total_name ''5m'' ''5m''" and ?U = "upload_name ''5m'' ''5m''"
    and ?C = "complete_name ''5m'' ''5m''"
  let ?fx = "mk_fixture ''5m'' ''5m'' 5242880 0"
  note nd = names_distinct[of "''5m''" "''5m''"]
  define s1 where "s1 = emit DateNow \<lparr>trace = [], measures_tbl = [(?T, [])]\<rparr>"
  define s2 where "s2 = s1\<lparr>measures_tbl := AList.update ?C [] (AList.update ?U [] (measures_tbl s1))\<rparr>"
  have su: "multipart_setup idle_env ''5m'' ''5m'' s1 = Inr (?fx, s2)"
    unfolding s2_def
    using setup_idle[OF sizeToBytes_5m sizeToBytes_5m _ _ js_rem_5m_5m, of s1] by simp
  have ms: "measure_sampling idle_env ?T
            (WithSetup (\<lambda>s. Some (multipart_setup idle_env ''5m'' ''5m'' s))
               (multipart_fn idle_env ''5m'' ''5m'')) 0 st0 =
          measure_loop idle_env ?T (multipart_fn idle_env ''5m'' ''5m'' ?fx) 0 0 s2"
    unfolding measure_sampling_def
    by (simp add: st0_def now_eq idle_replies s1_def[symmetric] su)
  have uc: "\<exists>rem' pn' tags1 sb.
          upload_chunks idle_env ''5m'' ''upload-1'' ''key-1'' (chunkData ?fx)
            (Fin 5242880) (Fin 5242880) 1 [] s =
          Some (Inr ((rem', pn', tags1), sb)) \<and> measures_tbl sb = measures_tbl s" for s
    by (simp add: upload_chunks_5m_5m)
  have e: "samples s2 ?T = Some []" "samples s2 ?U = Some []" "samples s2 ?C = Some []"
    using nd by (simp_all add: s2_def s1_def samples_def update_conv' st0_def)
  from loop_idle[OF sizeToBytes_5m sizeToBytes_5m uc _ _ e]
  show ?thesis unfolding ms by (simp add: mk_fixture_def)
qed






text \<open>
  Claim C10. In a multipart scenario, with the fixture that its setup returns, an
  iteration of the loop that returns normally appends one sample to each of the three
  entries: to the upload entry the time of the part uploads, to the complete entry the
  time of the finalize call, and to the total entry the difference of the two clock
  readings that enclose the whole iteration, the initiation, the part uploads and the
  finalize call. So an iteration keeps the three entries equally long, and they are
  equally long when the sampling of a scenario ends that began without samples under
  its name.
\<close>

theorem buckets_one_sample_each:
  "(multipart_setup e sz chunk s = Inr (fx, sa) \<and>
    sample_once e (total_name sz chunk) (multipart_fn e sz chunk fx) st = Some (Inr st') \<longrightarrow>
      (\<exists>xs ys zs key k u files.
         samples st (total_name sz chunk) = Some xs \<and>
         samples st (upload_name sz chunk) = Some ys \<and>
         samples st (complete_name sz chunk) = Some zs \<and>
         trace st' = trace st @ [DateNow] @
                       iteration_events e (Suc (length (trace st))) key k u files @ [DateNow] \<and>
         samples st' (total_name sz chunk) =
           Some (xs @ [date_now e (length (trace st) + 2 * length files + 9) -
                       date_now e (length (trace st))]) \<and>
         samples st' (upload_name sz chunk) =
           Some (ys @ [upload_sample e (length (trace st) + 4) files]) \<and>
         samples st' (complete_name sz chunk) =
           Some (zs @ [complete_sample e (length (trace st) + 4) files])) \<and>
      (balanced sz chunk st \<longrightarrow> balanced sz chunk st')) \<and>
   (measure_sampling e (total_name sz chunk)
      (WithSetup (\<lambda>s. Some (multipart_setup e sz chunk s)) (multipart_fn e sz chunk))
      b st = Some (Inr st') \<and>
    (samples st (total_name sz chunk) = None \<or> samples st (total_name sz chunk) = Some []) \<longrightarrow>
      balanced sz chunk st')"
proof (intro conjI impI)
  assume a: "multipart_setup e sz chunk s = Inr (fx, sa) \<and>
    sample_once e (total_name sz chunk) (multipart_fn e sz chunk fx) st = Some (Inr st')"
  then have so: "sample_once e (total_name sz chunk) (multipart_fn e sz chunk fx) st = Some (Inr st')"
    and um: "uploadMeasure fx = upload_name sz chunk"
    and cm: "completeMeasure fx = complete_name sz chunk"
    using multipart_setup_names(1,2)[of e sz chunk s fx sa] by simp_all
  show "\<exists>xs ys zs key k u files.
         samples st (total_name sz chunk) = Some xs \<and>
         samples st (upload_name sz chunk) = Some ys \<and>
         samples st (complete_name sz chunk) = Some zs \<and>
         trace st' = trace st @ [DateNow] @
                       iteration_events e (Suc (length (trace st))) key k u files @ [DateNow] \<and>
         samples st' (total_name sz chunk) =
           Some (xs @ [date_now e (length (trace st) + 2 * length files + 9) -
                       date_now e (length (trace st))]) \<and>
         samples st' (upload_name sz chunk) =
           Some (ys @ [upload_sample e (length (trace st) + 4) files]) \<and>
         samples st' (complete_name sz chunk) =
           Some (zs @ [complete_sample e (length (trace st) + 4) files])"
    by (rule sample_once_multipart[OF so um cm])
  assume "balanced sz chunk st"
  then show "balanced sz chunk st'" by (rule sample_once_balanced[OF so um cm])
next
  assume "measure_sampling e (total_name sz chunk)
      (WithSetup (\<lambda>s. Some (multipart_setup e sz chunk s)) (multipart_fn e sz chunk))
      b st = Some (Inr st') \<and>
    (samples st (total_name sz chunk) = None \<or> samples st (total_name sz chunk) = Some [])"
  then show "balanced sz chunk st'" using measure_sampling_balanced by blast
qed

theorem buckets_one_sample_each_witness:
  "(\<exists>st'. sample_once idle_env (total_name ''5m'' ''5m'')
             (multipart_fn idle_env ''5m'' ''5m'' (mk_fixture ''5m'' ''5m'' 5242880 0))
             (ready_state ''5m'' ''5m'') = Some (Inr st') \<and>
      samples st' (total_name ''5m'' ''5m'') = Some [0] \<and>
      samples st' (upload_name ''5m'' ''5m'') = Some [0] \<and>
      samples st' (complete_name ''5m'' ''5m'') = Some [0] \<and>
      balanced ''5m'' ''5m'' st') \<and>
   (\<exists>st'. measure_sampling idle_env (total_name ''5m'' ''5m'')
            (WithSetup (\<lambda>s. Some (multipart_setup idle_env ''5m'' ''5m'' s))
               (multipart_fn idle_env ''5m'' ''5m'')) 0 st0 = Some (Inr st') \<and>
      balanced ''5m'' ''5m'' st')"
proof -
  let ?T = "total_name ''5m'' ''5m''" and ?U = "upload_name ''5m'' ''5m''"
    and ?C = "complete_name ''5m'' ''5m''"
  let ?fx = "mk_fixture ''5m'' ''5m'' 5242880 0"
  let ?r = "ready_state ''5m'' ''5m''"
  note nd = names_distinct[of "''5m''" "''5m''"]
  have su: "multipart_setup idle_env ''5m'' ''5m'' st0 =
     Inr (?fx, st0\<lparr>measures_tbl := AList.update ?C [] (AList.update ?U [] (measures_tbl st0))\<rparr>)"
    using setup_idle[OF sizeToBytes_5m sizeToBytes_5m _ _ js_rem_5m_5m, of st0] by simp
  have r: "samples ?r ?T = Some []" "samples ?r ?U = Some []" "samples ?r ?C = Some []"
    using nd by (simp_all add: ready_state_def samples_def)
  have br: "balanced ''5m'' ''5m'' ?r" using r by (simp add: balanced_def)
  have uc: "\<exists>rem' pn' tags1 sb.
          upload_chunks idle_env ''5m'' ''upload-1'' ''key-1'' (chunkData ?fx)
            (Fin 5242880) (Fin 5242880) 1 [] s =
          Some (Inr ((rem', pn', tags1), sb)) \<and> measures_tbl sb = measures_tbl s" for s
    by (simp add: upload_chunks_5m_5m)
  from iteration_idle[OF sizeToBytes_5m sizeToBytes_5m uc _ _ r] obtain s1 where
    so: "sample_once idle_env ?T (multipart_fn idle_env ''5m'' ''5m'' ?fx) ?r = Some (Inr s1)"
    by (auto simp: mk_fixture_def)
  from sampling_idle_5m_5m obtain s2 where
    ms: "measure_sampling idle_env ?T
            (WithSetup (\<lambda>s. Some (multipart_setup idle_env ''5m'' ''5m'' s))
               (multipart_fn idle_env ''5m'' ''5m'')) 0 st0 = Some (Inr s2)"
    by blast
  have e0: "samples st0 ?T = None \<or> samples st0 ?T = Some []"
    by (simp add: samples_def st0_def)
  note w1 = buckets_one_sample_each[where e = idle_env and sz = "''5m''" and chunk = "''5m''"
      and s = st0 and fx = ?fx and st = ?r and st' = s1,
      THEN conjunct1, rule_format, OF conjI, OF su so]
  note w2 = buckets_one_sample_each[where e = idle_env and sz = "''5m''" and chunk = "''5m''"
      and b = 0 and st = st0 and st' = s2, THEN conjunct2, rule_format, OF conjI, OF ms e0]
  from w1 r br have
    "samples s1 ?T = Some [0] \<and> samples s1 ?U = Some [0] \<and> samples s1 ?C = Some [0] \<and>
     balanced ''5m'' ''5m'' s1"
    by (auto simp: idle_replies upload_sample_def complete_sample_def)
  with so w2 ms show ?thesis by blast
qed

section \<open>The sampling loop, for every scenario\<close>




section \<open>The reporter on a scenario without samples\<close>








lemma fast_stats_empty: "stats_amean fast_stats [ArrayArg []] = Num NaN"
  by (simp add: fast_stats_def stats_with_def pushed_def)



text \<open>In the table of upload types the cell of a scenario without samples reads NaN,
  and so does its point in the two charts: the operators \<open>??\<close> and \<open>?.\<close> of lines 184 and
  195 catch a size that has no scenario, not a mean that is NaN.\<close>

lemma upload_table_prints_NaN:
  "\<exists>rep. fullUploadStats fast_stats empty_upload_store = Inr rep \<and>
     tableValues rep ! 1 = [''Traditional'', [], ''NaN'', [], [], [], [], [], [], [], []] \<and>
     chart_series rep ! 0 = [Null, Num NaN, Null, Null, Null, Null, Null, Null, Null, Null]"
  by (simp add: fullUploadStats_def empty_upload_store_def collect_key_def startsWith_def
      assign_def byType_init_def row_names_def row_labels_def segment_def fast_stats_empty
      row_of_def tableFromRow_def dataFromRow_def full_sizes_def nullish_def toFixed3_def)




end
